theory Spec2Isabelle
  imports Main "HOL-Library.Sublist" "HOL-Library.AList"
begin

section \<open>Strings and the class-name sanitizer\<close>

text \<open>
  A JavaScript string is a sequence of UTF-16 code units. \<open>sanitizeClassName\<close> reads its
  input through three things that the engine provides and the sources do not contain:
  the capital of a code unit (\<open>toUpperCase\<close> on the one-unit string \<open>input.charAt(0)\<close>,
  which is a string of one unit or of several, as \<open>SS\<close> for U+00DF), the code units that
  \<open>trim\<close> strips, and the code units of the ASCII characters of the literals. They are
  the parameters \<open>toUpperCase\<close>, \<open>isWhiteSpace\<close> and \<open>unit\<close> of the model, which works on
  any type \<open>'u\<close> of code units.
\<close>

text \<open>\<open>input.charAt(0).toUpperCase() + input.slice(1)\<close>\<close>

definition capitalize :: "('u \<Rightarrow> 'u list) \<Rightarrow> 'u list \<Rightarrow> 'u list" where
  "capitalize toUpperCase input =
     (case input of [] \<Rightarrow> [] | c # cs \<Rightarrow> toUpperCase c @ cs)"

text \<open>
  The first alternative of a regular expression \<open>p1|p2|...\<close> of literals that matches at
  the head of the input.
\<close>

fun match_alt :: "'u list list \<Rightarrow> 'u list \<Rightarrow> 'u list option" where
  "match_alt [] s = None"
| "match_alt (p # ps) s = (if prefix p s then Some p else match_alt ps s)"

text \<open>
  \<open>s.replace(/p1|p2|.../g, rep)\<close> for non-empty literal alternatives: one scan from the
  left; where an alternative matches, the replacement is emitted and the scan resumes
  behind the match (the replacement is not scanned again); elsewhere the code unit is
  copied.
\<close>

fun replace_g :: "'u list list \<Rightarrow> 'u list \<Rightarrow> 'u list \<Rightarrow> 'u list" where
  "replace_g alts rep [] = []"
| "replace_g alts rep (c # cs) =
     (case match_alt alts (c # cs) of
        None \<Rightarrow> c # replace_g alts rep cs
      | Some p \<Rightarrow> rep @ replace_g alts rep (drop (length p - 1) cs))"

text \<open>\<open>s.trim()\<close>: the white space at both ends is dropped.\<close>

definition trim :: "('u \<Rightarrow> bool) \<Rightarrow> 'u list \<Rightarrow> 'u list" where
  "trim isWhiteSpace s = rev (dropWhile isWhiteSpace (rev (dropWhile isWhiteSpace s)))"

text \<open>
  \<^verbatim>\<open>
  export function sanitizeClassName(input: string) {
    return (input.charAt(0).toUpperCase() + input.slice(1))
      .replace(/Renderer|Model/g, '')
      .replace(/Radio/g, 'Mix').trim();
  }
  \<close>
\<close>

definition sanitizeClassName_units ::
  "('u \<Rightarrow> 'u list) \<Rightarrow> ('u \<Rightarrow> bool) \<Rightarrow> (char \<Rightarrow> 'u) \<Rightarrow> 'u list \<Rightarrow> 'u list" where
  "sanitizeClassName_units toUpperCase isWhiteSpace unit input =
     trim isWhiteSpace
       (replace_g [map unit ''Radio''] (map unit ''Mix'')
         (replace_g [map unit ''Renderer'', map unit ''Model''] []
           (capitalize toUpperCase input)))"

text \<open>Whether one of the literals occurs somewhere in the string.\<close>

fun contains_any :: "'u list list \<Rightarrow> 'u list \<Rightarrow> bool" where
  "contains_any alts [] = False"
| "contains_any alts (c # cs) = (match_alt alts (c # cs) \<noteq> None \<or> contains_any alts cs)"

text \<open>
  What the capitals of Unicode have in common, as far as the sanitizer can tell: the
  capital of a code unit is one code unit, or it is longer and then begins with a unit
  that is not the original, not white space, and neither \<open>R\<close> nor \<open>M\<close> (the first
  letters of the three literals); such are \<open>SS\<close> for U+00DF and \<open>FI\<close> for U+FB01.
\<close>

definition plain_capitals :: "('u \<Rightarrow> 'u list) \<Rightarrow> ('u \<Rightarrow> bool) \<Rightarrow> (char \<Rightarrow> 'u) \<Rightarrow> bool" where
  "plain_capitals toUpperCase isWhiteSpace unit \<longleftrightarrow>
     (\<forall>c. length (toUpperCase c) = 1 \<or>
          (toUpperCase c \<noteq> [] \<and> hd (toUpperCase c) \<noteq> c \<and>
           \<not> isWhiteSpace (hd (toUpperCase c)) \<and>
           hd (toUpperCase c) \<noteq> unit CHR ''R'' \<and> hd (toUpperCase c) \<noteq> unit CHR ''M''))"

subsection \<open>The documented algorithm\<close>

text \<open>
  The specification's wording of the class name: (i) capitalize the first letter;
  (ii) remove the substrings \<open>Renderer\<close> and \<open>Model\<close> anywhere; (iii) replace \<open>Radio\<close>
  with \<open>Mix\<close>; (iv) trim; both substitutions on all occurrences. "All occurrences" is
  read as the occurrences found from the left, each starting behind the previous one:
  \<open>first_match\<close> splits a string at its leftmost occurrence.
\<close>

fun first_match :: "'u list list \<Rightarrow> 'u list \<Rightarrow> ('u list \<times> 'u list \<times> 'u list) option" where
  "first_match pats [] = None"
| "first_match pats (c # cs) =
     (case match_alt pats (c # cs) of
        Some p \<Rightarrow> Some ([], p, drop (length p) (c # cs))
      | None \<Rightarrow>
          (case first_match pats cs of
             None \<Rightarrow> None
           | Some (u, p, v) \<Rightarrow> Some (c # u, p, v)))"

lemma match_alt_SomeD: "match_alt alts s = Some p \<Longrightarrow> p \<in> set alts \<and> prefix p s"
  by (induction alts) (auto split: if_splits)

lemma first_match_decomp: "first_match pats s = Some (u, p, v) \<Longrightarrow> s = u @ p @ v"
proof (induction s arbitrary: u)
  case Nil
  then show ?case by simp
next
  case (Cons c cs)
  show ?case
  proof (cases "match_alt pats (c # cs)")
    case None
    with Cons.prems obtain u' where "first_match pats cs = Some (u', p, v)" "u = c # u'"
      by (auto split: option.splits)
    with Cons.IH show ?thesis by simp
  next
    case (Some q)
    with Cons.prems have "u = []" "q = p" "v = drop (length p) (c # cs)" by auto
    moreover from match_alt_SomeD[OF Some] have "prefix q (c # cs)" by simp
    ultimately show ?thesis by (metis append_Nil append_eq_conv_conj prefixE)
  qed
qed

function spec_replace_all :: "'u list list \<Rightarrow> 'u list \<Rightarrow> 'u list \<Rightarrow> 'u list" where
  "spec_replace_all pats rep s =
     (case first_match pats s of
        None \<Rightarrow> s
      | Some (u, p, v) \<Rightarrow> if p = [] then s else u @ rep @ spec_replace_all pats rep v)"
  by pat_completeness auto
termination
proof (relation "measure (\<lambda>(pats, rep, s). length s)")
  show "wf (measure (\<lambda>(pats, rep, s). length s))" by simp
next
  fix pats :: "'u list list" and rep s :: "'u list" and x2 u y p v
  assume "first_match pats s = Some x2" "(u, y) = x2" "(p, v) = y" "p \<noteq> []"
  then have "first_match pats s = Some (u, p, v)" by simp
  from first_match_decomp[OF this] \<open>p \<noteq> []\<close>
  show "((pats, rep, v), pats, rep, s) \<in> measure (\<lambda>(pats, rep, s). length s)"
    by simp
qed

declare spec_replace_all.simps [simp del]

definition spec_sanitize ::
  "('u \<Rightarrow> 'u list) \<Rightarrow> ('u \<Rightarrow> bool) \<Rightarrow> (char \<Rightarrow> 'u) \<Rightarrow> 'u list \<Rightarrow> 'u list" where
  "spec_sanitize toUpperCase isWhiteSpace unit k =
     trim isWhiteSpace
       (spec_replace_all [map unit ''Radio''] (map unit ''Mix'')
         (spec_replace_all [map unit ''Renderer'', map unit ''Model''] []
           (if k = [] then [] else toUpperCase (hd k) @ tl k)))"


subsection \<open>Strings of the parser\<close>

text \<open>
  In the rest of the development a string is a \<^typ>\<open>string\<close>: its code units are the
  characters U+0000 to U+00FF, and \<open>unit\<close> is the identity. The capital of such a unit
  follows Unicode: \<open>a\<close> to \<open>z\<close> and U+00E0 to U+00FE without U+00F7 have the capital
  32 below, the capital of U+00DF is \<open>SS\<close>, a unit without a capital is its own. The
  capitals of U+00B5 and U+00FF are U+039C and U+0178, which no \<^typ>\<open>char\<close> holds: the
  table leaves these two units as they are, and a key that begins with one of them is
  outside the strings of the parser model. The white space of \<open>trim\<close> below U+0100 is
  U+0009 to U+000D, U+0020 and U+00A0.
\<close>

definition toUpperCase_char :: "char \<Rightarrow> string" where
  "toUpperCase_char c =
     (if c = CHR 0xDF then ''SS''
      else
        (case map_of
                (zip (''abcdefghijklmnopqrstuvwxyz'' @
                      [CHR 0xE0, CHR 0xE1, CHR 0xE2, CHR 0xE3, CHR 0xE4, CHR 0xE5, CHR 0xE6,
                       CHR 0xE7, CHR 0xE8, CHR 0xE9, CHR 0xEA, CHR 0xEB, CHR 0xEC, CHR 0xED,
                       CHR 0xEE, CHR 0xEF, CHR 0xF0, CHR 0xF1, CHR 0xF2, CHR 0xF3, CHR 0xF4,
                       CHR 0xF5, CHR 0xF6, CHR 0xF8, CHR 0xF9, CHR 0xFA, CHR 0xFB, CHR 0xFC,
                       CHR 0xFD, CHR 0xFE])
                     (''ABCDEFGHIJKLMNOPQRSTUVWXYZ'' @
                      [CHR 0xC0, CHR 0xC1, CHR 0xC2, CHR 0xC3, CHR 0xC4, CHR 0xC5, CHR 0xC6,
                       CHR 0xC7, CHR 0xC8, CHR 0xC9, CHR 0xCA, CHR 0xCB, CHR 0xCC, CHR 0xCD,
                       CHR 0xCE, CHR 0xCF, CHR 0xD0, CHR 0xD1, CHR 0xD2, CHR 0xD3, CHR 0xD4,
                       CHR 0xD5, CHR 0xD6, CHR 0xD8, CHR 0xD9, CHR 0xDA, CHR 0xDB, CHR 0xDC,
                       CHR 0xDD, CHR 0xDE])) c of
           Some u \<Rightarrow> [u]
         | None \<Rightarrow> [c]))"

definition isWhiteSpace :: "char \<Rightarrow> bool" where
  "isWhiteSpace c \<longleftrightarrow>
     c \<in> set [CHR 0x09, CHR 0x0A, CHR 0x0B, CHR 0x0C, CHR 0x0D, CHR 0x20, CHR 0xA0]"

definition sanitizeClassName :: "string \<Rightarrow> string" where
  "sanitizeClassName input =
     sanitizeClassName_units toUpperCase_char isWhiteSpace (\<lambda>c. c) input"


section \<open>Raw nodes\<close>

text \<open>
  A raw node is a deserialized JSON value (\<open>RawNode\<close> is \<open>any\<close> in the source). An object
  is the list of its own properties in the order \<open>Object.keys\<close> enumerates them. Numbers
  are modelled by integers; the parser only tests them for truthiness.
\<close>

datatype raw =
    Undefined
  | Null
  | RBool bool
  | RNum int
  | RStr string
  | RArr "raw list"
  | RObj "(string \<times> raw) list"

text \<open>Values thrown by the code: \<open>Error\<close>, \<open>TypeError\<close> and the parser's \<open>ParsingError\<close>.\<close>

datatype exn = Error string | TypeError string | ParsingError string

fun truthy :: "raw \<Rightarrow> bool" where
  "truthy Undefined = False"
| "truthy Null = False"
| "truthy (RBool b) = b"
| "truthy (RNum n) = (n \<noteq> 0)"
| "truthy (RStr s) = (s \<noteq> [])"
| "truthy (RArr xs) = True"
| "truthy (RObj kvs) = True"

fun nullish :: "raw \<Rightarrow> bool" where
  "nullish Undefined = True"
| "nullish Null = True"
| "nullish v = False"

fun isArray :: "raw \<Rightarrow> bool" where
  "isArray (RArr xs) = True"
| "isArray v = False"

fun elements :: "raw \<Rightarrow> raw list" where
  "elements (RArr xs) = xs"
| "elements v = []"

fun digit_char :: "nat \<Rightarrow> char" where
  "digit_char n = (''0123456789'' ! (n mod 10))"

fun index_key :: "nat \<Rightarrow> string" where
  "index_key n = (if n < 10 then [digit_char n] else index_key (n div 10) @ [digit_char n])"

declare index_key.simps [simp del]

text \<open>
  \<open>Object.keys(data)\<close>: it throws on \<open>undefined\<close> and \<open>null\<close>, is empty for a number or a
  boolean, and lists the indices of a string or an array.
\<close>

fun object_keys :: "raw \<Rightarrow> exn + string list" where
  "object_keys Undefined = Inl (TypeError ''Cannot convert undefined or null to object'')"
| "object_keys Null = Inl (TypeError ''Cannot convert undefined or null to object'')"
| "object_keys (RBool b) = Inr []"
| "object_keys (RNum n) = Inr []"
| "object_keys (RStr s) = Inr (map index_key [0..<length s])"
| "object_keys (RArr xs) = Inr (map index_key [0..<length xs])"
| "object_keys (RObj kvs) = Inr (map fst kvs)"

text \<open>
  \<open>data[key]\<close> on a value that is neither \<open>undefined\<close> nor \<open>null\<close>: the own properties
  of the value. The properties a string or an array inherits from its prototype
  (\<open>length\<close>, \<open>map\<close>, \<open>entries\<close>, ...) are not among them; where the parser reads such a
  name from a raw value (\<open>data.entries\<close> in \<open>parseResponse\<close>), the reading function
  accounts for it.
\<close>

fun getprop :: "raw \<Rightarrow> string \<Rightarrow> raw" where
  "getprop (RObj kvs) k = (case map_of kvs k of Some v \<Rightarrow> v | None \<Rightarrow> Undefined)"
| "getprop (RArr xs) k =
     (case find (\<lambda>i. index_key i = k) [0..<length xs] of
        Some i \<Rightarrow> xs ! i
      | None \<Rightarrow> Undefined)"
| "getprop (RStr s) k =
     (case find (\<lambda>i. index_key i = k) [0..<length s] of
        Some i \<Rightarrow> RStr [s ! i]
      | None \<Rightarrow> Undefined)"
| "getprop v k = Undefined"

text \<open>\<open>v?.k\<close> and \<open>v.k\<close>: the first yields \<open>undefined\<close> on a nullish value, the second throws.\<close>

definition opt_prop :: "raw \<Rightarrow> string \<Rightarrow> raw" where
  "opt_prop v k = (if nullish v then Undefined else getprop v k)"

definition read_member :: "raw \<Rightarrow> string \<Rightarrow> exn + raw" where
  "read_member v k =
     (if nullish v then Inl (TypeError (''Cannot read properties of undefined (reading '' @ k @ '')''))
      else Inr (getprop v k))"

section \<open>Parser state: memo, registry and error handler\<close>

datatype expected = ExpectedOne string | ExpectedMany "string list"

type_synonym KeyInfo = "(string \<times> string) list"

text \<open>
  \<open>ParserError\<close>: the six categories handed to \<open>ERROR_HANDLER\<close>.
\<close>

datatype ParserError =
    Typecheck string raw expected
  | Parse string raw exn
  | Mutation_data_missing string
  | Mutation_data_invalid string nat nat "string list"
  | Class_not_found string KeyInfo
  | Class_changed string KeyInfo KeyInfo

text \<open>
  \<open>Memo\<close> extends \<open>Map<string, YTNode[]>\<close>: an association list in insertion order.
\<close>

type_synonym 'n Memo = "(string \<times> 'n list) list"

text \<open>
  The module state: the active memo \<open>MEMO\<close> (\<open>Memo | null\<close>), the events that have
  been handed to \<open>ERROR_HANDLER\<close> (oldest first), and in \<open>world\<close> whatever else node
  constructors read and write, the contents of \<open>RUNTIME_NODES\<close> included. The handler
  is the reporting one: it records the event and returns.
\<close>

record ('n, 'x) pstate =
  MEMO :: "'n Memo option"
  reported :: "ParserError list"
  world :: 'x

text \<open>
  A node class (\<open>YTNodeConstructor\<close>): its static \<open>type\<close> and its constructor, which
  may throw, and may parse nested items, report events and touch the world.
\<close>

record ('n, 'x) YTNodeConstructor =
  type_tag :: string
  construct :: "raw \<Rightarrow> ('n, 'x) pstate \<Rightarrow> (exn + 'n) \<times> ('n, 'x) pstate"

type_synonym ('n, 'x) registry = "'x \<Rightarrow> string \<Rightarrow> ('n, 'x) YTNodeConstructor option"

type_synonym ('n, 'x) generator =
  "string \<Rightarrow> raw \<Rightarrow> ('n, 'x) pstate \<Rightarrow> (exn + ('n, 'x) YTNodeConstructor) \<times> ('n, 'x) pstate"

definition IGNORED_LIST :: "string list" where
  "IGNORED_LIST =
     [''AdSlot'', ''DisplayAd'', ''SearchPyv'', ''MealbarPromo'', ''PrimetimePromo'',
      ''PromotedSparklesWeb'', ''CompactPromotedVideo'', ''BrandVideoShelf'',
      ''BrandVideoSingleton'', ''StatementBanner'', ''GuideSigninPromo'',
      ''AdsEngagementPanelContent'', ''MiniGameCardView'']"

definition shouldIgnore :: "string \<Rightarrow> bool" where
  "shouldIgnore classname \<longleftrightarrow> List.member IGNORED_LIST classname"

definition ERROR_HANDLER :: "ParserError \<Rightarrow> ('n, 'x) pstate \<Rightarrow> ('n, 'x) pstate" where
  "ERROR_HANDLER ev s = s\<lparr>reported := reported s @ [ev]\<rparr>"

definition clearMemo :: "('n, 'x) pstate \<Rightarrow> ('n, 'x) pstate" where
  "clearMemo s = s\<lparr>MEMO := None\<rparr>"

definition createMemo :: "('n, 'x) pstate \<Rightarrow> ('n, 'x) pstate" where
  "createMemo s = s\<lparr>MEMO := Some []\<rparr>"

text \<open>
  \<^verbatim>\<open>
  function _addToMemo(classname: string, result: YTNode) {
    if (!MEMO)
      return;
    const list = MEMO.get(classname);
    if (!list)
      return MEMO.set(classname, [ result ]);
    list.push(result);
  }
  \<close>
\<close>

definition addToMemo :: "string \<Rightarrow> 'n \<Rightarrow> ('n, 'x) pstate \<Rightarrow> ('n, 'x) pstate" where
  "addToMemo classname result s =
     (case MEMO s of
        None \<Rightarrow> s
      | Some memo \<Rightarrow>
          (case map_of memo classname of
             None \<Rightarrow> s\<lparr>MEMO := Some (AList.update classname [result] memo)\<rparr>
           | Some list \<Rightarrow> s\<lparr>MEMO := Some (AList.update classname (list @ [result]) memo)\<rparr>))"

definition getMemo :: "('n, 'x) pstate \<Rightarrow> exn + 'n Memo" where
  "getMemo s =
     (case MEMO s of
        None \<Rightarrow> Inl (Error ''Parser#getMemo() called before Parser#createMemo()'')
      | Some memo \<Rightarrow> Inr memo)"

definition hasParser :: "('n, 'x) registry \<Rightarrow> string \<Rightarrow> ('n, 'x) pstate \<Rightarrow> bool" where
  "hasParser RUNTIME_NODES classname s \<longleftrightarrow> RUNTIME_NODES (world s) classname \<noteq> None"

definition getParserByName ::
  "('n, 'x) registry \<Rightarrow> string \<Rightarrow> ('n, 'x) pstate \<Rightarrow> exn + ('n, 'x) YTNodeConstructor" where
  "getParserByName RUNTIME_NODES classname s =
     (case RUNTIME_NODES (world s) classname of
        None \<Rightarrow> Inl (Error (''Module not found: '' @ classname))
      | Some ParserConstructor \<Rightarrow> Inr ParserConstructor)"

section \<open>Item and array parser\<close>

text \<open>
  Source lines 549 to 553: the registered class, or else the class that
  \<open>generateRuntimeClass(classname, data[keys[0]], ERROR_HANDLER)\<close> makes. The generator
  is not among the sources and is a parameter: it may throw, report and touch the world.
\<close>

definition TargetClass_of ::
  "('n, 'x) registry \<Rightarrow> ('n, 'x) generator \<Rightarrow> string \<Rightarrow> raw \<Rightarrow>
   ('n, 'x) pstate \<Rightarrow> (exn + ('n, 'x) YTNodeConstructor) \<times> ('n, 'x) pstate" where
  "TargetClass_of RUNTIME_NODES generateRuntimeClass classname classdata s =
     (if hasParser RUNTIME_NODES classname s
      then (getParserByName RUNTIME_NODES classname s, s)
      else generateRuntimeClass classname classdata s)"

text \<open>
  Source lines 555 to 575, the test on \<open>validTypes\<close>: an array passes when
  \<open>validTypes.some((type) => type.type === TargetClass.type)\<close>, a single class when
  \<open>TargetClass.type !== validTypes.type\<close> is false. A class is given by its \<open>type\<close>.
\<close>

fun typecheck :: "expected \<Rightarrow> string \<Rightarrow> bool" where
  "typecheck (ExpectedMany types) tag = list_ex (\<lambda>t. t = tag) types"
| "typecheck (ExpectedOne t) tag = (tag = t)"

text \<open>
  Source lines 577 to 580: \<open>new TargetClass(data[keys[0]])\<close>, then \<open>_addToMemo\<close>.
\<close>

definition construct_and_memo ::
  "('n, 'x) YTNodeConstructor \<Rightarrow> string \<Rightarrow> raw \<Rightarrow>
   ('n, 'x) pstate \<Rightarrow> (exn + 'n option) \<times> ('n, 'x) pstate" where
  "construct_and_memo TargetClass classname classdata s =
     (case construct TargetClass classdata s of
        (Inl err, s1) \<Rightarrow> (Inl err, s1)
      | (Inr result, s1) \<Rightarrow> (Inr (Some result), addToMemo classname result s1))"

text \<open>
  The body of the \<open>try\<close> block of \<open>parseItem\<close> (source lines 549 to 580). \<open>Inl\<close> is a
  throw inside the block; \<open>Inr\<close> is the value the block returns.
\<close>

definition parseItem_try ::
  "('n, 'x) registry \<Rightarrow> ('n, 'x) generator \<Rightarrow> string \<Rightarrow> raw \<Rightarrow> expected option \<Rightarrow>
   ('n, 'x) pstate \<Rightarrow> (exn + 'n option) \<times> ('n, 'x) pstate" where
  "parseItem_try RUNTIME_NODES generateRuntimeClass classname classdata validTypes s =
     (case TargetClass_of RUNTIME_NODES generateRuntimeClass classname classdata s of
        (Inl err, s1) \<Rightarrow> (Inl err, s1)
      | (Inr TargetClass, s1) \<Rightarrow>
          (case validTypes of
             Some valid \<Rightarrow>
               if \<not> typecheck valid (type_tag TargetClass)
               then (Inr None, ERROR_HANDLER (Typecheck classname classdata valid) s1)
               else construct_and_memo TargetClass classname classdata s1
           | None \<Rightarrow> construct_and_memo TargetClass classname classdata s1))"

text \<open>
  \<open>parseItem(data, validTypes)\<close>. The result \<open>None\<close> is \<open>null\<close>. \<open>Inl\<close> would be a throw
  that leaves \<open>parseItem\<close>; the only statement outside the \<open>try\<close> that can throw at all
  is \<open>Object.keys\<close>.
\<close>

definition parseItem ::
  "('n, 'x) registry \<Rightarrow> ('n, 'x) generator \<Rightarrow> raw \<Rightarrow> expected option \<Rightarrow>
   ('n, 'x) pstate \<Rightarrow> (exn + 'n option) \<times> ('n, 'x) pstate" where
  "parseItem RUNTIME_NODES generateRuntimeClass data validTypes s =
     (if \<not> truthy data then (Inr None, s)
      else
        (case object_keys data of
           Inl err \<Rightarrow> (Inl err, s)
         | Inr keys \<Rightarrow>
             if keys = [] then (Inr None, s)
             else
               let classname = sanitizeClassName (hd keys) in
               if \<not> shouldIgnore classname then
                 (case parseItem_try RUNTIME_NODES generateRuntimeClass classname
                         (getprop data (hd keys)) validTypes s of
                    (Inr result, s1) \<Rightarrow> (Inr result, s1)
                  | (Inl err, s1) \<Rightarrow>
                      (Inr None, ERROR_HANDLER (Parse classname (getprop data (hd keys)) err) s1))
               else (Inr None, s)))"

text \<open>
  Modelled from the spec: \<open>observe\<close> of \<open>helpers.js\<close> is not among the sources. An
  observed array is an ordered sequence of typed nodes whose order mirrors the source
  array; the model keeps the list.
\<close>

definition observe :: "'n list \<Rightarrow> 'n list" where
  "observe results = results"

text \<open>The \<open>for (const item of data)\<close> loop of \<open>parseArray\<close> and of \<open>parse\<close>.\<close>

fun parseItems ::
  "('n, 'x) registry \<Rightarrow> ('n, 'x) generator \<Rightarrow> raw list \<Rightarrow> expected option \<Rightarrow> 'n list \<Rightarrow>
   ('n, 'x) pstate \<Rightarrow> (exn + 'n list) \<times> ('n, 'x) pstate" where
  "parseItems RUNTIME_NODES generateRuntimeClass [] validTypes results s = (Inr results, s)"
| "parseItems RUNTIME_NODES generateRuntimeClass (item # rest) validTypes results s =
     (case parseItem RUNTIME_NODES generateRuntimeClass item validTypes s of
        (Inl err, s1) \<Rightarrow> (Inl err, s1)
      | (Inr None, s1) \<Rightarrow>
          parseItems RUNTIME_NODES generateRuntimeClass rest validTypes results s1
      | (Inr (Some result), s1) \<Rightarrow>
          parseItems RUNTIME_NODES generateRuntimeClass rest validTypes (results @ [result]) s1)"

definition parseArray ::
  "('n, 'x) registry \<Rightarrow> ('n, 'x) generator \<Rightarrow> raw \<Rightarrow> expected option \<Rightarrow>
   ('n, 'x) pstate \<Rightarrow> (exn + 'n list) \<times> ('n, 'x) pstate" where
  "parseArray RUNTIME_NODES generateRuntimeClass data validTypes s =
     (if isArray data then
        (case parseItems RUNTIME_NODES generateRuntimeClass (elements data) validTypes [] s of
           (Inl err, s1) \<Rightarrow> (Inl err, s1)
         | (Inr results, s1) \<Rightarrow> (Inr (observe results), s1))
      else if \<not> truthy data then (Inr (observe []), s)
      else (Inl (ParsingError ''Expected array but got a single item''), s))"

text \<open>
  What an array of wrappers should yield when no constructor throws, in the words of the
  specification and without the loop of \<open>parseArray\<close>: the elements are taken in source
  order, each on the state its predecessor left. A wrapper \<open>{key: body, ...}\<close> of an
  ignored class has no node. Any other wrapper is dispatched to its class; a class whose
  type is not among the valid types has no node and one \<open>typecheck\<close> event; otherwise the
  node is the one the constructor returns on \<open>body\<close>, recorded under the class name. The
  value is \<open>None\<close> when the wrapper is not of this kind: its generator or its constructor
  throws.
\<close>

definition sibling_built ::
  "('n, 'x) YTNodeConstructor \<Rightarrow> string \<Rightarrow> raw \<Rightarrow> ('n, 'x) pstate \<Rightarrow>
   ('n option \<times> ('n, 'x) pstate) option" where
  "sibling_built TargetClass classname body s =
     (case construct TargetClass body s of
        (Inl err, s1) \<Rightarrow> None
      | (Inr node, s1) \<Rightarrow> Some (Some node, addToMemo classname node s1))"

definition sibling_slot ::
  "('n, 'x) registry \<Rightarrow> ('n, 'x) generator \<Rightarrow> expected option \<Rightarrow> string \<Rightarrow> raw \<Rightarrow>
   ('n, 'x) pstate \<Rightarrow> ('n option \<times> ('n, 'x) pstate) option" where
  "sibling_slot RUNTIME_NODES generateRuntimeClass validTypes key body s =
     (if shouldIgnore (sanitizeClassName key) then Some (None, s)
      else
        (case TargetClass_of RUNTIME_NODES generateRuntimeClass (sanitizeClassName key) body s of
           (Inl err, s1) \<Rightarrow> None
         | (Inr TargetClass, s1) \<Rightarrow>
             (case validTypes of
                None \<Rightarrow> sibling_built TargetClass (sanitizeClassName key) body s1
              | Some valid \<Rightarrow>
                  if typecheck valid (type_tag TargetClass)
                  then sibling_built TargetClass (sanitizeClassName key) body s1
                  else Some (None,
                    s1\<lparr>reported := reported s1 @ [Typecheck (sanitizeClassName key) body valid]\<rparr>))))"

text \<open>
  The nodes of a list of such wrappers, in source order, and the state after the last
  one; \<open>None\<close> when an element is not a wrapper \<open>{key: body, ...}\<close> or has no slot.
\<close>

fun siblings_in_turn ::
  "('n, 'x) registry \<Rightarrow> ('n, 'x) generator \<Rightarrow> expected option \<Rightarrow> raw list \<Rightarrow>
   ('n, 'x) pstate \<Rightarrow> ('n list \<times> ('n, 'x) pstate) option" where
  "siblings_in_turn RUNTIME_NODES generateRuntimeClass validTypes [] s = Some ([], s)"
| "siblings_in_turn RUNTIME_NODES generateRuntimeClass validTypes
       (RObj ((key, body) # rest) # items) s =
     (case sibling_slot RUNTIME_NODES generateRuntimeClass validTypes key body s of
        None \<Rightarrow> None
      | Some (slot, s1) \<Rightarrow>
          (case siblings_in_turn RUNTIME_NODES generateRuntimeClass validTypes items s1 of
             None \<Rightarrow> None
           | Some (nodes, s2) \<Rightarrow>
               Some ((case slot of None \<Rightarrow> nodes | Some node \<Rightarrow> node # nodes), s2)))"
| "siblings_in_turn RUNTIME_NODES generateRuntimeClass validTypes (item # items) s = None"


section \<open>Command parser\<close>

text \<open>
  \<open>/Command$/.test(key) || /Endpoint$/.test(key) || /Action$/.test(key)\<close>
\<close>

definition is_command_key :: "string \<Rightarrow> bool" where
  "is_command_key key \<longleftrightarrow>
     suffix ''Command'' key \<or> suffix ''Endpoint'' key \<or> suffix ''Action'' key"

text \<open>
  The \<open>for (const key of keys)\<close> loop of \<open>parseCommand\<close> (source lines 669 to 690).
  A \<open>return\<close> inside the loop ends it; after the \<open>catch\<close> and after an unregistered class
  the loop goes on with the next key. The constructed node is not added to the memo.
\<close>

fun parseCommand_keys ::
  "('n, 'x) registry \<Rightarrow> raw \<Rightarrow> string list \<Rightarrow> ('n, 'x) pstate \<Rightarrow> 'n option \<times> ('n, 'x) pstate" where
  "parseCommand_keys RUNTIME_NODES data [] s = (None, s)"
| "parseCommand_keys RUNTIME_NODES data (key # keys) s =
     (let val = getprop data key in
      if is_command_key key then
        let classname = sanitizeClassName key in
        if shouldIgnore classname then (None, s)
        else if hasParser RUNTIME_NODES classname s then
          (case getParserByName RUNTIME_NODES classname s of
             Inl error \<Rightarrow>
               parseCommand_keys RUNTIME_NODES data keys
                 (ERROR_HANDLER (Parse classname val error) s)
           | Inr TargetClass \<Rightarrow>
               (case construct TargetClass val s of
                  (Inr result, s1) \<Rightarrow> (Some result, s1)
                | (Inl error, s1) \<Rightarrow>
                    parseCommand_keys RUNTIME_NODES data keys
                      (ERROR_HANDLER (Parse classname val error) s1)))
        else parseCommand_keys RUNTIME_NODES data keys s
      else parseCommand_keys RUNTIME_NODES data keys s)"

text \<open>
  \<open>parseCommand(data)\<close>: \<open>keys\<close> stays empty when \<open>Object.keys(data)\<close> throws. \<open>None\<close> is
  \<open>undefined\<close>.
\<close>

definition parseCommand ::
  "('n, 'x) registry \<Rightarrow> raw \<Rightarrow> ('n, 'x) pstate \<Rightarrow> 'n option \<times> ('n, 'x) pstate" where
  "parseCommand RUNTIME_NODES data s =
     parseCommand_keys RUNTIME_NODES data
       (case object_keys data of Inl err \<Rightarrow> [] | Inr keys \<Rightarrow> keys) s"

text \<open>
  A key the loop passes over without any effect: it does not name a command, an endpoint
  or an action, or its class is neither ignored nor registered.
\<close>

definition passed_over :: "('n, 'x) registry \<Rightarrow> ('n, 'x) pstate \<Rightarrow> string \<Rightarrow> bool" where
  "passed_over RUNTIME_NODES s key \<longleftrightarrow>
     \<not> is_command_key key \<or>
     (\<not> shouldIgnore (sanitizeClassName key) \<and>
      \<not> hasParser RUNTIME_NODES (sanitizeClassName key) s)"

section \<open>Typed nodes and a small registry\<close>

text \<open>
  Modelled from the spec: the node classes and \<open>YTNode\<close> of \<open>helpers.js\<close> are not among
  the sources. A typed node carries its static type tag and its fields; a field that was
  never set reads \<open>undefined\<close>.
\<close>

datatype ytnode = YTNode (node_type: string) (fields: "(string \<times> raw) list")

definition field :: "ytnode \<Rightarrow> string \<Rightarrow> raw" where
  "field node name = (case map_of (fields node) name of Some v \<Rightarrow> v | None \<Rightarrow> Undefined)"

definition set_field :: "string \<Rightarrow> raw \<Rightarrow> ytnode \<Rightarrow> ytnode" where
  "set_field name v node = YTNode (node_type node) (AList.update name v (fields node))"

text \<open>
  A registry with four classes for examples: \<open>Video\<close> and \<open>NextEndpoint\<close> keep their
  data, the constructors of \<open>Broken\<close> and of \<open>BrokenCommand\<close> throw. The example generator
  reports \<open>class_not_found\<close> and makes a class that keeps its data.
\<close>

definition keeps_data :: "string \<Rightarrow> (ytnode, unit) YTNodeConstructor" where
  "keeps_data tag =
     \<lparr>type_tag = tag, construct = (\<lambda>data s. (Inr (YTNode tag [(''data'', data)]), s))\<rparr>"

definition always_throws :: "string \<Rightarrow> (ytnode, unit) YTNodeConstructor" where
  "always_throws tag =
     \<lparr>type_tag = tag, construct = (\<lambda>data s. (Inl (TypeError ''data.title is undefined''), s))\<rparr>"

definition example_nodes :: "(ytnode, unit) registry" where
  "example_nodes w classname =
     (if classname = ''Video'' then Some (keeps_data ''Video'')
      else if classname = ''NextEndpoint'' then Some (keeps_data ''NextEndpoint'')
      else if classname = ''Broken'' then Some (always_throws ''Broken'')
      else if classname = ''BrokenCommand'' then Some (always_throws ''BrokenCommand'')
      else None)"

definition example_generator :: "(ytnode, unit) generator" where
  "example_generator classname classdata s =
     (Inr (keeps_data classname), ERROR_HANDLER (Class_not_found classname []) s)"

definition idle :: "(ytnode, unit) pstate" where
  "idle = \<lparr>MEMO = None, reported = [], world = ()\<rparr>"

section \<open>Mutation engine\<close>

text \<open>
  \<open>a === b\<close> on raw values. Objects and arrays are equal only to themselves; the two
  sides compared by the parser come from different parts of the document, so they are
  never the same object.
\<close>

fun strict_eq :: "raw \<Rightarrow> raw \<Rightarrow> bool" where
  "strict_eq Undefined Undefined = True"
| "strict_eq Null Null = True"
| "strict_eq (RBool a) (RBool b) = (a = b)"
| "strict_eq (RNum a) (RNum b) = (a = b)"
| "strict_eq (RStr a) (RStr b) = (a = b)"
| "strict_eq a b = False"

text \<open>The string a template literal makes of a value.\<close>

fun join_comma :: "string list \<Rightarrow> string" where
  "join_comma [] = []"
| "join_comma [x] = x"
| "join_comma (x # y # ys) = x @ '','' @ join_comma (y # ys)"

fun to_string :: "raw \<Rightarrow> string" where
  "to_string Undefined = ''undefined''"
| "to_string Null = ''null''"
| "to_string (RBool b) = (if b then ''true'' else ''false'')"
| "to_string (RNum n) = (if n < 0 then ''-'' @ index_key (nat (- n)) else index_key (nat n))"
| "to_string (RStr s) = s"
| "to_string (RArr xs) = join_comma (map (\<lambda>x. if nullish x then [] else to_string x) xs)"
| "to_string (RObj kvs) = ''[object Object]''"

text \<open>
  \<open>mutations.find(callback)\<close>, for a callback that may throw: \<open>undefined\<close> when no entry
  satisfies it. On a value that is not an array the call itself throws.
\<close>

fun find_entry :: "(raw \<Rightarrow> exn + bool) \<Rightarrow> raw list \<Rightarrow> exn + raw" where
  "find_entry callback [] = Inr Undefined"
| "find_entry callback (m # ms) =
     (case callback m of
        Inl err \<Rightarrow> Inl err
      | Inr True \<Rightarrow> Inr m
      | Inr False \<Rightarrow> find_entry callback ms)"

definition array_find :: "raw \<Rightarrow> (raw \<Rightarrow> exn + bool) \<Rightarrow> exn + raw" where
  "array_find mutations callback =
     (if isArray mutations then find_entry callback (elements mutations)
      else if nullish mutations
      then Inl (TypeError ''Cannot read properties of undefined (reading find)'')
      else Inl (TypeError ''mutations.find is not a function''))"

fun filter_entries :: "(raw \<Rightarrow> exn + bool) \<Rightarrow> raw list \<Rightarrow> exn + raw list" where
  "filter_entries callback [] = Inr []"
| "filter_entries callback (m # ms) =
     (case callback m of
        Inl err \<Rightarrow> Inl err
      | Inr keep \<Rightarrow>
          (case filter_entries callback ms of
             Inl err \<Rightarrow> Inl err
           | Inr kept \<Rightarrow> Inr (if keep then m # kept else kept)))"

definition array_filter :: "raw \<Rightarrow> (raw \<Rightarrow> exn + bool) \<Rightarrow> exn + raw list" where
  "array_filter mutations callback =
     (if isArray mutations then filter_entries callback (elements mutations)
      else Inl (TypeError ''mutations.filter is not a function''))"

text \<open>
  Modelled from the spec: \<open>Memo\<close> of \<open>helpers.js\<close> is not among the sources. \<open>get(name)\<close>
  is the list recorded under a class name; \<open>getType\<close> returns the observed array of the
  instances recorded under the class name whose type tag matches.
\<close>

definition Memo_get :: "'n Memo \<Rightarrow> string \<Rightarrow> 'n list option" where
  "Memo_get memo name = map_of memo name"

definition recorded :: "'n Memo \<Rightarrow> string \<Rightarrow> 'n list" where
  "recorded memo name = (case Memo_get memo name of None \<Rightarrow> [] | Some list \<Rightarrow> list)"

definition getType :: "ytnode Memo \<Rightarrow> string \<Rightarrow> ytnode list" where
  "getType memo tag = observe (filter (\<lambda>node. node_type node = tag) (recorded memo tag))"

text \<open>
  The nodes of a class are objects shared by the memo and the parsed tree; the model
  keeps them in the memo, and a pass that writes a field of a node puts the changed node
  back in its place.
\<close>

definition put_back :: "string \<Rightarrow> ytnode list \<Rightarrow> ytnode Memo \<Rightarrow> ytnode Memo" where
  "put_back name list memo =
     (case Memo_get memo name of None \<Rightarrow> memo | Some old \<Rightarrow> AList.update name list memo)"

subsection \<open>MusicMultiSelectMenuItem\<close>

text \<open>
  \<open>(mutation) => mutation.payload?.musicFormBooleanChoice?.id === menu_item.form_item_entity_key\<close>
\<close>

definition choice_matches :: "ytnode \<Rightarrow> raw \<Rightarrow> exn + bool" where
  "choice_matches menu_item mutation =
     (case read_member mutation ''payload'' of
        Inl err \<Rightarrow> Inl err
      | Inr payload \<Rightarrow>
          Inr (strict_eq (opt_prop (opt_prop payload ''musicFormBooleanChoice'') ''id'')
                 (field menu_item ''form_item_entity_key'')))"

text \<open>\<open>choice?.selected !== undefined && choice?.opaqueToken\<close>\<close>

definition choice_valid :: "raw \<Rightarrow> bool" where
  "choice_valid choice \<longleftrightarrow>
     opt_prop choice ''selected'' \<noteq> Undefined \<and> truthy (opt_prop choice ''opaqueToken'')"

text \<open>
  One turn of the loop over the menu items (source lines 783 to 792): the item as it is
  afterwards, and the titles pushed to \<open>missing_or_invalid_mutations\<close>.
\<close>

definition menu_item_step :: "raw \<Rightarrow> ytnode \<Rightarrow> exn + ytnode \<times> string list" where
  "menu_item_step mutations menu_item =
     (case array_find mutations (choice_matches menu_item) of
        Inl err \<Rightarrow> Inl err
      | Inr mutation \<Rightarrow>
          (case (if nullish mutation then Inr Undefined
                 else read_member (getprop mutation ''payload'') ''musicFormBooleanChoice'') of
             Inl err \<Rightarrow> Inl err
           | Inr choice \<Rightarrow>
               if choice_valid choice
               then Inr (set_field ''selected'' (getprop choice ''selected'') menu_item, [])
               else Inr (menu_item, [[CHR 0x27] @ to_string (field menu_item ''title'') @ [CHR 0x27]])))"

text \<open>
  The loop over \<open>music_multi_select_menu_items\<close>, run over the list recorded in the memo:
  the thrown value if a turn throws, the list with the items changed so far, and the
  titles pushed so far.
\<close>

fun menu_items_loop ::
  "raw \<Rightarrow> ytnode list \<Rightarrow> string list \<Rightarrow> exn option \<times> ytnode list \<times> string list" where
  "menu_items_loop mutations [] missing = (None, [], missing)"
| "menu_items_loop mutations (node # rest) missing =
     (if node_type node \<noteq> ''MusicMultiSelectMenuItem'' then
        (case menu_items_loop mutations rest missing of
           (thrown, rest', missing') \<Rightarrow> (thrown, node # rest', missing'))
      else
        (case menu_item_step mutations node of
           Inl err \<Rightarrow> (Some err, node # rest, missing)
         | Inr (node', pushed) \<Rightarrow>
             (case menu_items_loop mutations rest (missing @ pushed) of
                (thrown, rest', missing') \<Rightarrow> (thrown, node' # rest', missing'))))"

text \<open>
  The first part of \<open>applyMutations(memo, mutations)\<close> (source lines 772 to 803). The
  result is the outcome, the memo with its nodes as they are afterwards, and the state.
\<close>

definition applyMutations_menu_items ::
  "ytnode Memo \<Rightarrow> raw \<Rightarrow> (ytnode, 'x) pstate \<Rightarrow> (exn + unit) \<times> ytnode Memo \<times> (ytnode, 'x) pstate" where
  "applyMutations_menu_items memo mutations s =
     (let music_multi_select_menu_items = getType memo ''MusicMultiSelectMenuItem'' in
      if length music_multi_select_menu_items > 0 \<and> \<not> truthy mutations then
        (Inr (), memo, ERROR_HANDLER (Mutation_data_missing ''MusicMultiSelectMenuItem'') s)
      else
        (case menu_items_loop mutations (recorded memo ''MusicMultiSelectMenuItem'') [] of
           (Some err, nodes, missing) \<Rightarrow>
             (Inl err, put_back ''MusicMultiSelectMenuItem'' nodes memo, s)
         | (None, nodes, missing) \<Rightarrow>
             (Inr (), put_back ''MusicMultiSelectMenuItem'' nodes memo,
              if length missing > 0
              then ERROR_HANDLER
                     (Mutation_data_invalid ''MusicMultiSelectMenuItem''
                        (length music_multi_select_menu_items) (length missing) missing) s
              else s)))"

subsection \<open>MacroMarkersListEntity\<close>

text \<open>
  \<^verbatim>\<open>
  (mutation) =>
    mutation.payload?.macroMarkersListEntity &&
    mutation.payload.macroMarkersListEntity.markersList?.markerType === 'MARKER_TYPE_HEATMAP'
  \<close>
\<close>

definition is_heat_map :: "raw \<Rightarrow> exn + bool" where
  "is_heat_map mutation =
     (case read_member mutation ''payload'' of
        Inl err \<Rightarrow> Inl err
      | Inr payload \<Rightarrow>
          Inr (truthy (opt_prop payload ''macroMarkersListEntity'') \<and>
               strict_eq
                 (opt_prop (getprop (getprop payload ''macroMarkersListEntity'') ''markersList'')
                    ''markerType'')
                 (RStr ''MARKER_TYPE_HEATMAP'')))"

text \<open>
  The loop over \<open>heat_map_mutations\<close> (source lines 812 to 820). The class
  \<open>MacroMarkersListEntity\<close> is not among the sources and is a parameter.
\<close>

fun heat_map_loop ::
  "(ytnode, 'x) YTNodeConstructor \<Rightarrow> raw list \<Rightarrow> ytnode Memo \<Rightarrow> (ytnode, 'x) pstate \<Rightarrow>
   (exn + unit) \<times> ytnode Memo \<times> (ytnode, 'x) pstate" where
  "heat_map_loop MacroMarkersListEntity_class [] memo s = (Inr (), memo, s)"
| "heat_map_loop MacroMarkersListEntity_class (mutation # rest) memo s =
     (case construct MacroMarkersListEntity_class
             (getprop (getprop mutation ''payload'') ''macroMarkersListEntity'') s of
        (Inl err, s1) \<Rightarrow> (Inl err, memo, s1)
      | (Inr macro_markers_entity, s1) \<Rightarrow>
          heat_map_loop MacroMarkersListEntity_class rest
            (case Memo_get memo ''MacroMarkersListEntity'' of
               None \<Rightarrow> AList.update ''MacroMarkersListEntity'' [macro_markers_entity] memo
             | Some list \<Rightarrow>
                 AList.update ''MacroMarkersListEntity'' (list @ [macro_markers_entity]) memo)
            s1)"

text \<open>The second part of \<open>applyMutations\<close> (source lines 806 to 821).\<close>

definition applyMutations_heat_map ::
  "(ytnode, 'x) YTNodeConstructor \<Rightarrow> ytnode Memo \<Rightarrow> raw \<Rightarrow> (ytnode, 'x) pstate \<Rightarrow>
   (exn + unit) \<times> ytnode Memo \<times> (ytnode, 'x) pstate" where
  "applyMutations_heat_map MacroMarkersListEntity_class memo mutations s =
     (if truthy mutations then
        (case array_filter mutations is_heat_map of
           Inl err \<Rightarrow> (Inl err, memo, s)
         | Inr heat_map_mutations \<Rightarrow>
             heat_map_loop MacroMarkersListEntity_class heat_map_mutations memo s)
      else (Inr (), memo, s))"

text \<open>\<open>applyMutations(memo, mutations)\<close>\<close>

definition applyMutations ::
  "(ytnode, 'x) YTNodeConstructor \<Rightarrow> ytnode Memo \<Rightarrow> raw \<Rightarrow> (ytnode, 'x) pstate \<Rightarrow>
   (exn + unit) \<times> ytnode Memo \<times> (ytnode, 'x) pstate" where
  "applyMutations MacroMarkersListEntity_class memo mutations s =
     (case applyMutations_menu_items memo mutations s of
        (Inl err, memo1, s1) \<Rightarrow> (Inl err, memo1, s1)
      | (Inr u, memo1, s1) \<Rightarrow>
          applyMutations_heat_map MacroMarkersListEntity_class memo1 mutations s1)"

subsection \<open>CommentView\<close>

text \<open>
  \<open>mutations.find((mutation) => mutation.payload?.[name]?.key === comment_view.keys.[which])\<close>
  followed by \<open>?.payload?.[name]\<close>. The left operand of \<open>===\<close> is evaluated first.
\<close>

definition payload_matches :: "string \<Rightarrow> ytnode \<Rightarrow> string \<Rightarrow> raw \<Rightarrow> exn + bool" where
  "payload_matches name comment_view which mutation =
     (case read_member mutation ''payload'' of
        Inl err \<Rightarrow> Inl err
      | Inr payload \<Rightarrow>
          (case read_member (field comment_view ''keys'') which of
             Inl err \<Rightarrow> Inl err
           | Inr key \<Rightarrow> Inr (strict_eq (opt_prop (opt_prop payload name) ''key'') key)))"

definition find_payload :: "raw \<Rightarrow> string \<Rightarrow> ytnode \<Rightarrow> string \<Rightarrow> exn + raw" where
  "find_payload mutations name comment_view which =
     (case array_find mutations (payload_matches name comment_view which) of
        Inl err \<Rightarrow> Inl err
      | Inr mutation \<Rightarrow> Inr (opt_prop (opt_prop mutation ''payload'') name))"

text \<open>
  \<open>mutations.find((mutation) => mutation.entityKey === comment_view.keys.toolbar_surface)\<close>
  followed by \<open>?.payload?.engagementToolbarSurfaceEntityPayload\<close>.
\<close>

definition entity_matches :: "ytnode \<Rightarrow> raw \<Rightarrow> exn + bool" where
  "entity_matches comment_view mutation =
     (case read_member mutation ''entityKey'' of
        Inl err \<Rightarrow> Inl err
      | Inr entityKey \<Rightarrow>
          (case read_member (field comment_view ''keys'') ''toolbar_surface'' of
             Inl err \<Rightarrow> Inl err
           | Inr key \<Rightarrow> Inr (strict_eq entityKey key)))"

definition find_toolbar :: "raw \<Rightarrow> ytnode \<Rightarrow> exn + raw" where
  "find_toolbar mutations comment_view =
     (case array_find mutations (entity_matches comment_view) of
        Inl err \<Rightarrow> Inl err
      | Inr mutation \<Rightarrow>
          Inr (opt_prop (opt_prop mutation ''payload'') ''engagementToolbarSurfaceEntityPayload''))"

text \<open>
  The method \<open>comment_view.applyMutations(comment, toolbar_state, toolbar_surface,
  comment_surface)\<close> is not among the sources and is a parameter: it gives the node as it
  is afterwards, or throws.
\<close>

type_synonym 'x comment_method =
  "ytnode \<Rightarrow> raw \<Rightarrow> raw \<Rightarrow> raw \<Rightarrow> raw \<Rightarrow> (ytnode, 'x) pstate \<Rightarrow> (exn + ytnode) \<times> (ytnode, 'x) pstate"

text \<open>One turn of the loop over the comment views (source lines 836 to 851).\<close>

definition comment_view_step ::
  "'x comment_method \<Rightarrow> raw \<Rightarrow> ytnode \<Rightarrow> (ytnode, 'x) pstate \<Rightarrow>
   (exn + ytnode) \<times> (ytnode, 'x) pstate" where
  "comment_view_step CommentView_applyMutations mutations comment_view s =
     (case find_payload mutations ''commentEntityPayload'' comment_view ''comment'' of
        Inl err \<Rightarrow> (Inl err, s)
      | Inr comment_mutation \<Rightarrow>
     (case find_payload mutations ''engagementToolbarStateEntityPayload'' comment_view
             ''toolbar_state'' of
        Inl err \<Rightarrow> (Inl err, s)
      | Inr toolbar_state_mutation \<Rightarrow>
     (case find_toolbar mutations comment_view of
        Inl err \<Rightarrow> (Inl err, s)
      | Inr engagement_toolbar \<Rightarrow>
     (case find_payload mutations ''commentSurfaceEntityPayload'' comment_view
             ''comment_surface'' of
        Inl err \<Rightarrow> (Inl err, s)
      | Inr comment_surface_mutation \<Rightarrow>
          CommentView_applyMutations comment_view comment_mutation toolbar_state_mutation
            engagement_toolbar comment_surface_mutation s))))"

fun comment_views_loop ::
  "'x comment_method \<Rightarrow> raw \<Rightarrow> ytnode list \<Rightarrow> (ytnode, 'x) pstate \<Rightarrow>
   (exn + unit) \<times> ytnode list \<times> (ytnode, 'x) pstate" where
  "comment_views_loop CommentView_applyMutations mutations [] s = (Inr (), [], s)"
| "comment_views_loop CommentView_applyMutations mutations (node # rest) s =
     (if node_type node \<noteq> ''CommentView'' then
        (case comment_views_loop CommentView_applyMutations mutations rest s of
           (outcome, rest', s') \<Rightarrow> (outcome, node # rest', s'))
      else
        (case comment_view_step CommentView_applyMutations mutations node s of
           (Inl err, s1) \<Rightarrow> (Inl err, node # rest, s1)
         | (Inr node', s1) \<Rightarrow>
             (case comment_views_loop CommentView_applyMutations mutations rest s1 of
                (outcome, rest', s') \<Rightarrow> (outcome, node' # rest', s'))))"

text \<open>\<open>applyCommentsMutations(memo, mutations)\<close> (source lines 824 to 854).\<close>

definition applyCommentsMutations ::
  "'x comment_method \<Rightarrow> ytnode Memo \<Rightarrow> raw \<Rightarrow> (ytnode, 'x) pstate \<Rightarrow>
   (exn + unit) \<times> ytnode Memo \<times> (ytnode, 'x) pstate" where
  "applyCommentsMutations CommentView_applyMutations memo mutations s =
     (let comment_view_items = getType memo ''CommentView'' in
      if length comment_view_items > 0 then
        (case comment_views_loop CommentView_applyMutations mutations
                (recorded memo ''CommentView'')
                (if \<not> truthy mutations
                 then ERROR_HANDLER (Mutation_data_missing ''CommentView'') s else s) of
           (outcome, nodes, s') \<Rightarrow> (outcome, put_back ''CommentView'' nodes memo, s'))
      else (Inr (), memo, s))"

subsection \<open>What the passes compute\<close>

text \<open>
  The functions below state the results of the passes; the theorems compare them with
  the code above. \<open>located_choice\<close> is the \<open>musicFormBooleanChoice\<close> of the first mutation
  whose choice \<open>id\<close> equals the key of the menu item, \<open>selected_from\<close> the node after the
  pass, \<open>failed_items\<close> the items reported. \<open>heat_map_payloads\<close> are the payloads of the
  heat-map mutations, \<open>construct_all\<close> runs a constructor on a list of payloads in order,
  \<open>shape\<close> lists the class names of a memo with the number of nodes under each, and
  \<open>append_entities\<close> appends nodes under \<open>MacroMarkersListEntity\<close>.
\<close>

definition id_matches :: "ytnode \<Rightarrow> raw \<Rightarrow> bool" where
  "id_matches menu_item mutation \<longleftrightarrow>
     strict_eq (opt_prop (opt_prop (getprop mutation ''payload'') ''musicFormBooleanChoice'') ''id'')
       (field menu_item ''form_item_entity_key'')"

definition located_choice :: "raw list \<Rightarrow> ytnode \<Rightarrow> raw" where
  "located_choice muts menu_item =
     (case find (id_matches menu_item) muts of
        None \<Rightarrow> Undefined
      | Some mutation \<Rightarrow> getprop (getprop mutation ''payload'') ''musicFormBooleanChoice'')"

definition selected_from :: "raw list \<Rightarrow> ytnode \<Rightarrow> ytnode" where
  "selected_from muts node =
     (if node_type node = ''MusicMultiSelectMenuItem'' \<and> choice_valid (located_choice muts node)
      then set_field ''selected'' (getprop (located_choice muts node) ''selected'') node
      else node)"

definition quoted_title :: "ytnode \<Rightarrow> string" where
  "quoted_title menu_item = [CHR 0x27] @ to_string (field menu_item ''title'') @ [CHR 0x27]"

definition failed_items :: "raw list \<Rightarrow> ytnode list \<Rightarrow> ytnode list" where
  "failed_items muts items = filter (\<lambda>item. \<not> choice_valid (located_choice muts item)) items"

definition heat_map_mutation :: "raw \<Rightarrow> bool" where
  "heat_map_mutation mutation \<longleftrightarrow>
     truthy (opt_prop (getprop mutation ''payload'') ''macroMarkersListEntity'') \<and>
     strict_eq
       (opt_prop
          (getprop (getprop (getprop mutation ''payload'') ''macroMarkersListEntity'') ''markersList'')
          ''markerType'')
       (RStr ''MARKER_TYPE_HEATMAP'')"

definition heat_map_payloads :: "raw list \<Rightarrow> raw list" where
  "heat_map_payloads muts =
     map (\<lambda>mutation. getprop (getprop mutation ''payload'') ''macroMarkersListEntity'')
       (filter heat_map_mutation muts)"

fun construct_all ::
  "('n, 'x) YTNodeConstructor \<Rightarrow> raw list \<Rightarrow> ('n, 'x) pstate \<Rightarrow> (exn + 'n list) \<times> ('n, 'x) pstate" where
  "construct_all C [] s = (Inr [], s)"
| "construct_all C (d # ds) s =
     (case construct C d s of
        (Inl err, s1) \<Rightarrow> (Inl err, s1)
      | (Inr node, s1) \<Rightarrow>
          (case construct_all C ds s1 of
             (Inl err, s2) \<Rightarrow> (Inl err, s2)
           | (Inr nodes, s2) \<Rightarrow> (Inr (node # nodes), s2)))"

definition shape :: "'n Memo \<Rightarrow> (string \<times> nat) list" where
  "shape memo = map (\<lambda>(name, nodes). (name, length nodes)) memo"

definition append_entities :: "ytnode list \<Rightarrow> ytnode Memo \<Rightarrow> ytnode Memo" where
  "append_entities entities memo =
     (if entities = [] then memo
      else AList.update ''MacroMarkersListEntity''
             (recorded memo ''MacroMarkersListEntity'' @ entities) memo)"

subsection \<open>Example nodes and mutations\<close>

definition menu_item :: "string \<Rightarrow> string \<Rightarrow> ytnode" where
  "menu_item title_text key =
     YTNode ''MusicMultiSelectMenuItem''
       [(''title'', RStr title_text), (''form_item_entity_key'', RStr key), (''selected'', RBool False)]"

definition choice_mutation :: "(string \<times> raw) list \<Rightarrow> raw" where
  "choice_mutation choice = RObj [(''payload'', RObj [(''musicFormBooleanChoice'', RObj choice)])]"

definition heat_map_entity :: raw where
  "heat_map_entity =
     RObj [(''markersList'', RObj [(''markerType'', RStr ''MARKER_TYPE_HEATMAP'')])]"

definition comment_view :: ytnode where
  "comment_view =
     YTNode ''CommentView''
       [(''keys'', RObj [(''comment'', RStr ''c''), (''toolbar_state'', RStr ''s''),
                        (''toolbar_surface'', RStr ''t''), (''comment_surface'', RStr ''u'')])]"

section \<open>Response parser\<close>

text \<open>
  \<open>SuperParsedResult\<close> holds an observed array, or one node or \<open>null\<close>. \<open>parse\<close> returns
  \<open>null\<close>, an observed array (with \<open>requireArray\<close>) or a \<open>SuperParsedResult\<close>.
\<close>

datatype 'n SuperParsedResult = Super_array "'n list" | Super_item "'n option"

datatype 'n parse_result = Observed "'n list" | Super "'n SuperParsedResult"

text \<open>\<open>parse(data, requireArray, validTypes)\<close> (source lines 630 to 651).\<close>

definition parse ::
  "('n, 'x) registry \<Rightarrow> ('n, 'x) generator \<Rightarrow> raw \<Rightarrow> bool \<Rightarrow> expected option \<Rightarrow>
   ('n, 'x) pstate \<Rightarrow> (exn + 'n parse_result option) \<times> ('n, 'x) pstate" where
  "parse RUNTIME_NODES generateRuntimeClass data requireArray validTypes s =
     (if \<not> truthy data then (Inr None, s)
      else if isArray data then
        (case parseItems RUNTIME_NODES generateRuntimeClass (elements data) validTypes [] s of
           (Inl err, s1) \<Rightarrow> (Inl err, s1)
         | (Inr results, s1) \<Rightarrow>
             (Inr (Some (if requireArray then Observed (observe results)
                         else Super (Super_array (observe results)))), s1))
      else if requireArray then
        (Inl (ParsingError ''Expected array but got a single item''), s)
      else
        (case parseItem RUNTIME_NODES generateRuntimeClass data validTypes s of
           (Inl err, s1) \<Rightarrow> (Inl err, s1)
         | (Inr item, s1) \<Rightarrow> (Inr (Some (Super (Super_item item))), s1)))"

text \<open>
  What the response parser needs from outside the module: the registry and the class
  generator; the classes that the module imports and constructs directly, by name
  (\<open>NavigationEndpoint\<close>, \<open>VideoDetails\<close>, \<open>MacroMarkersListEntity\<close>, the continuation and
  action classes); the constructor of \<open>Format\<close>, which also reads and writes the
  per-response cache; the method \<open>CommentView.applyMutations\<close>; \<open>parseInt\<close> (\<open>None\<close> is
  \<open>NaN\<close>) and the clock \<open>Date.now()\<close>. None of them is among the sources.
\<close>

record 'x environment =
  RUNTIME_NODES :: "(ytnode, 'x) registry"
  generateRuntimeClass :: "(ytnode, 'x) generator"
  imported :: "string \<Rightarrow> (ytnode, 'x) YTNodeConstructor"
  new_Format ::
    "raw \<Rightarrow> (string \<times> string) list \<Rightarrow> (ytnode, 'x) pstate \<Rightarrow>
     (exn + ytnode \<times> (string \<times> string) list) \<times> (ytnode, 'x) pstate"
  CommentView_applyMutations :: "'x comment_method"
  parseInt :: "raw \<Rightarrow> int option"
  Date_now :: int

text \<open>
  The parsed response: an object whose properties are assigned one by one. A property
  holds a node, \<open>null\<close>, an array of nodes, a \<open>SuperParsedResult\<close>, a memo, a copied raw
  value, a number, a date (\<open>None\<close> is the invalid date) or a nested object.
\<close>

datatype pvalue =
    PNode ytnode
  | PNull
  | PNodes "ytnode list"
  | PSuper "ytnode SuperParsedResult"
  | PMemo "ytnode Memo"
  | PRaw raw
  | PNumber int
  | PDate "int option"
  | PObject "(string \<times> pvalue) list"

type_synonym parsed = "(string \<times> pvalue) list"

type_synonym ('a, 'x) parser = "(ytnode, 'x) pstate \<Rightarrow> (exn + 'a) \<times> (ytnode, 'x) pstate"

definition assign :: "string \<Rightarrow> pvalue \<Rightarrow> parsed \<Rightarrow> parsed" where
  "assign name v parsed_data = AList.update name v parsed_data"

definition and_then :: "('a, 'x) parser \<Rightarrow> ('a \<Rightarrow> ('b, 'x) parser) \<Rightarrow> ('b, 'x) parser" where
  "and_then first next s =
     (case first s of
        (Inl err, s1) \<Rightarrow> (Inl err, s1)
      | (Inr a, s1) \<Rightarrow> next a s1)"

definition returns :: "'a \<Rightarrow> ('a, 'x) parser" where
  "returns a s = (Inr a, s)"

definition evaluated :: "exn + 'a \<Rightarrow> ('a, 'x) parser" where
  "evaluated r s = (r, s)"

fun item_value :: "ytnode option \<Rightarrow> pvalue" where
  "item_value None = PNull"
| "item_value (Some node) = PNode node"

subsection \<open>Continuations and response-received actions\<close>

text \<open>
  A chain \<open>if (data.k1) return new C1(data.k1); if (data.k2) return new C2(data.k2); ...
  return null\<close> over a table of keys and imported classes, in the order of the source.
\<close>

fun first_known ::
  "'x environment \<Rightarrow> (string \<times> string) list \<Rightarrow> raw \<Rightarrow> (ytnode option, 'x) parser" where
  "first_known env [] data s = (Inr None, s)"
| "first_known env ((key, classname) # table) data s =
     (if truthy (getprop data key) then
        (case construct (imported env classname) (getprop data key) s of
           (Inl err, s1) \<Rightarrow> (Inl err, s1)
         | (Inr node, s1) \<Rightarrow> (Inr (Some node), s1))
      else first_known env table data s)"

text \<open>\<open>parseC(data)\<close> (source lines 714 to 718).\<close>

definition parseC :: "'x environment \<Rightarrow> raw \<Rightarrow> (ytnode option, 'x) parser" where
  "parseC env data s =
     (if nullish data
      then (Inl (TypeError ''Cannot read properties of undefined (reading timedContinuationData)''), s)
      else if truthy (getprop data ''timedContinuationData'') then
        (case construct (imported env ''Continuation'')
                (RObj [(''continuation'', getprop data ''timedContinuationData''),
                       (''type'', RStr ''timed'')]) s of
           (Inl err, s1) \<Rightarrow> (Inl err, s1)
         | (Inr node, s1) \<Rightarrow> (Inr (Some node), s1))
      else (Inr None, s))"

definition LC_classes :: "(string \<times> string) list" where
  "LC_classes =
     [(''itemSectionContinuation'', ''ItemSectionContinuation''),
      (''sectionListContinuation'', ''SectionListContinuation''),
      (''liveChatContinuation'', ''LiveChatContinuation''),
      (''musicPlaylistShelfContinuation'', ''MusicPlaylistShelfContinuation''),
      (''musicShelfContinuation'', ''MusicShelfContinuation''),
      (''gridContinuation'', ''GridContinuation''),
      (''playlistPanelContinuation'', ''PlaylistPanelContinuation''),
      (''continuationCommand'', ''ContinuationCommand'')]"

text \<open>\<open>parseLC(data)\<close> (source lines 720 to 739).\<close>

definition parseLC :: "'x environment \<Rightarrow> raw \<Rightarrow> (ytnode option, 'x) parser" where
  "parseLC env data s =
     (if nullish data
      then (Inl (TypeError ''Cannot read properties of undefined (reading itemSectionContinuation)''), s)
      else first_known env LC_classes data s)"

definition RR_classes :: "(string \<times> string) list" where
  "RR_classes =
     [(''navigateAction'', ''NavigateAction''),
      (''showMiniplayerCommand'', ''ShowMiniplayerCommand''),
      (''reloadContinuationItemsCommand'', ''ReloadContinuationItemsCommand''),
      (''appendContinuationItemsAction'', ''AppendContinuationItemsAction''),
      (''openPopupAction'', ''OpenPopupAction'')]"

text \<open>
  \<open>parseRR(actions)\<close> (source lines 741 to 754): \<open>actions.map(...)\<close>, then \<open>.filter((item)
  => item)\<close>, which drops the entries for which no branch fired.
\<close>

fun parseRR_map :: "'x environment \<Rightarrow> raw list \<Rightarrow> (ytnode list, 'x) parser" where
  "parseRR_map env [] s = (Inr [], s)"
| "parseRR_map env (action # actions) s =
     (if nullish action
      then (Inl (TypeError ''Cannot read properties of undefined (reading navigateAction)''), s)
      else
        (case first_known env RR_classes action s of
           (Inl err, s1) \<Rightarrow> (Inl err, s1)
         | (Inr item, s1) \<Rightarrow>
             (case parseRR_map env actions s1 of
                (Inl err, s2) \<Rightarrow> (Inl err, s2)
              | (Inr items, s2) \<Rightarrow>
                  (Inr (case item of None \<Rightarrow> items | Some node \<Rightarrow> node # items), s2))))"

definition parseRR :: "'x environment \<Rightarrow> raw \<Rightarrow> (ytnode list, 'x) parser" where
  "parseRR env actions s =
     (if isArray actions then
        (case parseRR_map env (elements actions) s of
           (Inl err, s1) \<Rightarrow> (Inl err, s1)
         | (Inr items, s1) \<Rightarrow> (Inr (observe items), s1))
      else (Inl (TypeError ''actions.map is not a function''), s))"

text \<open>
  \<open>delete action.clickTrackingParams\<close>: a \<open>TypeError\<close> on \<open>undefined\<close> and \<open>null\<close>, the
  property removed from an object, nothing to do on any other value.
\<close>

fun delete_clickTrackingParams :: "raw \<Rightarrow> exn + raw" where
  "delete_clickTrackingParams Undefined =
     Inl (TypeError ''Cannot convert undefined or null to object'')"
| "delete_clickTrackingParams Null =
     Inl (TypeError ''Cannot convert undefined or null to object'')"
| "delete_clickTrackingParams (RObj kvs) =
     Inr (RObj (filter (\<lambda>(key, v). key \<noteq> ''clickTrackingParams'') kvs))"
| "delete_clickTrackingParams v = Inr v"

fun delete_all :: "raw list \<Rightarrow> exn + raw list" where
  "delete_all [] = Inr []"
| "delete_all (action # actions) =
     (case delete_clickTrackingParams action of
        Inl err \<Rightarrow> Inl err
      | Inr action' \<Rightarrow>
          (case delete_all actions of
             Inl err \<Rightarrow> Inl err
           | Inr actions' \<Rightarrow> Inr (action' # actions')))"

text \<open>\<open>parseActions(data)\<close> (source lines 756 to 764).\<close>

definition parseActions :: "'x environment \<Rightarrow> raw \<Rightarrow> (ytnode parse_result option, 'x) parser" where
  "parseActions env data s =
     (if isArray data then
        (case delete_all (elements data) of
           Inl err \<Rightarrow> (Inl err, s)
         | Inr actions \<Rightarrow>
             parse (RUNTIME_NODES env) (generateRuntimeClass env) (RArr actions) False None s)
      else
        (case parseItem (RUNTIME_NODES env) (generateRuntimeClass env) data None s of
           (Inl err, s1) \<Rightarrow> (Inl err, s1)
         | (Inr item, s1) \<Rightarrow> (Inr (Some (Super (Super_item item))), s1)))"

text \<open>
  \<open>parseFormats(formats, this_response_nsig_cache)\<close> (source lines 766 to 768):
  \<open>formats?.map((format) => new Format(format, cache)) || []\<close>.
\<close>

fun parseFormats_map ::
  "'x environment \<Rightarrow> raw list \<Rightarrow> (string \<times> string) list \<Rightarrow>
   (ytnode list \<times> (string \<times> string) list, 'x) parser" where
  "parseFormats_map env [] cache s = (Inr ([], cache), s)"
| "parseFormats_map env (format # formats) cache s =
     (case new_Format env format cache s of
        (Inl err, s1) \<Rightarrow> (Inl err, s1)
      | (Inr (node, cache1), s1) \<Rightarrow>
          (case parseFormats_map env formats cache1 s1 of
             (Inl err, s2) \<Rightarrow> (Inl err, s2)
           | (Inr (nodes, cache2), s2) \<Rightarrow> (Inr (node # nodes, cache2), s2)))"

definition parseFormats ::
  "'x environment \<Rightarrow> raw \<Rightarrow> (string \<times> string) list \<Rightarrow>
   (ytnode list \<times> (string \<times> string) list, 'x) parser" where
  "parseFormats env formats cache s =
     (if nullish formats then (Inr ([], cache), s)
      else if isArray formats then parseFormats_map env (elements formats) cache s
      else (Inl (TypeError ''formats.map is not a function''), s))"

subsection \<open>Sections with a memo\<close>

fun result_value :: "ytnode parse_result \<Rightarrow> pvalue" where
  "result_value (Observed nodes) = PNodes nodes"
| "result_value (Super r) = PSuper r"

text \<open>\<open>data.k ? parser(data.k) : null\<close>\<close>

definition guarded :: "raw \<Rightarrow> ('a option, 'x) parser \<Rightarrow> ('a option, 'x) parser" where
  "guarded v parser s = (if truthy v then parser s else (Inr None, s))"

text \<open>The parsers of the sections, each giving the value to assign, or \<open>None\<close> when falsy.\<close>

definition parse_value :: "'x environment \<Rightarrow> raw \<Rightarrow> (pvalue option, 'x) parser" where
  "parse_value env v =
     and_then (parse (RUNTIME_NODES env) (generateRuntimeClass env) v False None)
       (\<lambda>r. returns (map_option result_value r))"

definition parseRR_value :: "'x environment \<Rightarrow> raw \<Rightarrow> (pvalue option, 'x) parser" where
  "parseRR_value env v = and_then (parseRR env v) (\<lambda>nodes. returns (Some (PNodes nodes)))"

definition parseLC_value :: "'x environment \<Rightarrow> raw \<Rightarrow> (pvalue option, 'x) parser" where
  "parseLC_value env v = and_then (parseLC env v) (\<lambda>item. returns (map_option PNode item))"

definition parseC_value :: "'x environment \<Rightarrow> raw \<Rightarrow> (pvalue option, 'x) parser" where
  "parseC_value env v = and_then (parseC env v) (\<lambda>item. returns (map_option PNode item))"

definition parseActions_value :: "'x environment \<Rightarrow> raw \<Rightarrow> (pvalue option, 'x) parser" where
  "parseActions_value env v =
     and_then (parseActions env v) (\<lambda>r. returns (map_option result_value r))"

definition parseItem_value ::
  "'x environment \<Rightarrow> raw \<Rightarrow> expected option \<Rightarrow> (pvalue option, 'x) parser" where
  "parseItem_value env v validTypes =
     and_then (parseItem (RUNTIME_NODES env) (generateRuntimeClass env) v validTypes)
       (\<lambda>item. returns (map_option PNode item))"

text \<open>
  The pattern of the sections with a memo (source lines 233 to 312):
  \<^verbatim>\<open>
  _createMemo();
  const x = parser;
  const x_memo = _getMemo();
  if (x) {
    parsed_data.x = x;
    parsed_data.x_memo = x_memo;
  }
  _clearMemo();
  \<close>
  The memo is returned beside the parsed data: \<open>applyMutations\<close> uses it later.
\<close>

definition memo_section ::
  "string \<Rightarrow> (pvalue option, 'x) parser \<Rightarrow> parsed \<Rightarrow> (parsed \<times> ytnode Memo, 'x) parser" where
  "memo_section name parser parsed_data s =
     (case parser (createMemo s) of
        (Inl err, s1) \<Rightarrow> (Inl err, s1)
      | (Inr x, s1) \<Rightarrow>
          (case getMemo s1 of
             Inl err \<Rightarrow> (Inl err, s1)
           | Inr x_memo \<Rightarrow>
               (Inr (case x of
                       None \<Rightarrow> parsed_data
                     | Some v \<Rightarrow> assign (name @ ''_memo'') (PMemo x_memo) (assign name v parsed_data),
                     x_memo),
                clearMemo s1)))"

text \<open>
  The last section with a memo (source lines 314 to 320) calls \<open>_getMemo()\<close> only where
  \<open>items\<close> is truthy.
\<close>

definition items_section :: "'x environment \<Rightarrow> raw \<Rightarrow> parsed \<Rightarrow> (parsed, 'x) parser" where
  "items_section env v parsed_data s =
     (case parse_value env v (createMemo s) of
        (Inl err, s1) \<Rightarrow> (Inl err, s1)
      | (Inr None, s1) \<Rightarrow> (Inr parsed_data, clearMemo s1)
      | (Inr (Some items), s1) \<Rightarrow>
          (case getMemo s1 of
             Inl err \<Rightarrow> (Inl err, s1)
           | Inr items_memo \<Rightarrow>
               (Inr (assign ''items_memo'' (PMemo items_memo) (assign ''items'' items parsed_data)),
                clearMemo s1)))"

text \<open>
  Source lines 231 to 320. The result carries \<open>contents_memo\<close> and
  \<open>on_response_received_endpoints_memo\<close>, which the mutation passes use.
\<close>

definition memo_sections ::
  "'x environment \<Rightarrow> raw \<Rightarrow> (parsed \<times> ytnode Memo \<times> ytnode Memo, 'x) parser" where
  "memo_sections env data =
     and_then (memo_section ''contents'' (parse_value env (getprop data ''contents'')) [])
       (\<lambda>(parsed_data, contents_memo).
     and_then (memo_section ''on_response_received_actions''
                 (guarded (getprop data ''onResponseReceivedActions'')
                    (parseRR_value env (getprop data ''onResponseReceivedActions''))) parsed_data)
       (\<lambda>(parsed_data, actions_memo).
     and_then (memo_section ''on_response_received_endpoints''
                 (guarded (getprop data ''onResponseReceivedEndpoints'')
                    (parseRR_value env (getprop data ''onResponseReceivedEndpoints''))) parsed_data)
       (\<lambda>(parsed_data, on_response_received_endpoints_memo).
     and_then (memo_section ''on_response_received_commands''
                 (guarded (getprop data ''onResponseReceivedCommands'')
                    (parseRR_value env (getprop data ''onResponseReceivedCommands''))) parsed_data)
       (\<lambda>(parsed_data, commands_memo).
     and_then (memo_section ''continuation_contents''
                 (guarded (getprop data ''continuationContents'')
                    (parseLC_value env (getprop data ''continuationContents''))) parsed_data)
       (\<lambda>(parsed_data, continuation_contents_memo).
     and_then (memo_section ''actions''
                 (guarded (getprop data ''actions'')
                    (parseActions_value env (getprop data ''actions''))) parsed_data)
       (\<lambda>(parsed_data, actions_memo).
     and_then (memo_section ''live_chat_item_context_menu_supported_renderers''
                 (guarded (getprop data ''liveChatItemContextMenuSupportedRenderers'')
                    (parseItem_value env (getprop data ''liveChatItemContextMenuSupportedRenderers'')
                       None)) parsed_data)
       (\<lambda>(parsed_data, renderers_memo).
     and_then (memo_section ''header''
                 (guarded (getprop data ''header'') (parse_value env (getprop data ''header'')))
                 parsed_data)
       (\<lambda>(parsed_data, header_memo).
     and_then (memo_section ''sidebar''
                 (guarded (getprop data ''sidebar'')
                    (parseItem_value env (getprop data ''sidebar'') None)) parsed_data)
       (\<lambda>(parsed_data, sidebar_memo).
     and_then (items_section env (getprop data ''items'') parsed_data)
       (\<lambda>parsed_data.
     returns (parsed_data, contents_memo, on_response_received_endpoints_memo)))))))))))"

subsection \<open>Mutation passes\<close>

text \<open>
  A memo that was assigned to the parsed data is the same object as the one the pass
  changes: the property shows the memo as the pass left it. In the source the node
  objects of a memo are also the ones inside \<open>contents\<close> and
  \<open>on_response_received_endpoints\<close>; the model holds parsed nodes by value, so a field
  that a pass sets shows in the memo properties only, and the other properties keep the
  nodes as constructed.
\<close>

definition same_object :: "string \<Rightarrow> ytnode Memo \<Rightarrow> parsed \<Rightarrow> parsed" where
  "same_object name memo parsed_data =
     (case map_of parsed_data name of
        None \<Rightarrow> parsed_data
      | Some v \<Rightarrow> assign name (PMemo memo) parsed_data)"

text \<open>
  Source lines 322 to 326, with
  \<open>mutations = data.frameworkUpdates?.entityBatchUpdate?.mutations\<close>.
\<close>

definition mutation_passes ::
  "'x environment \<Rightarrow> raw \<Rightarrow> ytnode Memo \<Rightarrow> ytnode Memo \<Rightarrow> parsed \<Rightarrow> (parsed, 'x) parser" where
  "mutation_passes env mutations contents_memo on_response_received_endpoints_memo parsed_data s =
     (case applyMutations (imported env ''MacroMarkersListEntity'') contents_memo mutations s of
        (Inl err, memo1, s1) \<Rightarrow> (Inl err, s1)
      | (Inr u, memo1, s1) \<Rightarrow>
          (case applyCommentsMutations (CommentView_applyMutations env)
                  on_response_received_endpoints_memo mutations s1 of
             (Inl err, memo2, s2) \<Rightarrow> (Inl err, s2)
           | (Inr u, memo2, s2) \<Rightarrow>
               (Inr (same_object ''on_response_received_endpoints_memo'' memo2
                       (same_object ''contents_memo'' memo1 parsed_data)), s2)))"

subsection \<open>Sections without a memo\<close>

text \<open>\<open>const x = parseItem(data.k, T); if (x) parsed_data.x = x;\<close>\<close>

definition item_section ::
  "'x environment \<Rightarrow> string \<Rightarrow> raw \<Rightarrow> expected option \<Rightarrow> parsed \<Rightarrow> (parsed, 'x) parser" where
  "item_section env name v validTypes parsed_data =
     and_then (parseItem (RUNTIME_NODES env) (generateRuntimeClass env) v validTypes)
       (\<lambda>item. returns (case item of
                           None \<Rightarrow> parsed_data
                         | Some node \<Rightarrow> assign name (PNode node) parsed_data))"

text \<open>\<open>const x = parseArray(data.k, T); if (x.length) parsed_data.x = x;\<close>\<close>

definition array_section ::
  "'x environment \<Rightarrow> string \<Rightarrow> raw \<Rightarrow> expected option \<Rightarrow> parsed \<Rightarrow> (parsed, 'x) parser" where
  "array_section env name v validTypes parsed_data =
     and_then (parseArray (RUNTIME_NODES env) (generateRuntimeClass env) v validTypes)
       (\<lambda>nodes. returns (if length nodes \<noteq> 0 then assign name (PNodes nodes) parsed_data
                         else parsed_data))"

text \<open>\<open>const x = parser(data.k); if (x) parsed_data.x = x;\<close>\<close>

definition value_section ::
  "string \<Rightarrow> (pvalue option, 'x) parser \<Rightarrow> parsed \<Rightarrow> (parsed, 'x) parser" where
  "value_section name parser parsed_data =
     and_then parser
       (\<lambda>x. returns (case x of None \<Rightarrow> parsed_data | Some v \<Rightarrow> assign name v parsed_data))"

text \<open>\<open>if (data.k) parsed_data.x = data.k;\<close>\<close>

definition copy_section :: "string \<Rightarrow> raw \<Rightarrow> parsed \<Rightarrow> (parsed, 'x) parser" where
  "copy_section name v parsed_data =
     returns (if truthy v then assign name (PRaw v) parsed_data else parsed_data)"

text \<open>\<open>const x = data.k ? new C(data.k) : null; if (x) parsed_data.x = x;\<close>\<close>

definition new_section ::
  "'x environment \<Rightarrow> string \<Rightarrow> string \<Rightarrow> raw \<Rightarrow> parsed \<Rightarrow> (parsed, 'x) parser" where
  "new_section env name classname v parsed_data =
     (if truthy v then
        and_then (construct (imported env classname) v)
          (\<lambda>node. returns (assign name (PNode node) parsed_data))
      else returns parsed_data)"

text \<open>Source lines 363 to 366: a number is truthy when it is neither \<open>NaN\<close> nor zero.\<close>

definition estimated_results_section :: "'x environment \<Rightarrow> raw \<Rightarrow> parsed \<Rightarrow> (parsed, 'x) parser" where
  "estimated_results_section env v parsed_data =
     returns (if truthy v then
                (case parseInt env v of
                   None \<Rightarrow> parsed_data
                 | Some n \<Rightarrow> if n \<noteq> 0 then assign ''estimated_results'' (PNumber n) parsed_data
                             else parsed_data)
              else parsed_data)"

text \<open>Source lines 378 to 385.\<close>

definition playback_tracking_section :: "raw \<Rightarrow> parsed \<Rightarrow> (parsed, 'x) parser" where
  "playback_tracking_section playbackTracking parsed_data =
     (if truthy playbackTracking then
        and_then (evaluated (read_member (getprop playbackTracking ''videostatsWatchtimeUrl'') ''baseUrl''))
          (\<lambda>watchtime.
        and_then (evaluated (read_member (getprop playbackTracking ''videostatsPlaybackUrl'') ''baseUrl''))
          (\<lambda>playback.
        returns (assign ''playback_tracking''
                   (PObject [(''videostats_watchtime_url'', PRaw watchtime),
                             (''videostats_playback_url'', PRaw playback)]) parsed_data)))
      else returns parsed_data)"

text \<open>Source lines 387 to 397.\<close>

definition playability_status_section ::
  "'x environment \<Rightarrow> raw \<Rightarrow> parsed \<Rightarrow> (parsed, 'x) parser" where
  "playability_status_section env playabilityStatus parsed_data =
     (if truthy playabilityStatus then
        and_then (parseItem (RUNTIME_NODES env) (generateRuntimeClass env)
                    (getprop playabilityStatus ''audioOnlyPlayability'')
                    (Some (ExpectedOne ''AudioOnlyPlayability'')))
          (\<lambda>audio_only_playability.
        and_then (parseItem (RUNTIME_NODES env) (generateRuntimeClass env)
                    (getprop playabilityStatus ''errorScreen'') None)
          (\<lambda>error_screen.
        returns (assign ''playability_status''
                   (PObject
                      [(''status'', PRaw (getprop playabilityStatus ''status'')),
                       (''reason'',
                        PRaw (if truthy (getprop playabilityStatus ''reason'')
                              then getprop playabilityStatus ''reason'' else RStr [])),
                       (''embeddable'',
                        PRaw (RBool (truthy (getprop playabilityStatus ''playableInEmbed'')))),
                       (''audio_only_playability'', item_value audio_only_playability),
                       (''error_screen'', item_value error_screen)]) parsed_data)))
      else returns parsed_data)"

text \<open>
  Source lines 399 to 414. The cache \<open>this_response_nsig_cache\<close> starts empty and is
  shared by the two calls of \<open>parseFormats\<close>.
\<close>

definition streaming_data_section :: "'x environment \<Rightarrow> raw \<Rightarrow> parsed \<Rightarrow> (parsed, 'x) parser" where
  "streaming_data_section env streamingData parsed_data =
     (if truthy streamingData then
        and_then (parseFormats env (getprop streamingData ''formats'') [])
          (\<lambda>(formats, cache).
        and_then (parseFormats env (getprop streamingData ''adaptiveFormats'') cache)
          (\<lambda>(adaptive_formats, cache).
        returns (assign ''streaming_data''
                   (PObject
                      [(''expires'',
                        PDate (map_option (\<lambda>n. Date_now env + n * 1000)
                                 (parseInt env (getprop streamingData ''expiresInSeconds'')))),
                       (''formats'', PNodes formats),
                       (''adaptive_formats'', PNodes adaptive_formats),
                       (''dash_manifest_url'', PRaw (getprop streamingData ''dashManifestUrl'')),
                       (''hls_manifest_url'', PRaw (getprop streamingData ''hlsManifestUrl'')),
                       (''server_abr_streaming_url'',
                        PRaw (getprop streamingData ''serverAbrStreamingUrl''))]) parsed_data)))
      else returns parsed_data)"

text \<open>\<open>x || fallback\<close>\<close>

definition or_else :: "raw \<Rightarrow> raw \<Rightarrow> raw" where
  "or_else v fallback = (if truthy v then v else fallback)"

text \<open>Source lines 416 to 437.\<close>

definition player_config_section :: "raw \<Rightarrow> parsed \<Rightarrow> (parsed, 'x) parser" where
  "player_config_section playerConfig parsed_data =
     (if truthy playerConfig then
        returns (assign ''player_config''
          (PObject
             [(''audio_config'',
               PObject
                 [(''loudness_db'',
                   PRaw (opt_prop (getprop playerConfig ''audioConfig'') ''loudnessDb'')),
                  (''perceptual_loudness_db'',
                   PRaw (opt_prop (getprop playerConfig ''audioConfig'') ''perceptualLoudnessDb'')),
                  (''enable_per_format_loudness'',
                   PRaw (opt_prop (getprop playerConfig ''audioConfig'') ''enablePerFormatLoudness''))]),
              (''stream_selection_config'',
               PObject
                 [(''max_bitrate'',
                   PRaw (or_else (opt_prop (getprop playerConfig ''streamSelectionConfig'') ''maxBitrate'')
                           (RStr ''0'')))]),
              (''media_common_config'',
               PObject
                 [(''dynamic_readahead_config'',
                   PObject
                     [(''max_read_ahead_media_time_ms'',
                       PRaw (or_else
                               (opt_prop
                                  (opt_prop (getprop playerConfig ''mediaCommonConfig'')
                                     ''dynamicReadaheadConfig'') ''maxReadAheadMediaTimeMs'')
                               (RNum 0))),
                      (''min_read_ahead_media_time_ms'',
                       PRaw (or_else
                               (opt_prop
                                  (opt_prop (getprop playerConfig ''mediaCommonConfig'')
                                     ''dynamicReadaheadConfig'') ''minReadAheadMediaTimeMs'')
                               (RNum 0))),
                      (''read_ahead_growth_rate_ms'',
                       PRaw (or_else
                               (opt_prop
                                  (opt_prop (getprop playerConfig ''mediaCommonConfig'')
                                     ''dynamicReadaheadConfig'') ''readAheadGrowthRateMs'')
                               (RNum 0)))]),
                  (''media_ustreamer_request_config'',
                   PObject
                     [(''video_playback_ustreamer_config'',
                       PRaw (opt_prop
                               (opt_prop (getprop playerConfig ''mediaCommonConfig'')
                                  ''mediaUstreamerRequestConfig'') ''videoPlaybackUstreamerConfig''))])])])
          parsed_data)
      else returns parsed_data)"

text \<open>Source lines 484 to 497.\<close>

definition bg_challenge_section :: "raw \<Rightarrow> parsed \<Rightarrow> (parsed, 'x) parser" where
  "bg_challenge_section bgChallenge parsed_data =
     (if truthy bgChallenge then
        and_then (evaluated (read_member (getprop bgChallenge ''interpreterUrl'')
                    ''privateDoNotAccessOrElseTrustedResourceUrlWrappedValue''))
          (\<lambda>resource_url.
        and_then (evaluated (read_member (getprop bgChallenge ''interpreterUrl'')
                    ''privateDoNotAccessOrElseSafeScriptWrappedValue''))
          (\<lambda>safe_script.
        returns (assign ''bg_challenge''
                   (PObject
                      [(''interpreter_url'',
                        PObject
                          [(''private_do_not_access_or_else_trusted_resource_url_wrapped_value'',
                            PRaw resource_url),
                           (''private_do_not_access_or_else_safe_script_wrapped_value'',
                            PRaw safe_script)]),
                       (''interpreter_hash'', PRaw (getprop bgChallenge ''interpreterHash'')),
                       (''program'', PRaw (getprop bgChallenge ''program'')),
                       (''global_name'', PRaw (getprop bgChallenge ''globalName'')),
                       (''client_experiments_state_blob'',
                        PRaw (getprop bgChallenge ''clientExperimentsStateBlob''))]) parsed_data)))
      else returns parsed_data)"

text \<open>Source lines 328 to 501, in the order of the source.\<close>

definition plain_sections :: "'x environment \<Rightarrow> raw \<Rightarrow> parsed \<Rightarrow> (parsed, 'x) parser" where
  "plain_sections env data parsed_data =
     and_then (value_section ''continuation''
                 (guarded (getprop data ''continuation'')
                    (parseC_value env (getprop data ''continuation''))) parsed_data)
       (\<lambda>parsed_data.
     and_then (value_section ''continuation_endpoint''
                 (guarded (getprop data ''continuationEndpoint'')
                    (parseLC_value env (getprop data ''continuationEndpoint''))) parsed_data)
       (\<lambda>parsed_data.
     and_then (value_section ''metadata'' (parse_value env (getprop data ''metadata'')) parsed_data)
       (\<lambda>parsed_data.
     and_then (item_section env ''microformat'' (getprop data ''microformat'') None parsed_data)
       (\<lambda>parsed_data.
     and_then (item_section env ''overlay'' (getprop data ''overlay'') None parsed_data)
       (\<lambda>parsed_data.
     and_then (array_section env ''alerts'' (getprop data ''alerts'')
                 (Some (ExpectedMany [''Alert'', ''AlertWithButton''])) parsed_data)
       (\<lambda>parsed_data.
     and_then (copy_section ''refinements'' (getprop data ''refinements'') parsed_data)
       (\<lambda>parsed_data.
     and_then (estimated_results_section env (getprop data ''estimatedResults'') parsed_data)
       (\<lambda>parsed_data.
     and_then (value_section ''player_overlays'' (parse_value env (getprop data ''playerOverlays''))
                 parsed_data)
       (\<lambda>parsed_data.
     and_then (item_section env ''background'' (getprop data ''background'')
                 (Some (ExpectedOne ''MusicThumbnail'')) parsed_data)
       (\<lambda>parsed_data.
     and_then (playback_tracking_section (getprop data ''playbackTracking'') parsed_data)
       (\<lambda>parsed_data.
     and_then (playability_status_section env (getprop data ''playabilityStatus'') parsed_data)
       (\<lambda>parsed_data.
     and_then (streaming_data_section env (getprop data ''streamingData'') parsed_data)
       (\<lambda>parsed_data.
     and_then (player_config_section (getprop data ''playerConfig'') parsed_data)
       (\<lambda>parsed_data.
     and_then (new_section env ''current_video_endpoint'' ''NavigationEndpoint''
                 (getprop data ''currentVideoEndpoint'') parsed_data)
       (\<lambda>parsed_data.
     and_then (new_section env ''endpoint'' ''NavigationEndpoint'' (getprop data ''endpoint'')
                 parsed_data)
       (\<lambda>parsed_data.
     and_then (item_section env ''captions'' (getprop data ''captions'')
                 (Some (ExpectedOne ''PlayerCaptionsTracklist'')) parsed_data)
       (\<lambda>parsed_data.
     and_then (new_section env ''video_details'' ''VideoDetails'' (getprop data ''videoDetails'')
                 parsed_data)
       (\<lambda>parsed_data.
     and_then (array_section env ''annotations'' (getprop data ''annotations'')
                 (Some (ExpectedOne ''PlayerAnnotationsExpanded'')) parsed_data)
       (\<lambda>parsed_data.
     and_then (item_section env ''storyboards'' (getprop data ''storyboards'')
                 (Some (ExpectedMany [''PlayerStoryboardSpec'', ''PlayerLiveStoryboardSpec'']))
                 parsed_data)
       (\<lambda>parsed_data.
     and_then (item_section env ''endscreen'' (getprop data ''endscreen'')
                 (Some (ExpectedOne ''Endscreen'')) parsed_data)
       (\<lambda>parsed_data.
     and_then (item_section env ''cards'' (getprop data ''cards'')
                 (Some (ExpectedOne ''CardCollection'')) parsed_data)
       (\<lambda>parsed_data.
     and_then (array_section env ''engagement_panels'' (getprop data ''engagementPanels'')
                 (Some (ExpectedOne ''EngagementPanelSectionList'')) parsed_data)
       (\<lambda>parsed_data.
     and_then (bg_challenge_section (getprop data ''bgChallenge'') parsed_data)
       (\<lambda>parsed_data.
     copy_section ''challenge'' (getprop data ''challenge'') parsed_data))))))))))))))))))))))))"

text \<open>
  Everything \<open>parseResponse\<close> does before it parses the nested responses (source lines
  231 to 501).
\<close>

definition outer_sections :: "'x environment \<Rightarrow> raw \<Rightarrow> (parsed, 'x) parser" where
  "outer_sections env data =
     and_then (memo_sections env data)
       (\<lambda>(parsed_data, contents_memo, on_response_received_endpoints_memo).
     and_then (mutation_passes env
                 (opt_prop (opt_prop (getprop data ''frameworkUpdates'') ''entityBatchUpdate'')
                    ''mutations'')
                 contents_memo on_response_received_endpoints_memo parsed_data)
       (\<lambda>parsed_data.
     plain_sections env data parsed_data))"

subsection \<open>After the nested responses\<close>

text \<open>
  \<open>if (data.entries) parsed_data.entries = data.entries.map((entry) => new
  NavigationEndpoint(entry))\<close>. When the document itself is an array, \<open>data.entries\<close> is
  the method \<open>Array.prototype.entries\<close>: it is truthy and has no \<open>map\<close>, so the call
  throws. This is the only name read by the response parser that a raw value inherits.
\<close>

fun entries_map :: "'x environment \<Rightarrow> raw list \<Rightarrow> (ytnode list, 'x) parser" where
  "entries_map env [] s = (Inr [], s)"
| "entries_map env (entry # entries) s =
     (case construct (imported env ''NavigationEndpoint'') entry s of
        (Inl err, s1) \<Rightarrow> (Inl err, s1)
      | (Inr node, s1) \<Rightarrow>
          (case entries_map env entries s1 of
             (Inl err, s2) \<Rightarrow> (Inl err, s2)
           | (Inr nodes, s2) \<Rightarrow> (Inr (node # nodes), s2)))"

definition entries_section :: "'x environment \<Rightarrow> raw \<Rightarrow> parsed \<Rightarrow> (parsed, 'x) parser" where
  "entries_section env data parsed_data =
     (if isArray data then evaluated (Inl (TypeError ''data.entries.map is not a function''))
      else if truthy (getprop data ''entries'') then
        (if isArray (getprop data ''entries'') then
           and_then (entries_map env (elements (getprop data ''entries'')))
             (\<lambda>nodes. returns (assign ''entries'' (PNodes nodes) parsed_data))
         else evaluated (Inl (TypeError ''data.entries.map is not a function'')))
      else returns parsed_data)"

text \<open>Source lines 511 to 524.\<close>

definition last_sections :: "'x environment \<Rightarrow> raw \<Rightarrow> parsed \<Rightarrow> (parsed, 'x) parser" where
  "last_sections env data parsed_data =
     and_then (returns
                 (if truthy (getprop data ''cpnInfo'') then
                    assign ''cpn_info''
                      (PObject [(''cpn'', PRaw (getprop (getprop data ''cpnInfo'') ''cpn'')),
                                (''cpn_source'', PRaw (getprop (getprop data ''cpnInfo'') ''cpnSource''))])
                      parsed_data
                  else parsed_data))
       (\<lambda>parsed_data.
     and_then (entries_section env data parsed_data)
       (\<lambda>parsed_data.
     copy_section ''target_id'' (getprop data ''targetId'') parsed_data))"

subsection \<open>The response parser\<close>

text \<open>
  A property whose name has a letter is not an index of a string or an array; reading it
  from a value gives a smaller value, or \<open>undefined\<close>.
\<close>

lemma index_key_digits: "set (index_key n) \<subseteq> set ''0123456789''"
proof (induction n rule: index_key.induct)
  case (1 n)
  have d: "digit_char n \<in> set ''0123456789''"
    unfolding digit_char.simps by (rule nth_mem) simp
  show ?case
  proof (cases "n < 10")
    case True
    with d show ?thesis by (subst index_key.simps) simp
  next
    case False
    with 1 d show ?thesis by (subst index_key.simps) simp
  qed
qed

lemma find_index_key_letter:
  assumes "c \<in> set k" and "c \<notin> set ''0123456789''"
  shows "find (\<lambda>i. index_key i = k) xs = None"
proof -
  have "index_key i \<noteq> k" for i using assms index_key_digits[of i] by auto
  then show ?thesis by (simp add: find_None_iff)
qed

lemma size_map_of: "map_of kvs k = Some v \<Longrightarrow> size v < size (RObj kvs)"
proof (induction kvs)
  case Nil
  then show ?case by simp
next
  case (Cons kv kvs)
  then show ?case by (cases kv) (auto split: if_splits)
qed

lemma getprop_smaller:
  assumes "c \<in> set k" and "c \<notin> set ''0123456789''" and "truthy (getprop data k)"
  shows "size (getprop data k) < size data"
proof (cases data)
  case (RObj kvs)
  with assms(3) show ?thesis by (auto split: option.splits dest: size_map_of)
next
  case (RArr xs)
  with assms show ?thesis by (simp add: find_index_key_letter)
next
  case (RStr str)
  with assms show ?thesis by (simp add: find_index_key_letter)
qed (use assms in simp_all)

text \<open>
  \<open>parseResponse(data)\<close> (source lines 230 to 527). The nested responses are parsed by
  the same function, in the state the sections before them have left. On \<open>undefined\<close> and
  \<open>null\<close> the first read, \<open>data.contents\<close>, throws; \<open>_createMemo()\<close> has run by then, so
  the throw leaves a fresh memo active.
\<close>

function parseResponse :: "'x environment \<Rightarrow> raw \<Rightarrow> (parsed, 'x) parser" where
  "parseResponse env data s =
     (if nullish data
      then (Inl (TypeError ''Cannot read properties of undefined (reading contents)''), createMemo s)
      else
        (case outer_sections env data s of
           (Inl err, s1) \<Rightarrow> (Inl err, s1)
         | (Inr parsed_data, s1) \<Rightarrow>
             (case (if truthy (getprop data ''playerResponse'') then
                      (case parseResponse env (getprop data ''playerResponse'') s1 of
                         (Inl err, s2) \<Rightarrow> (Inl err, s2)
                       | (Inr player_response, s2) \<Rightarrow>
                           (Inr (assign ''player_response'' (PObject player_response) parsed_data), s2))
                    else (Inr parsed_data, s1)) of
                (Inl err, s2) \<Rightarrow> (Inl err, s2)
              | (Inr parsed_data, s2) \<Rightarrow>
                  (case (if truthy (getprop data ''watchNextResponse'') then
                           (case parseResponse env (getprop data ''watchNextResponse'') s2 of
                              (Inl err, s3) \<Rightarrow> (Inl err, s3)
                            | (Inr watch_next_response, s3) \<Rightarrow>
                                (Inr (assign ''watch_next_response'' (PObject watch_next_response)
                                        parsed_data), s3))
                         else (Inr parsed_data, s2)) of
                     (Inl err, s3) \<Rightarrow> (Inl err, s3)
                   | (Inr parsed_data, s3) \<Rightarrow> last_sections env data parsed_data s3))))"
  by pat_completeness auto
termination
proof (relation "measure (\<lambda>(env, data, s). size data)")
  show "wf (measure (\<lambda>(env, data, s). size data))" by simp
next
  fix env :: "'x environment" and data :: raw and s s1 :: "(ytnode, 'x) pstate"
  assume "truthy (getprop data ''playerResponse'')"
  then have "size (getprop data ''playerResponse'') < size data"
    by (intro getprop_smaller[of "CHR ''p''"]) simp_all
  then show "((env, getprop data ''playerResponse'', s1), env, data, s)
      \<in> measure (\<lambda>(env, data, s). size data)"
    by simp
next
  fix env :: "'x environment" and data :: raw and s s2 :: "(ytnode, 'x) pstate"
  assume "truthy (getprop data ''watchNextResponse'')"
  then have "size (getprop data ''watchNextResponse'') < size data"
    by (intro getprop_smaller[of "CHR ''w''"]) simp_all
  then show "((env, getprop data ''watchNextResponse'', s2), env, data, s)
      \<in> measure (\<lambda>(env, data, s). size data)"
    by simp
qed

declare parseResponse.simps [simp del]


text \<open>
  The properties of a parsed response that hold a memo, and a document without its
  nested responses.
\<close>

definition memo_properties :: "string list" where
  "memo_properties =
     [''contents_memo'', ''on_response_received_actions_memo'',
      ''on_response_received_endpoints_memo'', ''on_response_received_commands_memo'',
      ''continuation_contents_memo'', ''actions_memo'',
      ''live_chat_item_context_menu_supported_renderers_memo'', ''header_memo'',
      ''sidebar_memo'', ''items_memo'']"

fun without_nested :: "raw \<Rightarrow> raw" where
  "without_nested (RObj kvs) =
     RObj (filter (\<lambda>(key, v). key \<noteq> ''playerResponse'' \<and> key \<noteq> ''watchNextResponse'') kvs)"
| "without_nested v = v"

subsection \<open>An example environment and documents\<close>

definition example_environment :: "unit environment" where
  "example_environment =
     \<lparr>RUNTIME_NODES = example_nodes,
      generateRuntimeClass = example_generator,
      imported = keeps_data,
      new_Format = (\<lambda>format cache s. (Inr (YTNode ''Format'' [(''data'', format)], cache), s)),
      CommentView_applyMutations =
        (\<lambda>node comment toolbar_state toolbar_surface comment_surface s. (Inr node, s)),
      parseInt = (\<lambda>v. None),
      Date_now = 0\<rparr>"

definition video :: "string \<Rightarrow> raw" where
  "video video_id = RObj [(''videoRenderer'', RStr video_id)]"

definition parsed_video :: "string \<Rightarrow> ytnode" where
  "parsed_video video_id = YTNode ''Video'' [(''data'', RStr video_id)]"

definition parsed_contents :: "string \<Rightarrow> parsed" where
  "parsed_contents video_id =
     [(''contents'', PSuper (Super_array [parsed_video video_id])),
      (''contents_memo'', PMemo [(''Video'', [parsed_video video_id])])]"

definition inner_document :: raw where
  "inner_document = RObj [(''contents'', RArr [video ''v''])]"

definition nesting_document :: raw where
  "nesting_document =
     RObj [(''contents'', RArr [video ''a'']), (''playerResponse'', inner_document)]"

section \<open>Properties of the sanitizer\<close>

lemma match_alt_append:
  "match_alt (as @ bs) s = (case match_alt as s of Some p \<Rightarrow> Some p | None \<Rightarrow> match_alt bs s)"
  by (induction as) auto

lemma contains_any_append:
  "contains_any (as @ bs) s \<longleftrightarrow> contains_any as s \<or> contains_any bs s"
  by (induction s) (auto simp: match_alt_append split: option.splits)

lemma replace_g_absent: "\<not> contains_any alts s \<Longrightarrow> replace_g alts rep s = s"
  by (induction s) auto

lemma replace_g_length_le:
  "\<forall>p\<in>set alts. length rep \<le> length p \<Longrightarrow> length (replace_g alts rep s) \<le> length s"
proof (induction alts rep s rule: replace_g.induct)
  case (1 alts rep)
  then show ?case by simp
next
  case (2 alts rep c cs)
  show ?case
  proof (cases "match_alt alts (c # cs)")
    case None
    with 2 show ?thesis by simp
  next
    case (Some p)
    from match_alt_SomeD[OF Some] have p: "p \<in> set alts" "length p \<le> Suc (length cs)"
      by (auto dest: prefix_length_le)
    from 2(2)[OF Some] 2(3) have "length (replace_g alts rep (drop (length p - 1) cs)) \<le> length cs - (length p - 1)"
      by simp
    moreover from p 2(3) have "length rep \<le> length p" by blast
    ultimately show ?thesis using Some p by simp
  qed
qed

lemma replace_g_length_less:
  "\<forall>p\<in>set alts. length rep < length p \<Longrightarrow> contains_any alts s \<Longrightarrow>
   length (replace_g alts rep s) < length s"
proof (induction s)
  case Nil
  then show ?case by simp
next
  case (Cons c cs)
  show ?case
  proof (cases "match_alt alts (c # cs)")
    case None
    with Cons show ?thesis by simp
  next
    case (Some p)
    from match_alt_SomeD[OF Some] have p: "p \<in> set alts" "length p \<le> Suc (length cs)"
      by (auto dest: prefix_length_le)
    have le: "\<forall>p\<in>set alts. length rep \<le> length p" using Cons.prems(1) by auto
    have "length (replace_g alts rep (drop (length p - 1) cs)) \<le> length cs - (length p - 1)"
      using replace_g_length_le[OF le, of "drop (length p - 1) cs"] by simp
    moreover from p Cons.prems(1) have "length rep < length p" by blast
    ultimately show ?thesis using Some p by simp
  qed
qed

lemma length_trim_le: "length (trim ws s) \<le> length s"
  unfolding trim_def
  by (metis length_dropWhile_le length_rev order_trans)

lemma dropWhile_same_length: "length (dropWhile P xs) = length xs \<Longrightarrow> dropWhile P xs = xs"
proof (cases xs)
  case Nil
  then show ?thesis by simp
next
  case (Cons x ys)
  assume len: "length (dropWhile P xs) = length xs"
  show ?thesis
  proof (cases "P x")
    case True
    have "length (dropWhile P ys) \<le> length ys" by (rule length_dropWhile_le)
    with True Cons len show ?thesis by simp
  next
    case False
    with Cons show ?thesis by simp
  qed
qed

lemma trim_same_length: "length (trim ws s) = length s \<Longrightarrow> trim ws s = s"
proof -
  assume len: "length (trim ws s) = length s"
  let ?a = "dropWhile ws s"
  let ?b = "dropWhile ws (rev ?a)"
  have 1: "length ?b \<le> length ?a" using length_dropWhile_le[of ws "rev ?a"] by simp
  have 2: "length ?a \<le> length s" by (rule length_dropWhile_le)
  from len have 3: "length ?b = length s" by (simp add: trim_def)
  from 1 2 3 have "length ?a = length s" by simp
  then have a: "?a = s" by (rule dropWhile_same_length)
  with 3 have "length (dropWhile ws (rev s)) = length (rev s)" by simp
  then have "dropWhile ws (rev s) = rev s" by (rule dropWhile_same_length)
  with a show ?thesis by (simp add: trim_def)
qed

lemma dropWhile_hd: "dropWhile P xs = [] \<or> \<not> P (hd (dropWhile P xs))"
  by (induction xs) auto

lemma trim_no_leading: "dropWhile ws (trim ws s) = trim ws s"
proof -
  let ?a = "dropWhile ws s"
  let ?b = "dropWhile ws (rev ?a)"
  show ?thesis
  proof (cases "?b = []")
    case True
    then have "trim ws s = []" unfolding trim_def by (simp only: rev.simps)
    then show ?thesis by simp
  next
    case False
    have "rev ?a = takeWhile ws (rev ?a) @ ?b" by simp
    then have "?a = rev ?b @ rev (takeWhile ws (rev ?a))"
      by (metis rev_append rev_rev_ident)
    with False have "hd ?a = hd (rev ?b)" by (metis hd_append2 rev_is_Nil_conv)
    moreover from False have "?a \<noteq> []" by (metis dropWhile.simps(1) rev.simps(1))
    ultimately have "\<not> ws (hd (rev ?b))" using dropWhile_hd[of ws s] by auto
    with False have "dropWhile ws (rev ?b) = rev ?b"
      by (cases "rev ?b") auto
    then show ?thesis by (simp add: trim_def)
  qed
qed

lemma trim_idem: "trim ws (trim ws s) = trim ws s"
proof -
  have "trim ws (trim ws s) = rev (dropWhile ws (rev (trim ws s)))"
    unfolding trim_def[of ws "trim ws s"] trim_no_leading ..
  also have "\<dots> = trim ws s" by (simp add: trim_def)
  finally show ?thesis .
qed

text \<open>A first code unit that is not white space stays the first one.\<close>

lemma trim_keeps_head: "\<not> ws d \<Longrightarrow> \<exists>r. trim ws (d # cs) = d # r"
proof -
  assume d: "\<not> ws d"
  have "\<exists>q. dropWhile ws (rev cs @ [d]) = q @ [d]"
    using d by (simp add: dropWhile_append)
  then obtain q where "dropWhile ws (rev cs @ [d]) = q @ [d]" ..
  with d have "trim ws (d # cs) = d # rev q" by (simp add: trim_def)
  then show ?thesis ..
qed

lemma capitalize_one_unit:
  "length (toUpperCase (hd s)) = 1 \<Longrightarrow> length (capitalize toUpperCase s) = length s"
  by (cases s) (simp_all add: capitalize_def)

lemma replace_g_first_match:
  "[] \<notin> set pats \<Longrightarrow> first_match pats s = Some (u, p, v) \<Longrightarrow>
   replace_g pats rep s = u @ rep @ replace_g pats rep v"
proof (induction s arbitrary: u)
  case Nil
  then show ?case by simp
next
  case (Cons c cs)
  show ?case
  proof (cases "match_alt pats (c # cs)")
    case None
    with Cons.prems obtain u' where "first_match pats cs = Some (u', p, v)" "u = c # u'"
      by (auto split: option.splits)
    with Cons.IH[OF Cons.prems(1)] None show ?thesis by simp
  next
    case (Some q)
    with Cons.prems have *: "u = []" "q = p" "v = drop (length p) (c # cs)" by auto
    from match_alt_SomeD[OF Some] Cons.prems(1) * have "p \<noteq> []" by auto
    then have "drop (length p) (c # cs) = drop (length p - 1) cs"
      by (cases p) auto
    with Some * show ?thesis by simp
  qed
qed

lemma first_match_None: "first_match pats s = None \<Longrightarrow> replace_g pats rep s = s"
  by (induction s) (auto split: option.splits)

lemma first_match_in_pats: "first_match pats s = Some (u, p, v) \<Longrightarrow> p \<in> set pats"
  by (induction s arbitrary: u) (auto split: option.splits dest: match_alt_SomeD)

lemma replace_g_eq_spec:
  "[] \<notin> set pats \<Longrightarrow> replace_g pats rep s = spec_replace_all pats rep s"
proof (induction pats rep s rule: spec_replace_all.induct)
  case (1 pats rep s)
  show ?case
  proof (cases "first_match pats s")
    case None
    then show ?thesis by (simp add: first_match_None spec_replace_all.simps[of pats rep s])
  next
    case (Some t)
    obtain u p v where t: "t = (u, p, v)" by (cases t)
    with Some have fm: "first_match pats s = Some (u, p, v)" by simp
    from first_match_in_pats[OF fm] "1.prems" have ne: "p \<noteq> []" by auto
    from "1.IH"[OF Some t[symmetric] refl ne "1.prems"]
    have "replace_g pats rep v = spec_replace_all pats rep v" .
    with replace_g_first_match[OF "1.prems" fm] fm ne show ?thesis
      by (simp add: spec_replace_all.simps[of pats rep s])
  qed
qed

lemma sanitize_refines:
  "sanitizeClassName_units up ws unit k = spec_sanitize up ws unit k"
proof -
  have c: "capitalize up k = (if k = [] then [] else up (hd k) @ tl k)"
    by (cases k) (simp_all add: capitalize_def)
  have r1: "replace_g [map unit ''Renderer'', map unit ''Model''] [] s =
      spec_replace_all [map unit ''Renderer'', map unit ''Model''] [] s" for s
    by (rule replace_g_eq_spec) simp
  have r2: "replace_g [map unit ''Radio''] (map unit ''Mix'') s =
      spec_replace_all [map unit ''Radio''] (map unit ''Mix'') s" for s
    by (rule replace_g_eq_spec) simp
  show ?thesis unfolding sanitizeClassName_units_def spec_sanitize_def c r1 r2 ..
qed

text \<open>
  A capital of several code units stays at the head of the sanitized name: it starts no
  literal and is not trimmed.
\<close>

lemma sanitize_long_capital:
  assumes "up c \<noteq> []" and "\<not> ws (hd (up c))"
      and "hd (up c) \<noteq> unit CHR ''R''" and "hd (up c) \<noteq> unit CHR ''M''"
  shows "\<exists>r. sanitizeClassName_units up ws unit (c # cs) = hd (up c) # r"
proof -
  from assms(1) obtain d ds where u: "up c = d # ds" by (cases "up c") auto
  with assms have d: "\<not> ws d" "d \<noteq> unit CHR ''R''" "d \<noteq> unit CHR ''M''" by simp_all
  have 1: "capitalize up (c # cs) = d # (ds @ cs)" by (simp add: capitalize_def u)
  from d have 2: "replace_g [map unit ''Renderer'', map unit ''Model''] [] (d # (ds @ cs)) =
      d # replace_g [map unit ''Renderer'', map unit ''Model''] [] (ds @ cs)"
    by auto
  from d have 3: "replace_g [map unit ''Radio''] (map unit ''Mix'') (d # rest) =
      d # replace_g [map unit ''Radio''] (map unit ''Mix'') rest" for rest
    by auto
  from trim_keeps_head[of ws d, OF d(1)] show ?thesis
    unfolding sanitizeClassName_units_def 1 2 3 u by simp
qed

lemma sanitize_fixpoint_if:
  assumes "capitalize up t = t"
      and "\<not> contains_any [map unit ''Renderer'', map unit ''Model'', map unit ''Radio''] t"
      and "trim ws t = t"
  shows "sanitizeClassName_units up ws unit t = t"
proof -
  from assms(2)
  have "\<not> contains_any ([map unit ''Renderer'', map unit ''Model''] @ [map unit ''Radio'']) t"
    by simp
  then have "\<not> contains_any [map unit ''Renderer'', map unit ''Model''] t"
    "\<not> contains_any [map unit ''Radio''] t"
    unfolding contains_any_append by simp_all
  with assms(1,3) show ?thesis
    by (simp add: sanitizeClassName_units_def replace_g_absent)
qed

lemma sanitize_fixpoint_only_if:
  assumes plain: "plain_capitals up ws unit"
      and fp: "sanitizeClassName_units up ws unit t = t"
  shows "capitalize up t = t \<and>
         \<not> contains_any [map unit ''Renderer'', map unit ''Model'', map unit ''Radio''] t"
proof (cases t)
  case Nil
  then show ?thesis by (simp add: capitalize_def)
next
  case (Cons c cs)
  have one: "length (up c) = 1"
  proof (rule ccontr)
    assume "length (up c) \<noteq> 1"
    with plain have long: "up c \<noteq> []" "hd (up c) \<noteq> c" "\<not> ws (hd (up c))"
      "hd (up c) \<noteq> unit CHR ''R''" "hd (up c) \<noteq> unit CHR ''M''"
      unfolding plain_capitals_def by blast+
    from sanitize_long_capital[of up c ws unit cs, OF long(1,3,4,5)]
    obtain r where "sanitizeClassName_units up ws unit (c # cs) = hd (up c) # r" ..
    with fp Cons long(2) show False by simp
  qed
  let ?t1 = "capitalize up t"
  let ?t2 = "replace_g [map unit ''Renderer'', map unit ''Model''] [] ?t1"
  let ?t3 = "replace_g [map unit ''Radio''] (map unit ''Mix'') ?t2"
  from fp have t4: "trim ws ?t3 = t" by (simp add: sanitizeClassName_units_def)
  from one Cons have l1: "length ?t1 = length t" by (simp add: capitalize_one_unit)
  have l2: "length ?t2 \<le> length ?t1" by (rule replace_g_length_le) simp
  have l3: "length ?t3 \<le> length ?t2" by (rule replace_g_length_le) simp
  have l4: "length (trim ws ?t3) \<le> length ?t3" by (rule length_trim_le)
  from t4 l1 l2 l3 l4 have e2: "length ?t2 = length ?t1" and e3: "length ?t3 = length ?t2"
    and e4: "length (trim ws ?t3) = length ?t3" by auto
  have n2: "\<not> contains_any [map unit ''Renderer'', map unit ''Model''] ?t1"
  proof
    assume "contains_any [map unit ''Renderer'', map unit ''Model''] ?t1"
    then have "length ?t2 < length ?t1" by (intro replace_g_length_less) simp_all
    with e2 show False by simp
  qed
  then have t2: "?t2 = ?t1" by (rule replace_g_absent)
  have n3: "\<not> contains_any [map unit ''Radio''] ?t2"
  proof
    assume "contains_any [map unit ''Radio''] ?t2"
    then have "length ?t3 < length ?t2" by (intro replace_g_length_less) simp_all
    with e3 show False by simp
  qed
  then have t3: "?t3 = ?t2" by (rule replace_g_absent)
  from e4 have "trim ws ?t3 = ?t3" by (rule trim_same_length)
  with t4 t3 t2 have c: "capitalize up t = t" by simp
  from n2 n3 t2 c
  have "\<not> contains_any ([map unit ''Renderer'', map unit ''Model''] @ [map unit ''Radio'']) t"
    unfolding contains_any_append by simp
  with c show ?thesis by simp
qed

lemma trim_sanitize:
  "trim ws (sanitizeClassName_units up ws unit k) = sanitizeClassName_units up ws unit k"
  unfolding sanitizeClassName_units_def by (rule trim_idem)

lemma plain_capitals_char: "plain_capitals toUpperCase_char isWhiteSpace (\<lambda>c. c)"
  unfolding plain_capitals_def
proof
  fix c :: char
  have one: "length (case m of Some u \<Rightarrow> [u] | None \<Rightarrow> [c]) = 1" for m :: "char option"
    by (cases m) simp_all
  show "length (toUpperCase_char c) = 1 \<or>
        (toUpperCase_char c \<noteq> [] \<and> hd (toUpperCase_char c) \<noteq> c \<and>
         \<not> isWhiteSpace (hd (toUpperCase_char c)) \<and>
         hd (toUpperCase_char c) \<noteq> CHR ''R'' \<and> hd (toUpperCase_char c) \<noteq> CHR ''M'')"
  proof (cases "c = CHR 0xDF")
    case True
    then show ?thesis by (simp add: toUpperCase_char_def isWhiteSpace_def)
  next
    case False
    then have "length (toUpperCase_char c) = 1"
      by (simp only: toUpperCase_char_def if_False one)
    then show ?thesis ..
  qed
qed

text \<open>
  Claim C5, amended. For every type of code units, every table of capitals, every set of
  white space and every key \<open>k\<close>, the sanitized name is the documented algorithm (first
  letter capitalized, every occurrence of \<open>Renderer\<close> and \<open>Model\<close> removed, every \<open>Radio\<close>
  replaced by \<open>Mix\<close>, trimmed). Sanitizing a sanitized name gives the same name whenever
  that name is unchanged by capitalization and contains none of \<open>Renderer\<close>, \<open>Model\<close> and
  \<open>Radio\<close>; with capitals like those of Unicode (\<open>plain_capitals\<close>) it does so in no
  other case: a removal can bring a new occurrence together, and trimming can uncover a
  lower-case first letter.
\<close>

theorem sanitizeClassName_documented:
  "sanitizeClassName_units up ws unit k = spec_sanitize up ws unit k \<and>
   (capitalize up (sanitizeClassName_units up ws unit k) = sanitizeClassName_units up ws unit k \<and>
    \<not> contains_any [map unit ''Renderer'', map unit ''Model'', map unit ''Radio'']
        (sanitizeClassName_units up ws unit k) \<longrightarrow>
    sanitizeClassName_units up ws unit (sanitizeClassName_units up ws unit k) =
      sanitizeClassName_units up ws unit k) \<and>
   (plain_capitals up ws unit \<longrightarrow>
    sanitizeClassName_units up ws unit (sanitizeClassName_units up ws unit k) =
      sanitizeClassName_units up ws unit k \<longrightarrow>
    capitalize up (sanitizeClassName_units up ws unit k) = sanitizeClassName_units up ws unit k \<and>
    \<not> contains_any [map unit ''Renderer'', map unit ''Model'', map unit ''Radio'']
        (sanitizeClassName_units up ws unit k))"
proof (intro conjI impI)
  show "sanitizeClassName_units up ws unit k = spec_sanitize up ws unit k"
    by (rule sanitize_refines)
next
  assume "capitalize up (sanitizeClassName_units up ws unit k) = sanitizeClassName_units up ws unit k \<and>
    \<not> contains_any [map unit ''Renderer'', map unit ''Model'', map unit ''Radio'']
        (sanitizeClassName_units up ws unit k)"
  then show "sanitizeClassName_units up ws unit (sanitizeClassName_units up ws unit k) =
      sanitizeClassName_units up ws unit k"
    by (intro sanitize_fixpoint_if trim_sanitize) simp_all
next
  assume "plain_capitals up ws unit"
    and "sanitizeClassName_units up ws unit (sanitizeClassName_units up ws unit k) =
      sanitizeClassName_units up ws unit k"
  then have both: "capitalize up (sanitizeClassName_units up ws unit k) =
        sanitizeClassName_units up ws unit k \<and>
      \<not> contains_any [map unit ''Renderer'', map unit ''Model'', map unit ''Radio'']
        (sanitizeClassName_units up ws unit k)"
    by (rule sanitize_fixpoint_only_if)
  from both show "capitalize up (sanitizeClassName_units up ws unit k) =
      sanitizeClassName_units up ws unit k" ..
  from both show "\<not> contains_any [map unit ''Renderer'', map unit ''Model'', map unit ''Radio'']
        (sanitizeClassName_units up ws unit k)" ..
qed

theorem sanitizeClassName_documented_witness:
  "sanitizeClassName ''musicRadioShelfRenderer'' =
     spec_sanitize toUpperCase_char isWhiteSpace (\<lambda>c. c) ''musicRadioShelfRenderer'' \<and>
   sanitizeClassName ''musicRadioShelfRenderer'' = ''MusicMixShelf'' \<and>
   capitalize toUpperCase_char ''MusicMixShelf'' = ''MusicMixShelf'' \<and>
   \<not> contains_any [''Renderer'', ''Model'', ''Radio''] ''MusicMixShelf'' \<and>
   plain_capitals toUpperCase_char isWhiteSpace (\<lambda>c. c) \<and>
   sanitizeClassName (sanitizeClassName ''musicRadioShelfRenderer'') =
     sanitizeClassName ''musicRadioShelfRenderer''"
proof -
  have n: "sanitizeClassName_units toUpperCase_char isWhiteSpace (\<lambda>c. c)
      ''musicRadioShelfRenderer'' = ''MusicMixShelf''"
    by (simp add: sanitizeClassName_units_def capitalize_def toUpperCase_char_def trim_def
        isWhiteSpace_def)
  have c: "capitalize toUpperCase_char ''MusicMixShelf'' = ''MusicMixShelf''"
    by (simp add: capitalize_def toUpperCase_char_def)
  have d: "\<not> contains_any [''Renderer'', ''Model'', ''Radio''] ''MusicMixShelf''"
    by simp
  note inst = sanitizeClassName_documented[of toUpperCase_char isWhiteSpace "\<lambda>c. c"
      "''musicRadioShelfRenderer''"]
  from inst have 1: "sanitizeClassName ''musicRadioShelfRenderer'' =
      spec_sanitize toUpperCase_char isWhiteSpace (\<lambda>c. c) ''musicRadioShelfRenderer''"
    unfolding sanitizeClassName_def by (rule conjunct1)
  have 2: "sanitizeClassName ''musicRadioShelfRenderer'' = ''MusicMixShelf''"
    unfolding sanitizeClassName_def by (rule n)
  from inst[THEN conjunct2, THEN conjunct1] c d
  have 3: "sanitizeClassName (sanitizeClassName ''musicRadioShelfRenderer'') =
      sanitizeClassName ''musicRadioShelfRenderer''"
    by (simp add: sanitizeClassName_def n)
  show ?thesis
    by (rule conjI[OF 1 conjI[OF 2 conjI[OF c conjI[OF d conjI[OF plain_capitals_char 3]]]]])
qed

text \<open>
  Claim C5 as stated fails: \<open>RenRendererderer\<close> is sanitized to \<open>Renderer\<close>, and
  \<open>Renderer\<close> to the empty name.
\<close>

theorem sanitizeClassName_not_idempotent:
  "sanitizeClassName ''RenRendererderer'' = ''Renderer'' \<and>
   sanitizeClassName (sanitizeClassName ''RenRendererderer'') = [] \<and>
   sanitizeClassName (sanitizeClassName ''RenRendererderer'') \<noteq> sanitizeClassName ''RenRendererderer''"
  by (simp add: sanitizeClassName_def sanitizeClassName_units_def capitalize_def
      toUpperCase_char_def trim_def isWhiteSpace_def)

section \<open>Properties of the item and array parser\<close>

lemma object_keys_truthy: "truthy data \<Longrightarrow> \<exists>keys. object_keys data = Inr keys"
  by (cases data) auto

lemma parseItem_returns:
  "\<exists>r s'. parseItem R G data vt s = (Inr r, s')"
proof (cases "truthy data")
  case False
  then show ?thesis by (simp add: parseItem_def)
next
  case True
  then obtain keys where k: "object_keys data = Inr keys" using object_keys_truthy by blast
  show ?thesis
  proof (cases "keys = [] \<or> shouldIgnore (sanitizeClassName (hd keys))")
    case True
    with \<open>truthy data\<close> k show ?thesis by (auto simp: parseItem_def Let_def)
  next
    case False
    obtain o1 s1 where t: "parseItem_try R G (sanitizeClassName (hd keys)) (getprop data (hd keys)) vt s = (o1, s1)"
      by (cases "parseItem_try R G (sanitizeClassName (hd keys)) (getprop data (hd keys)) vt s")
    with \<open>truthy data\<close> k False show ?thesis
      by (cases o1) (auto simp: parseItem_def Let_def)
  qed
qed

lemma parseItems_returns:
  "\<exists>r s'. parseItems R G items vt acc s = (Inr r, s')"
proof (induction items arbitrary: acc s)
  case Nil
  then show ?case by simp
next
  case (Cons item rest)
  obtain r s1 where p: "parseItem R G item vt s = (Inr r, s1)"
    using parseItem_returns by blast
  show ?case
  proof (cases r)
    case None
    with p Cons.IH[of acc s1] show ?thesis by simp
  next
    case (Some n)
    with p Cons.IH[of "acc @ [n]" s1] show ?thesis by simp
  qed
qed

lemma parseArray_throws_iff:
  "isl (fst (parseArray R G data vt s)) \<longleftrightarrow> truthy data \<and> \<not> isArray data"
proof (cases "isArray data")
  case True
  obtain r s' where "parseItems R G (elements data) vt [] s = (Inr r, s')"
    using parseItems_returns by blast
  with True show ?thesis by (simp add: parseArray_def)
next
  case False
  then show ?thesis by (simp add: parseArray_def)
qed

lemma parseItem_wrapper:
  "\<not> shouldIgnore (sanitizeClassName key) \<Longrightarrow>
   parseItem R G (RObj ((key, body) # rest)) vt s =
     (case parseItem_try R G (sanitizeClassName key) body vt s of
        (Inr result, s1) \<Rightarrow> (Inr result, s1)
      | (Inl err, s1) \<Rightarrow> (Inr None, ERROR_HANDLER (Parse (sanitizeClassName key) body err) s1))"
  by (simp add: parseItem_def Let_def split: prod.splits sum.splits)

lemma parseItem_ignored:
  "shouldIgnore (sanitizeClassName key) \<Longrightarrow>
   parseItem R G (RObj ((key, body) # rest)) vt s = (Inr None, s)"
  by (simp add: parseItem_def)

lemma parseItem_mismatch:
  assumes "\<not> shouldIgnore (sanitizeClassName key)"
      and "TargetClass_of R G (sanitizeClassName key) body s = (Inr C, s1)"
      and "\<not> typecheck valid (type_tag C)"
  shows "parseItem R G (RObj ((key, body) # rest)) (Some valid) s =
           (Inr None, s1\<lparr>reported := reported s1 @ [Typecheck (sanitizeClassName key) body valid]\<rparr>)"
  using assms by (simp add: parseItem_wrapper parseItem_try_def ERROR_HANDLER_def)

lemma parseItem_constructed:
  assumes "\<not> shouldIgnore (sanitizeClassName key)"
      and "TargetClass_of R G (sanitizeClassName key) body s = (Inr C, s1)"
      and "\<forall>valid. vt = Some valid \<longrightarrow> typecheck valid (type_tag C)"
      and "construct C body s1 = (Inr node, s2)"
  shows "parseItem R G (RObj ((key, body) # rest)) vt s =
           (Inr (Some node), addToMemo (sanitizeClassName key) node s2)"
  using assms
  by (cases vt) (simp_all add: parseItem_wrapper parseItem_try_def construct_and_memo_def)

lemma parseItem_constructor_throws:
  assumes "\<not> shouldIgnore (sanitizeClassName key)"
      and "TargetClass_of R G (sanitizeClassName key) body s = (Inr C, s1)"
      and "\<forall>valid. vt = Some valid \<longrightarrow> typecheck valid (type_tag C)"
      and "construct C body s1 = (Inl err, s2)"
  shows "parseItem R G (RObj ((key, body) # rest)) vt s =
           (Inr None, s2\<lparr>reported := reported s2 @ [Parse (sanitizeClassName key) body err]\<rparr>)"
  using assms
  by (cases vt) (simp_all add: parseItem_wrapper parseItem_try_def construct_and_memo_def ERROR_HANDLER_def)

lemma parseItems_acc:
  "parseItems R G items vt acc s =
     (case parseItems R G items vt [] s of
        (Inl err, s') \<Rightarrow> (Inl err, s')
      | (Inr results, s') \<Rightarrow> (Inr (acc @ results), s'))"
proof (induction items arbitrary: acc s)
  case Nil
  then show ?case by simp
next
  case (Cons item rest)
  obtain r s1 where p: "parseItem R G item vt s = (Inr r, s1)"
    using parseItem_returns by blast
  show ?case
  proof (cases r)
    case None
    with p Cons.IH[of acc s1] show ?thesis by simp
  next
    case (Some n)
    obtain o2 s2 where q: "parseItems R G rest vt [] s1 = (o2, s2)"
      by (cases "parseItems R G rest vt [] s1")
    with p Some Cons.IH[of "acc @ [n]" s1] Cons.IH[of "[n]" s1] show ?thesis
      by (cases o2) simp_all
  qed
qed

lemma parseItems_append:
  "parseItems R G (xs @ ys) vt acc s =
     (case parseItems R G xs vt acc s of
        (Inl err, s') \<Rightarrow> (Inl err, s')
      | (Inr results, s') \<Rightarrow> parseItems R G ys vt results s')"
proof (induction xs arbitrary: acc s)
  case Nil
  then show ?case by simp
next
  case (Cons item rest)
  obtain r s1 where p: "parseItem R G item vt s = (Inr r, s1)"
    using parseItem_returns by blast
  show ?case
  proof (cases r)
    case None
    with p Cons.IH[of acc s1] show ?thesis by simp
  next
    case (Some n)
    with p Cons.IH[of "acc @ [n]" s1] show ?thesis by simp
  qed
qed

lemma parseArray_RArr:
  "parseArray R G (RArr items) vt s =
     (case parseItems R G items vt [] s of
        (Inl err, s') \<Rightarrow> (Inl err, s')
      | (Inr results, s') \<Rightarrow> (Inr results, s'))"
  by (simp add: parseArray_def observe_def split: prod.splits sum.splits)

lemmas example_defs = example_nodes_def example_generator_def keeps_data_def always_throws_def
  idle_def TargetClass_of_def hasParser_def getParserByName_def ERROR_HANDLER_def
  addToMemo_def createMemo_def construct_and_memo_def parseItem_try_def

lemmas sanitize_defs = sanitizeClassName_def sanitizeClassName_units_def capitalize_def
  toUpperCase_char_def trim_def isWhiteSpace_def shouldIgnore_def IGNORED_LIST_def

lemma sanitize_video: "sanitizeClassName ''videoRenderer'' = ''Video''"
  by (simp add: sanitize_defs)

lemma sanitize_broken: "sanitizeClassName ''brokenRenderer'' = ''Broken''"
  by (simp add: sanitize_defs)

text \<open>
  Among the strings of the parser: the capital of U+00E9 is U+00C9, the capital of U+00DF
  is \<open>SS\<close>, and U+00A0 is trimmed.
\<close>

lemma sanitizeClassName_capitals:
  "sanitizeClassName (CHR 0xE9 # ''tatRenderer'') = CHR 0xC9 # ''tat'' \<and>
   sanitizeClassName (CHR 0xDF # ''x'') = ''SSx'' \<and>
   sanitizeClassName (''Video'' @ [CHR 0xA0]) = ''Video''"
  by (simp add: sanitize_defs)

lemma not_ignored_examples:
  "\<not> shouldIgnore ''Video''" "\<not> shouldIgnore ''Broken''"
  by (simp_all add: shouldIgnore_def IGNORED_LIST_def)

text \<open>
  Claim C6. A wrapper \<open>{key: body, ...}\<close> whose class is not ignored is dispatched to its
  class \<open>C\<close> first (\<open>TargetClass_of\<close>), then filtered. If the type of \<open>C\<close> is none of
  the valid types, \<open>parseItem\<close> returns \<open>null\<close> and the state is the one after dispatch
  with exactly one \<open>typecheck\<close> event added, carrying the class name, the data and the
  expected types: the constructor has not run and the memo is untouched. If the type is
  among the valid types and the constructor returns a node, that node is returned and
  recorded, and no \<open>typecheck\<close> event is added. The test is equality of type tags.
\<close>

theorem parseItem_type_filter:
  assumes "\<not> shouldIgnore (sanitizeClassName key)"
      and "TargetClass_of R G (sanitizeClassName key) body s = (Inr C, s1)"
  shows "(\<not> typecheck valid (type_tag C) \<longrightarrow>
            parseItem R G (RObj ((key, body) # rest)) (Some valid) s =
              (Inr None, s1\<lparr>reported := reported s1 @ [Typecheck (sanitizeClassName key) body valid]\<rparr>) \<and>
            MEMO (snd (parseItem R G (RObj ((key, body) # rest)) (Some valid) s)) = MEMO s1 \<and>
            (type_tag C = sanitizeClassName key \<longrightarrow>
               reported (snd (parseItem R G (RObj ((key, body) # rest)) (Some valid) s)) =
                 reported s1 @ [Typecheck (type_tag C) body valid])) \<and>
         (typecheck valid (type_tag C) \<longrightarrow>
            (\<forall>node s2. construct C body s1 = (Inr node, s2) \<longrightarrow>
               parseItem R G (RObj ((key, body) # rest)) (Some valid) s =
                 (Inr (Some node), addToMemo (sanitizeClassName key) node s2))) \<and>
         (typecheck (ExpectedMany types) (type_tag C) \<longleftrightarrow> type_tag C \<in> set types) \<and>
         (typecheck (ExpectedOne t) (type_tag C) \<longleftrightarrow> type_tag C = t)"
proof (intro conjI impI allI)
  assume "\<not> typecheck valid (type_tag C)"
  with assms have mismatch: "parseItem R G (RObj ((key, body) # rest)) (Some valid) s =
      (Inr None, s1\<lparr>reported := reported s1 @ [Typecheck (sanitizeClassName key) body valid]\<rparr>)"
    by (rule parseItem_mismatch)
  then show "parseItem R G (RObj ((key, body) # rest)) (Some valid) s =
      (Inr None, s1\<lparr>reported := reported s1 @ [Typecheck (sanitizeClassName key) body valid]\<rparr>)" .
  from mismatch show "MEMO (snd (parseItem R G (RObj ((key, body) # rest)) (Some valid) s)) = MEMO s1"
    by simp
  assume "type_tag C = sanitizeClassName key"
  with mismatch show "reported (snd (parseItem R G (RObj ((key, body) # rest)) (Some valid) s)) =
      reported s1 @ [Typecheck (type_tag C) body valid]"
    by simp
next
  fix node s2
  assume "typecheck valid (type_tag C)" and "construct C body s1 = (Inr node, s2)"
  with assms show "parseItem R G (RObj ((key, body) # rest)) (Some valid) s =
      (Inr (Some node), addToMemo (sanitizeClassName key) node s2)"
    by (intro parseItem_constructed) simp_all
next
  show "typecheck (ExpectedMany types) (type_tag C) \<longleftrightarrow> type_tag C \<in> set types"
    by (auto simp: list_ex_iff)
next
  show "typecheck (ExpectedOne t) (type_tag C) \<longleftrightarrow> type_tag C = t"
    by simp
qed

theorem parseItem_type_filter_witness:
  "parseItem example_nodes example_generator
     (RObj [(''videoRenderer'', RObj [(''videoId'', RStr ''a'')])])
     (Some (ExpectedMany [''Alert'', ''AlertWithButton''])) (createMemo idle) =
     (Inr None,
      \<lparr>MEMO = Some [],
       reported = [Typecheck ''Video'' (RObj [(''videoId'', RStr ''a'')])
                     (ExpectedMany [''Alert'', ''AlertWithButton''])],
       world = ()\<rparr>) \<and>
   parseItem example_nodes example_generator
     (RObj [(''videoRenderer'', RObj [(''videoId'', RStr ''a'')])])
     (Some (ExpectedMany [''Channel'', ''Video''])) (createMemo idle) =
     (Inr (Some (YTNode ''Video'' [(''data'', RObj [(''videoId'', RStr ''a'')])])),
      \<lparr>MEMO = Some [(''Video'', [YTNode ''Video'' [(''data'', RObj [(''videoId'', RStr ''a'')])]])],
       reported = [], world = ()\<rparr>)"
proof -
  have i: "\<not> shouldIgnore (sanitizeClassName ''videoRenderer'')"
    by (simp add: sanitize_defs)
  have n: "sanitizeClassName ''videoRenderer'' = ''Video''"
    by (simp add: sanitize_defs)
  have t: "TargetClass_of example_nodes example_generator (sanitizeClassName ''videoRenderer'')
        (RObj [(''videoId'', RStr ''a'')]) (createMemo idle) = (Inr (keeps_data ''Video''), createMemo idle)"
    by (simp add: n example_defs)
  have c: "construct (keeps_data ''Video'') (RObj [(''videoId'', RStr ''a'')]) (createMemo idle) =
      (Inr (YTNode ''Video'' [(''data'', RObj [(''videoId'', RStr ''a'')])]), createMemo idle)"
    by (simp add: example_defs)
  from parseItem_type_filter[OF i t, of "ExpectedMany [''Alert'', ''AlertWithButton'']" "[]" "[]" "[]"]
  have 1: "parseItem example_nodes example_generator
     (RObj [(''videoRenderer'', RObj [(''videoId'', RStr ''a'')])])
     (Some (ExpectedMany [''Alert'', ''AlertWithButton''])) (createMemo idle) =
     (Inr None,
      \<lparr>MEMO = Some [],
       reported = [Typecheck ''Video'' (RObj [(''videoId'', RStr ''a'')])
                     (ExpectedMany [''Alert'', ''AlertWithButton''])],
       world = ()\<rparr>)"
    by (simp add: n keeps_data_def createMemo_def idle_def)
  from parseItem_type_filter[OF i t, of "ExpectedMany [''Channel'', ''Video'']" "[]" "[]" "[]"] c
  have 2: "parseItem example_nodes example_generator
     (RObj [(''videoRenderer'', RObj [(''videoId'', RStr ''a'')])])
     (Some (ExpectedMany [''Channel'', ''Video''])) (createMemo idle) =
     (Inr (Some (YTNode ''Video'' [(''data'', RObj [(''videoId'', RStr ''a'')])])),
      \<lparr>MEMO = Some [(''Video'', [YTNode ''Video'' [(''data'', RObj [(''videoId'', RStr ''a'')])]])],
       reported = [], world = ()\<rparr>)"
    by (simp add: n keeps_data_def createMemo_def idle_def addToMemo_def)
  from 1 2 show ?thesis by simp
qed


lemma sibling_slot_parseItem:
  assumes "sibling_slot R G vt key body s = Some (slot, s1)"
  shows "parseItem R G (RObj ((key, body) # rest)) vt s = (Inr slot, s1)"
proof (cases "shouldIgnore (sanitizeClassName key)")
  case True
  with assms show ?thesis by (simp add: sibling_slot_def parseItem_ignored)
next
  case False
  with assms obtain C s0 where
    t: "TargetClass_of R G (sanitizeClassName key) body s = (Inr C, s0)"
    by (auto simp: sibling_slot_def split: prod.splits sum.splits)
  show ?thesis
  proof (cases "\<forall>valid. vt = Some valid \<longrightarrow> typecheck valid (type_tag C)")
    case True
    with assms False t have "sibling_built C (sanitizeClassName key) body s0 = Some (slot, s1)"
      by (cases vt) (simp_all add: sibling_slot_def)
    then obtain node s2 where "construct C body s0 = (Inr node, s2)"
      "slot = Some node" "s1 = addToMemo (sanitizeClassName key) node s2"
      by (auto simp: sibling_built_def split: prod.splits sum.splits)
    with parseItem_constructed[OF False t True, of node s2 rest] show ?thesis by simp
  next
    case mismatch: False
    then obtain valid where v: "vt = Some valid" "\<not> typecheck valid (type_tag C)" by blast
    with assms False t have "slot = None"
      "s1 = s0\<lparr>reported := reported s0 @ [Typecheck (sanitizeClassName key) body valid]\<rparr>"
      by (simp_all add: sibling_slot_def)
    with parseItem_mismatch[OF False t v(2), of rest] v(1) show ?thesis by simp
  qed
qed

lemma siblings_in_turn_parseItems:
  "siblings_in_turn R G vt items s = Some (nodes, s') \<Longrightarrow>
   parseItems R G items vt acc s = (Inr (acc @ nodes), s')"
proof (induction R G vt items s arbitrary: nodes acc rule: siblings_in_turn.induct)
  case (2 R G vt key body rest items s)
  from "2.prems" obtain slot s1 nodes1 where
    slot: "sibling_slot R G vt key body s = Some (slot, s1)"
    and tail: "siblings_in_turn R G vt items s1 = Some (nodes1, s')"
    and nodes: "nodes = (case slot of None \<Rightarrow> nodes1 | Some node \<Rightarrow> node # nodes1)"
    by (auto split: option.splits prod.splits)
  from slot have item: "parseItem R G (RObj ((key, body) # rest)) vt s = (Inr slot, s1)"
    by (rule sibling_slot_parseItem)
  from "2.IH"[OF slot refl tail]
  have ih: "parseItems R G items vt acc' s1 = (Inr (acc' @ nodes1), s')" for acc' .
  show ?case
  proof (cases slot)
    case None
    with item nodes ih[of acc] show ?thesis by simp
  next
    case (Some node)
    with item nodes ih[of "acc @ [node]"] show ?thesis by simp
  qed
qed simp_all

text \<open>
  Claim C7. In an array of wrappers, let the constructor of one element throw and let no
  generator or constructor of another element throw (\<open>siblings_in_turn\<close>). Then
  \<open>parseArray\<close> returns the observed array of the nodes that the constructors of the
  elements before and of the elements after have returned, in source order; the failing
  element has no node, and it has added exactly one \<open>parse\<close> event to the state its
  constructor left. On any array at all \<open>parseArray\<close> returns.
\<close>

theorem parseArray_skips_throwing_item:
  assumes before: "siblings_in_turn R G vt before s = Some (nodes_before, s1)"
      and dispatched: "\<not> shouldIgnore (sanitizeClassName key)"
        "TargetClass_of R G (sanitizeClassName key) body s1 = (Inr C, s2)"
        "\<forall>valid. vt = Some valid \<longrightarrow> typecheck valid (type_tag C)"
      and throws: "construct C body s2 = (Inl err, s3)"
      and after: "siblings_in_turn R G vt after
          (s3\<lparr>reported := reported s3 @ [Parse (sanitizeClassName key) body err]\<rparr>) =
            Some (nodes_after, s4)"
  shows "parseArray R G (RArr (before @ RObj ((key, body) # rest) # after)) vt s =
           (Inr (observe (nodes_before @ nodes_after)), s4) \<and>
         parseItem R G (RObj ((key, body) # rest)) vt s1 =
           (Inr None, s3\<lparr>reported := reported s3 @ [Parse (sanitizeClassName key) body err]\<rparr>) \<and>
         (\<forall>items s0. \<exists>nodes s'. parseArray R G (RArr items) vt s0 = (Inr nodes, s'))"
proof (intro conjI)
  show "\<forall>items s0. \<exists>nodes s'. parseArray R G (RArr items) vt s0 = (Inr nodes, s')"
  proof (intro allI)
    fix items s0
    obtain nodes s' where "parseItems R G items vt [] s0 = (Inr nodes, s')"
      using parseItems_returns by blast
    then have "parseArray R G (RArr items) vt s0 = (Inr nodes, s')"
      by (simp add: parseArray_RArr)
    then show "\<exists>nodes s'. parseArray R G (RArr items) vt s0 = (Inr nodes, s')" by blast
  qed
next
  show w: "parseItem R G (RObj ((key, body) # rest)) vt s1 =
      (Inr None, s3\<lparr>reported := reported s3 @ [Parse (sanitizeClassName key) body err]\<rparr>)"
    using dispatched throws by (rule parseItem_constructor_throws)
  from before have b: "parseItems R G before vt [] s = (Inr nodes_before, s1)"
    using siblings_in_turn_parseItems[of R G vt before s nodes_before s1 "[]"] by simp
  from after have a: "parseItems R G after vt nodes_before
      (s3\<lparr>reported := reported s3 @ [Parse (sanitizeClassName key) body err]\<rparr>) =
        (Inr (nodes_before @ nodes_after), s4)"
    by (rule siblings_in_turn_parseItems)
  have "parseItems R G (before @ RObj ((key, body) # rest) # after) vt [] s =
      parseItems R G (RObj ((key, body) # rest) # after) vt nodes_before s1"
    by (simp add: parseItems_append b)
  also have "\<dots> = parseItems R G after vt nodes_before
      (s3\<lparr>reported := reported s3 @ [Parse (sanitizeClassName key) body err]\<rparr>)"
    by (simp add: w)
  also note a
  finally show "parseArray R G (RArr (before @ RObj ((key, body) # rest) # after)) vt s =
      (Inr (observe (nodes_before @ nodes_after)), s4)"
    by (simp add: parseArray_RArr observe_def)
qed

theorem parseArray_skips_throwing_item_witness:
  "siblings_in_turn example_nodes example_generator None
     [RObj [(''videoRenderer'', RStr ''a'')], RObj [(''adSlotRenderer'', RStr ''x'')]]
     (createMemo idle) =
     Some ([YTNode ''Video'' [(''data'', RStr ''a'')]],
       \<lparr>MEMO = Some [(''Video'', [YTNode ''Video'' [(''data'', RStr ''a'')]])],
        reported = [], world = ()\<rparr>) \<and>
   parseArray example_nodes example_generator
     (RArr [RObj [(''videoRenderer'', RStr ''a'')],
            RObj [(''adSlotRenderer'', RStr ''x'')],
            RObj [(''brokenRenderer'', RStr ''b'')],
            RObj [(''videoRenderer'', RStr ''c'')]]) None (createMemo idle) =
     (Inr [YTNode ''Video'' [(''data'', RStr ''a'')], YTNode ''Video'' [(''data'', RStr ''c'')]],
      \<lparr>MEMO = Some [(''Video'', [YTNode ''Video'' [(''data'', RStr ''a'')], YTNode ''Video'' [(''data'', RStr ''c'')]])],
       reported = [Parse ''Broken'' (RStr ''b'') (TypeError ''data.title is undefined'')],
       world = ()\<rparr>)"
proof -
  let ?s1 = "\<lparr>MEMO = Some [(''Video'', [YTNode ''Video'' [(''data'', RStr ''a'')]])], reported = [], world = ()\<rparr>"
  let ?s3 = "?s1\<lparr>reported := reported ?s1 @ [Parse (sanitizeClassName ''brokenRenderer'') (RStr ''b'')
      (TypeError ''data.title is undefined'')]\<rparr>"
  let ?s4 = "\<lparr>MEMO = Some [(''Video'', [YTNode ''Video'' [(''data'', RStr ''a'')], YTNode ''Video'' [(''data'', RStr ''c'')]])],
       reported = [Parse ''Broken'' (RStr ''b'') (TypeError ''data.title is undefined'')],
       world = ()\<rparr>"
  have ad: "sanitizeClassName ''adSlotRenderer'' = ''AdSlot''"
    by (simp add: sanitize_defs)
  have b: "siblings_in_turn example_nodes example_generator None
      [RObj [(''videoRenderer'', RStr ''a'')], RObj [(''adSlotRenderer'', RStr ''x'')]]
      (createMemo idle) = Some ([YTNode ''Video'' [(''data'', RStr ''a'')]], ?s1)"
    by (simp add: sibling_slot_def sibling_built_def sanitize_video ad not_ignored_examples
        shouldIgnore_def IGNORED_LIST_def example_defs)
  have i: "\<not> shouldIgnore (sanitizeClassName ''brokenRenderer'')"
    by (simp add: sanitize_broken not_ignored_examples)
  have t: "TargetClass_of example_nodes example_generator (sanitizeClassName ''brokenRenderer'')
      (RStr ''b'') ?s1 = (Inr (always_throws ''Broken''), ?s1)"
    by (simp add: sanitize_broken example_defs)
  have v: "\<forall>valid. None = Some valid \<longrightarrow> typecheck valid (type_tag (always_throws ''Broken''))"
    by simp
  have c: "construct (always_throws ''Broken'') (RStr ''b'') ?s1 =
      (Inl (TypeError ''data.title is undefined''), ?s1)"
    by (simp add: always_throws_def)
  have a: "siblings_in_turn example_nodes example_generator None
      [RObj [(''videoRenderer'', RStr ''c'')]] ?s3 =
        Some ([YTNode ''Video'' [(''data'', RStr ''c'')]], ?s4)"
    by (simp add: sibling_slot_def sibling_built_def sanitize_video sanitize_broken
        not_ignored_examples example_defs)
  from parseArray_skips_throwing_item[OF b i t v c a, of "[]"] b show ?thesis
    by (simp add: observe_def)
qed


lemma and_then_returnsD:
  "and_then first next s = (Inr r, s') \<Longrightarrow> \<exists>a s1. first s = (Inr a, s1) \<and> next a s1 = (Inr r, s')"
  by (auto simp: and_then_def split: prod.splits sum.splits)

lemma items_section_clears:
  "items_section env v parsed_data s = (Inr r, s') \<Longrightarrow> MEMO s' = None"
  by (auto simp: items_section_def clearMemo_def split: prod.splits sum.splits option.splits)

lemma memo_sections_clears:
  assumes "memo_sections env data s = (Inr r, s')"
  shows "MEMO s' = None"
proof -
  from assms obtain parsed_data s9 where
    "items_section env (getprop data ''items'') parsed_data s9 =
       (Inr (fst r), s')"
    unfolding memo_sections_def
    by (auto dest!: and_then_returnsD simp: returns_def split: prod.splits)
  then show ?thesis by (rule items_section_clears)
qed

text \<open>
  Claim C10. With no active memo after construction, a successful \<open>parseItem\<close> returns
  the constructed node and the state the constructor left: \<open>_addToMemo\<close> does nothing
  there, for any class name and node. \<open>_getMemo\<close> throws \<open>Parser#getMemo() called before
  Parser#createMemo()\<close> exactly when no memo is active. In \<open>parseResponse\<close> the sections
  with a memo leave no memo active for the sections that follow.
\<close>

theorem parseItem_without_memo:
  assumes "\<not> shouldIgnore (sanitizeClassName key)"
      and "TargetClass_of R G (sanitizeClassName key) body s = (Inr C, s1)"
      and "\<forall>valid. vt = Some valid \<longrightarrow> typecheck valid (type_tag C)"
      and "construct C body s1 = (Inr node, s2)"
      and "MEMO s2 = None"
  shows "parseItem R G (RObj ((key, body) # rest)) vt s = (Inr (Some node), s2) \<and>
         addToMemo classname result s2 = s2 \<and>
         getMemo s2 = Inl (Error ''Parser#getMemo() called before Parser#createMemo()'') \<and>
         (isl (getMemo s') \<longleftrightarrow> MEMO s' = None) \<and>
         (\<forall>env data s0 r s3. memo_sections env data s0 = (Inr r, s3) \<longrightarrow> MEMO s3 = None)"
proof -
  from \<open>MEMO s2 = None\<close> have skip: "addToMemo c r s2 = s2" for c r
    by (simp add: addToMemo_def)
  have "parseItem R G (RObj ((key, body) # rest)) vt s =
      (Inr (Some node), addToMemo (sanitizeClassName key) node s2)"
    using assms(1-4) by (rule parseItem_constructed)
  then have "parseItem R G (RObj ((key, body) # rest)) vt s = (Inr (Some node), s2)"
    by (simp add: skip)
  moreover from \<open>MEMO s2 = None\<close>
  have "getMemo s2 = Inl (Error ''Parser#getMemo() called before Parser#createMemo()'')"
    by (simp add: getMemo_def)
  moreover have "isl (getMemo s') \<longleftrightarrow> MEMO s' = None"
    by (cases "MEMO s'") (simp_all add: getMemo_def)
  moreover have "\<forall>env data s0 r s3. memo_sections env data s0 = (Inr r, s3) \<longrightarrow> MEMO s3 = None"
    by (blast intro: memo_sections_clears)
  ultimately show ?thesis using skip by simp
qed

theorem parseItem_without_memo_witness:
  "parseItem example_nodes example_generator
     (RObj [(''playerCaptionsTracklistRenderer'', RObj [])])
     (Some (ExpectedOne ''PlayerCaptionsTracklist'')) idle =
     (Inr (Some (YTNode ''PlayerCaptionsTracklist'' [(''data'', RObj [])])),
      \<lparr>MEMO = None, reported = [Class_not_found ''PlayerCaptionsTracklist'' []], world = ()\<rparr>) \<and>
   getMemo (snd (parseItem example_nodes example_generator
     (RObj [(''playerCaptionsTracklistRenderer'', RObj [])])
     (Some (ExpectedOne ''PlayerCaptionsTracklist'')) idle)) =
     Inl (Error ''Parser#getMemo() called before Parser#createMemo()'')"
proof -
  let ?s2 = "\<lparr>MEMO = None, reported = [Class_not_found ''PlayerCaptionsTracklist'' []], world = ()\<rparr>"
  have n: "sanitizeClassName ''playerCaptionsTracklistRenderer'' = ''PlayerCaptionsTracklist''"
    by (simp add: sanitize_defs)
  have i: "\<not> shouldIgnore (sanitizeClassName ''playerCaptionsTracklistRenderer'')"
    unfolding n by (simp add: shouldIgnore_def IGNORED_LIST_def)
  have t: "TargetClass_of example_nodes example_generator
        (sanitizeClassName ''playerCaptionsTracklistRenderer'') (RObj []) idle =
      (Inr (keeps_data ''PlayerCaptionsTracklist''), ?s2)"
    unfolding n by (simp add: example_defs)
  have v: "\<forall>valid. Some (ExpectedOne ''PlayerCaptionsTracklist'') = Some valid \<longrightarrow>
      typecheck valid (type_tag (keeps_data ''PlayerCaptionsTracklist''))"
    by (simp add: keeps_data_def)
  have c: "construct (keeps_data ''PlayerCaptionsTracklist'') (RObj []) ?s2 =
      (Inr (YTNode ''PlayerCaptionsTracklist'' [(''data'', RObj [])]), ?s2)"
    by (simp add: keeps_data_def)
  have m: "MEMO ?s2 = None" by simp
  note inst = parseItem_without_memo[OF i t v c m, where rest = "[]" and classname = "[]"
      and result = "YTNode [] []" and s' = idle]
  from inst have 1: "parseItem example_nodes example_generator
     (RObj [(''playerCaptionsTracklistRenderer'', RObj [])])
     (Some (ExpectedOne ''PlayerCaptionsTracklist'')) idle =
     (Inr (Some (YTNode ''PlayerCaptionsTracklist'' [(''data'', RObj [])])), ?s2)"
    by (rule conjunct1)
  from inst have 2: "getMemo (?s2 :: (ytnode, unit) pstate) =
      Inl (Error ''Parser#getMemo() called before Parser#createMemo()'')"
    by (elim conjE)
  from 1 2 show ?thesis by simp
qed

text \<open>
  Claim C8, amended. \<open>parseItem\<close> returns for every input, registry, generator and state.
  \<open>parseArray\<close> throws exactly when its input is truthy and not an array (the source tests
  \<open>Array.isArray(data)\<close>, then \<open>!data\<close>): on \<open>undefined\<close> and on every other falsy value
  (\<open>null\<close>, \<open>false\<close>, \<open>0\<close>, the empty string) it returns the empty observed array and
  leaves the state alone; on a single wrapper object it throws
  \<open>Expected array but got a single item\<close>, and so it does on \<open>true\<close>, on a number other
  than \<open>0\<close> and on a non-empty string.
\<close>

theorem parseItem_never_throws_parseArray_shape:
  "(\<exists>r s'. parseItem R G data vt s = (Inr r, s')) \<and>
   (isl (fst (parseArray R G data vt s)) \<longleftrightarrow> truthy data \<and> \<not> isArray data) \<and>
   parseArray R G Undefined vt s = (Inr (observe []), s) \<and>
   parseArray R G Null vt s = (Inr (observe []), s) \<and>
   parseArray R G (RBool False) vt s = (Inr (observe []), s) \<and>
   parseArray R G (RNum 0) vt s = (Inr (observe []), s) \<and>
   parseArray R G (RStr []) vt s = (Inr (observe []), s) \<and>
   parseArray R G (RObj wrapper) vt s =
     (Inl (ParsingError ''Expected array but got a single item''), s) \<and>
   parseArray R G (RBool True) vt s =
     (Inl (ParsingError ''Expected array but got a single item''), s) \<and>
   parseArray R G (RNum 1) vt s =
     (Inl (ParsingError ''Expected array but got a single item''), s) \<and>
   parseArray R G (RStr (c # cs)) vt s =
     (Inl (ParsingError ''Expected array but got a single item''), s)"
proof -
  have "\<exists>r s'. parseItem R G data vt s = (Inr r, s')" by (rule parseItem_returns)
  moreover have "isl (fst (parseArray R G data vt s)) \<longleftrightarrow> truthy data \<and> \<not> isArray data"
    by (rule parseArray_throws_iff)
  moreover have "parseArray R G Undefined vt s = (Inr (observe []), s)"
    "parseArray R G Null vt s = (Inr (observe []), s)"
    "parseArray R G (RBool False) vt s = (Inr (observe []), s)"
    "parseArray R G (RNum 0) vt s = (Inr (observe []), s)"
    "parseArray R G (RStr []) vt s = (Inr (observe []), s)"
    by (simp_all add: parseArray_def)
  moreover have "parseArray R G (RObj wrapper) vt s =
     (Inl (ParsingError ''Expected array but got a single item''), s)"
    "parseArray R G (RBool True) vt s =
     (Inl (ParsingError ''Expected array but got a single item''), s)"
    "parseArray R G (RNum 1) vt s =
     (Inl (ParsingError ''Expected array but got a single item''), s)"
    "parseArray R G (RStr (c # cs)) vt s =
     (Inl (ParsingError ''Expected array but got a single item''), s)"
    by (simp_all add: parseArray_def)
  ultimately show ?thesis by blast
qed

text \<open>
  Claim C8 as stated fails: the empty string, the number \<open>0\<close> and \<open>false\<close> are present
  and are not lists, and \<open>parseArray\<close> returns the empty observed array on each of them
  instead of throwing.
\<close>

theorem parseArray_falsy_input_returns:
  "RStr [] \<noteq> Undefined \<and> \<not> isArray (RStr []) \<and>
   parseArray example_nodes example_generator (RStr []) None (createMemo idle) =
     (Inr [], createMemo idle) \<and>
   RNum 0 \<noteq> Undefined \<and> \<not> isArray (RNum 0) \<and>
   parseArray example_nodes example_generator (RNum 0) None (createMemo idle) =
     (Inr [], createMemo idle) \<and>
   RBool False \<noteq> Undefined \<and> \<not> isArray (RBool False) \<and>
   parseArray example_nodes example_generator (RBool False) None (createMemo idle) =
     (Inr [], createMemo idle)"
  by (simp add: parseArray_def observe_def)

section \<open>Properties of the command parser\<close>

lemma parseCommand_keys_passed_over:
  "list_all (passed_over R s) before \<Longrightarrow>
   parseCommand_keys R data (before @ keys) s = parseCommand_keys R data keys s"
  by (induction before) (auto simp: passed_over_def Let_def)

lemma parseCommand_keys_ignored:
  "is_command_key key \<Longrightarrow> shouldIgnore (sanitizeClassName key) \<Longrightarrow>
   parseCommand_keys R data (key # rest) s = (None, s)"
  by (simp add: Let_def)

lemma parseCommand_keys_constructed:
  "is_command_key key \<Longrightarrow> \<not> shouldIgnore (sanitizeClassName key) \<Longrightarrow>
   R (world s) (sanitizeClassName key) = Some C \<Longrightarrow>
   construct C (getprop data key) s = (Inr node, s1) \<Longrightarrow>
   parseCommand_keys R data (key # rest) s = (Some node, s1)"
  by (simp add: Let_def hasParser_def getParserByName_def)

lemma parseCommand_keys_throws:
  "is_command_key key \<Longrightarrow> \<not> shouldIgnore (sanitizeClassName key) \<Longrightarrow>
   R (world s) (sanitizeClassName key) = Some C \<Longrightarrow>
   construct C (getprop data key) s = (Inl err, s1) \<Longrightarrow>
   parseCommand_keys R data (key # rest) s =
     parseCommand_keys R data rest
       (s1\<lparr>reported := reported s1 @ [Parse (sanitizeClassName key) (getprop data key) err]\<rparr>)"
  by (simp add: Let_def hasParser_def getParserByName_def ERROR_HANDLER_def)

lemma sanitize_commands:
  "sanitizeClassName ''brokenCommand'' = ''BrokenCommand''"
  "sanitizeClassName ''nextEndpoint'' = ''NextEndpoint''"
  "sanitizeClassName ''clickTrackingParams'' = ''ClickTrackingParams''"
  by (simp_all add: sanitize_defs)

lemma is_command_key_examples:
  "is_command_key ''brokenCommand''" "is_command_key ''nextEndpoint''"
  "\<not> is_command_key ''clickTrackingParams''"
  by (simp_all add: is_command_key_def suffix_def)

text \<open>
  Claim C1, amended. The keys of the raw node are scanned in declared order. Keys that do
  not end with \<open>Command\<close>, \<open>Endpoint\<close> or \<open>Action\<close>, and keys whose sanitized name is
  neither ignored nor registered, are passed over without any event; no stub is
  synthesized. At the first other key: if its sanitized name is ignored, the result is
  empty and no event is emitted; if its constructor returns a node, that node is
  returned; if its constructor throws, exactly one \<open>parse\<close> event is emitted for it and the
  scan goes on with the later keys, so that the result is empty when all later keys are
  passed over.
\<close>

theorem parseCommand_scan:
  assumes keys: "map fst wrapper = before @ key # rest"
      and before: "list_all (passed_over R s) before"
      and key: "is_command_key key"
  shows "(shouldIgnore (sanitizeClassName key) \<longrightarrow> parseCommand R (RObj wrapper) s = (None, s)) \<and>
         (\<not> shouldIgnore (sanitizeClassName key) \<longrightarrow>
            (\<forall>C node s1.
               R (world s) (sanitizeClassName key) = Some C \<longrightarrow>
               construct C (getprop (RObj wrapper) key) s = (Inr node, s1) \<longrightarrow>
               parseCommand R (RObj wrapper) s = (Some node, s1)) \<and>
            (\<forall>C err s1.
               R (world s) (sanitizeClassName key) = Some C \<longrightarrow>
               construct C (getprop (RObj wrapper) key) s = (Inl err, s1) \<longrightarrow>
               parseCommand R (RObj wrapper) s =
                 parseCommand_keys R (RObj wrapper) rest
                   (s1\<lparr>reported := reported s1 @
                      [Parse (sanitizeClassName key) (getprop (RObj wrapper) key) err]\<rparr>) \<and>
               (list_all (passed_over R
                    (s1\<lparr>reported := reported s1 @
                      [Parse (sanitizeClassName key) (getprop (RObj wrapper) key) err]\<rparr>)) rest \<longrightarrow>
                parseCommand R (RObj wrapper) s =
                  (None, s1\<lparr>reported := reported s1 @
                      [Parse (sanitizeClassName key) (getprop (RObj wrapper) key) err]\<rparr>))))"
proof -
  have start: "parseCommand R (RObj wrapper) s = parseCommand_keys R (RObj wrapper) (key # rest) s"
    using keys before by (simp add: parseCommand_def parseCommand_keys_passed_over)
  have skip_all: "list_all (passed_over R s') ks \<Longrightarrow>
      parseCommand_keys R (RObj wrapper) ks s' = (None, s')" for s' ks
    using parseCommand_keys_passed_over[of R s' ks "RObj wrapper" "[]"] by simp
  show ?thesis
  proof (intro conjI impI allI)
    assume "shouldIgnore (sanitizeClassName key)"
    with key show "parseCommand R (RObj wrapper) s = (None, s)"
      unfolding start by (rule parseCommand_keys_ignored)
  next
    fix C node s1
    assume "\<not> shouldIgnore (sanitizeClassName key)"
      "R (world s) (sanitizeClassName key) = Some C"
      "construct C (getprop (RObj wrapper) key) s = (Inr node, s1)"
    with key show "parseCommand R (RObj wrapper) s = (Some node, s1)"
      unfolding start by (rule parseCommand_keys_constructed)
  next
    fix C err s1
    assume a: "\<not> shouldIgnore (sanitizeClassName key)"
      "R (world s) (sanitizeClassName key) = Some C"
      "construct C (getprop (RObj wrapper) key) s = (Inl err, s1)"
    with key show go_on: "parseCommand R (RObj wrapper) s =
        parseCommand_keys R (RObj wrapper) rest
          (s1\<lparr>reported := reported s1 @
             [Parse (sanitizeClassName key) (getprop (RObj wrapper) key) err]\<rparr>)"
      unfolding start by (rule parseCommand_keys_throws)
    assume "list_all (passed_over R
        (s1\<lparr>reported := reported s1 @
           [Parse (sanitizeClassName key) (getprop (RObj wrapper) key) err]\<rparr>)) rest"
    then show "parseCommand R (RObj wrapper) s =
        (None, s1\<lparr>reported := reported s1 @
           [Parse (sanitizeClassName key) (getprop (RObj wrapper) key) err]\<rparr>)"
      unfolding go_on by (rule skip_all)
  qed
qed

theorem parseCommand_scan_witness:
  "parseCommand example_nodes
     (RObj [(''clickTrackingParams'', RStr ''p''), (''brokenCommand'', RStr ''x''),
            (''loggingDirectives'', RStr ''y'')]) idle =
     (None,
      \<lparr>MEMO = None,
       reported = [Parse ''BrokenCommand'' (RStr ''x'') (TypeError ''data.title is undefined'')],
       world = ()\<rparr>)"
proof -
  let ?wrapper = "[(''clickTrackingParams'', RStr ''p''), (''brokenCommand'', RStr ''x''),
            (''loggingDirectives'', RStr ''y'')]"
  let ?s1 = "idle\<lparr>reported := reported idle @
      [Parse (sanitizeClassName ''brokenCommand'') (getprop (RObj ?wrapper) ''brokenCommand'')
         (TypeError ''data.title is undefined'')]\<rparr>"
  have k: "map fst ?wrapper = [''clickTrackingParams''] @ ''brokenCommand'' # [''loggingDirectives'']"
    by simp
  have b: "list_all (passed_over example_nodes idle) [''clickTrackingParams'']"
    by (simp add: passed_over_def is_command_key_examples)
  have c: "is_command_key ''brokenCommand''"
    by (simp add: is_command_key_examples)
  have i: "\<not> shouldIgnore (sanitizeClassName ''brokenCommand'')"
    by (simp add: sanitize_commands shouldIgnore_def IGNORED_LIST_def)
  have r: "example_nodes (world idle) (sanitizeClassName ''brokenCommand'') =
      Some (always_throws ''BrokenCommand'')"
    by (simp add: sanitize_commands example_nodes_def)
  have t: "construct (always_throws ''BrokenCommand'') (getprop (RObj ?wrapper) ''brokenCommand'') idle =
      (Inl (TypeError ''data.title is undefined''), idle)"
    by (simp add: always_throws_def)
  have a: "list_all (passed_over example_nodes ?s1) [''loggingDirectives'']"
    by (simp add: passed_over_def is_command_key_def suffix_def)
  from parseCommand_scan[OF k b c] i r t a
  have "parseCommand example_nodes (RObj ?wrapper) idle = (None, ?s1)"
    by blast
  then show ?thesis by (simp add: sanitize_commands idle_def)
qed

text \<open>
  Claim C1 as stated fails: the constructor of the first command key throws, and the
  later key \<open>nextEndpoint\<close> is dispatched and gives the result.
\<close>

theorem parseCommand_later_key_dispatched:
  "construct (always_throws ''BrokenCommand'') (RStr ''x'') idle =
     (Inl (TypeError ''data.title is undefined''), idle) \<and>
   parseCommand example_nodes
     (RObj [(''clickTrackingParams'', RStr ''p''), (''brokenCommand'', RStr ''x''),
            (''nextEndpoint'', RStr ''y'')]) idle =
     (Some (YTNode ''NextEndpoint'' [(''data'', RStr ''y'')]),
      \<lparr>MEMO = None,
       reported = [Parse ''BrokenCommand'' (RStr ''x'') (TypeError ''data.title is undefined'')],
       world = ()\<rparr>)"
  by (simp add: parseCommand_def Let_def sanitize_commands is_command_key_examples
      shouldIgnore_def IGNORED_LIST_def example_defs)

section \<open>Properties of the mutation engine\<close>

lemma choice_matches_object:
  "\<not> nullish m \<Longrightarrow> choice_matches item m = Inr (id_matches item m)"
  by (simp add: choice_matches_def id_matches_def read_member_def)

lemma find_entry_objects:
  "list_all (\<lambda>m. \<not> nullish m) muts \<Longrightarrow>
   find_entry (choice_matches item) muts =
     Inr (case find (id_matches item) muts of None \<Rightarrow> Undefined | Some m \<Rightarrow> m)"
  by (induction muts) (auto simp: choice_matches_object)

lemma find_SomeD: "find P xs = Some x \<Longrightarrow> P x \<and> x \<in> set xs"
  by (induction xs) (auto split: if_splits)

lemma id_matches_payload:
  assumes "id_matches item m" and "field item ''form_item_entity_key'' \<noteq> Undefined"
  shows "\<not> nullish (getprop m ''payload'')"
proof
  assume "nullish (getprop m ''payload'')"
  then have "opt_prop (opt_prop (getprop m ''payload'') ''musicFormBooleanChoice'') ''id'' = Undefined"
    by (simp add: opt_prop_def)
  with assms show False
    by (cases "field item ''form_item_entity_key''") (simp_all add: id_matches_def)
qed

lemma menu_item_step_objects:
  assumes "list_all (\<lambda>m. \<not> nullish m) muts"
      and "field item ''form_item_entity_key'' \<noteq> Undefined"
  shows "menu_item_step (RArr muts) item =
           Inr (if choice_valid (located_choice muts item)
                then (set_field ''selected'' (getprop (located_choice muts item) ''selected'') item, [])
                else (item, [quoted_title item]))"
proof (cases "find (id_matches item) muts")
  case None
  with assms show ?thesis
    by (simp add: menu_item_step_def array_find_def find_entry_objects located_choice_def
        quoted_title_def)
next
  case (Some m)
  from find_SomeD[OF Some] have m: "id_matches item m" "m \<in> set muts" by simp_all
  with assms(1) have "\<not> nullish m" by (simp add: list_all_iff)
  moreover from id_matches_payload[OF m(1) assms(2)] have "\<not> nullish (getprop m ''payload'')" .
  ultimately show ?thesis using assms Some
    by (simp add: menu_item_step_def array_find_def find_entry_objects located_choice_def
        quoted_title_def read_member_def)
qed

lemma menu_items_loop_objects:
  assumes "list_all (\<lambda>m. \<not> nullish m) muts"
  shows "list_all (\<lambda>item. field item ''form_item_entity_key'' \<noteq> Undefined)
           (filter (\<lambda>node. node_type node = ''MusicMultiSelectMenuItem'') nodes) \<Longrightarrow>
         menu_items_loop (RArr muts) nodes missing =
           (None, map (selected_from muts) nodes,
            missing @ map quoted_title
              (failed_items muts (filter (\<lambda>node. node_type node = ''MusicMultiSelectMenuItem'') nodes)))"
proof (induction nodes arbitrary: missing)
  case Nil
  then show ?case by (simp add: failed_items_def)
next
  case (Cons node rest)
  show ?case
  proof (cases "node_type node = ''MusicMultiSelectMenuItem''")
    case False
    with Cons show ?thesis by (simp add: selected_from_def failed_items_def)
  next
    case True
    with Cons.prems have k: "field node ''form_item_entity_key'' \<noteq> Undefined"
      and r: "list_all (\<lambda>item. field item ''form_item_entity_key'' \<noteq> Undefined)
           (filter (\<lambda>node. node_type node = ''MusicMultiSelectMenuItem'') rest)"
      by simp_all
    show ?thesis
      using True Cons.IH[OF r] menu_item_step_objects[OF assms k]
      by (simp add: selected_from_def failed_items_def)
  qed
qed

lemma is_heat_map_object:
  "\<not> nullish m \<Longrightarrow> is_heat_map m = Inr (heat_map_mutation m)"
  by (simp add: is_heat_map_def heat_map_mutation_def read_member_def)

lemma filter_entries_objects:
  "list_all (\<lambda>m. \<not> nullish m) muts \<Longrightarrow>
   filter_entries is_heat_map muts = Inr (filter heat_map_mutation muts)"
  by (induction muts) (auto simp: is_heat_map_object)

lemma recorded_update: "recorded (AList.update name list memo) name = list"
  by (simp add: recorded_def Memo_get_def update_conv')

lemma heat_map_loop_constructed:
  "construct_all C (map (\<lambda>mutation. getprop (getprop mutation ''payload'') ''macroMarkersListEntity'') ms) s
     = (Inr entities, s') \<Longrightarrow>
   heat_map_loop C ms memo s = (Inr (), append_entities entities memo, s')"
proof (induction ms arbitrary: memo s entities)
  case Nil
  then show ?case by (simp add: append_entities_def)
next
  case (Cons m ms)
  let ?d = "getprop (getprop m ''payload'') ''macroMarkersListEntity''"
  from Cons.prems obtain node s1 nodes where
    c: "construct C ?d s = (Inr node, s1)" and
    r: "construct_all C (map (\<lambda>mutation. getprop (getprop mutation ''payload'') ''macroMarkersListEntity'') ms) s1
          = (Inr nodes, s')" and
    e: "entities = node # nodes"
    by (auto split: prod.splits sum.splits)
  have "append_entities nodes
          (AList.update ''MacroMarkersListEntity'' (recorded memo ''MacroMarkersListEntity'' @ [node]) memo)
        = append_entities (node # nodes) memo"
    by (simp add: append_entities_def recorded_update)
  with Cons.IH[OF r] c e show ?case
    by (simp add: recorded_def split: option.splits)
qed

lemma Memo_get_append_entities:
  "Memo_get (append_entities entities memo) name =
     (if name = ''MacroMarkersListEntity'' \<and> entities \<noteq> []
      then Some (recorded memo ''MacroMarkersListEntity'' @ entities)
      else Memo_get memo name)"
  by (simp add: append_entities_def Memo_get_def update_conv')

lemma menu_items_loop_length:
  "menu_items_loop mutations nodes missing = (thrown, nodes', missing') \<Longrightarrow>
   length nodes' = length nodes"
  by (induction nodes arbitrary: missing thrown nodes' missing')
     (auto split: if_splits prod.splits sum.splits)

lemma comment_views_loop_length:
  "comment_views_loop M mutations nodes s = (outcome, nodes', s') \<Longrightarrow>
   length nodes' = length nodes"
  by (induction nodes arbitrary: s outcome nodes' s')
     (auto split: if_splits prod.splits sum.splits)

lemma shape_update:
  "map_of memo name = Some old \<Longrightarrow> length list = length old \<Longrightarrow>
   shape (AList.update name list memo) = shape memo"
  by (induction memo) (auto simp: shape_def)

lemma shape_put_back:
  "length list = length (recorded memo name) \<Longrightarrow> shape (put_back name list memo) = shape memo"
  by (auto simp: put_back_def recorded_def Memo_get_def shape_update split: option.splits)

lemma shape_menu_items:
  "applyMutations_menu_items memo mutations s = (outcome, memo', s') \<Longrightarrow> shape memo' = shape memo"
  by (auto simp: applyMutations_menu_items_def Let_def shape_put_back
      dest!: menu_items_loop_length split: if_splits prod.splits option.splits)

lemma shape_comments:
  "applyCommentsMutations M memo mutations s = (outcome, memo', s') \<Longrightarrow> shape memo' = shape memo"
  by (auto simp: applyCommentsMutations_def Let_def shape_put_back
      dest!: comment_views_loop_length split: if_splits prod.splits)

lemma Memo_get_put_back:
  "Memo_get (put_back name list memo) other =
     (if other = name \<and> Memo_get memo name \<noteq> None then Some list else Memo_get memo other)"
  by (auto simp: put_back_def Memo_get_def update_conv' split: option.splits)

lemma construct_all_length:
  "construct_all C ds s = (Inr nodes, s') \<Longrightarrow> length nodes = length ds"
  by (induction ds arbitrary: s nodes) (auto split: prod.splits sum.splits)

lemma menu_items_other_names:
  "applyMutations_menu_items memo mutations s = (outcome, memo', s') \<Longrightarrow>
   name \<noteq> ''MusicMultiSelectMenuItem'' \<Longrightarrow> Memo_get memo' name = Memo_get memo name"
  by (auto simp: applyMutations_menu_items_def Let_def Memo_get_put_back
      split: if_splits prod.splits option.splits)

lemmas mutation_defs = applyMutations_menu_items_def getType_def recorded_def Memo_get_def
  observe_def menu_item_step_def array_find_def choice_matches_def read_member_def opt_prop_def
  choice_valid_def field_def set_field_def put_back_def ERROR_HANDLER_def

lemmas example_values = menu_item_def choice_mutation_def heat_map_entity_def comment_view_def
  idle_def

lemma comment_view_step_absent:
  "nullish mutations \<Longrightarrow>
   comment_view_step M mutations node s =
     (Inl (TypeError ''Cannot read properties of undefined (reading find)''), s)"
  by (cases mutations) (simp_all add: comment_view_step_def find_payload_def array_find_def)

lemma comment_views_loop_absent:
  "nullish mutations \<Longrightarrow> filter (\<lambda>node. node_type node = ''CommentView'') nodes \<noteq> [] \<Longrightarrow>
   comment_views_loop M mutations nodes s =
     (Inl (TypeError ''Cannot read properties of undefined (reading find)''), nodes, s)"
  by (induction nodes) (auto simp: comment_view_step_absent)

lemma put_back_same: "put_back name (recorded memo name) memo = memo"
  by (auto simp: put_back_def recorded_def Memo_get_def update_triv split: option.splits)

text \<open>
  Claim C2. With a memo that holds a \<open>CommentView\<close> node and an absent mutations list,
  \<open>applyCommentsMutations\<close> reports \<open>mutation_data_missing\<close> once, and then the first
  \<open>mutations.find\<close> of the loop throws a \<open>TypeError\<close>: the call does not return normally.
  The nodes and the memo are as before.
\<close>

theorem applyCommentsMutations_absent:
  assumes "getType memo ''CommentView'' \<noteq> []" and "nullish mutations"
  shows "applyCommentsMutations M memo mutations s =
           (Inl (TypeError ''Cannot read properties of undefined (reading find)''), memo,
            s\<lparr>reported := reported s @ [Mutation_data_missing ''CommentView'']\<rparr>)"
proof -
  from assms(1) have some: "filter (\<lambda>node. node_type node = ''CommentView'')
      (recorded memo ''CommentView'') \<noteq> []"
    by (simp add: getType_def observe_def)
  from assms(2) have falsy: "\<not> truthy mutations" by (cases mutations) simp_all
  have "comment_views_loop M mutations (recorded memo ''CommentView'')
      (ERROR_HANDLER (Mutation_data_missing ''CommentView'') s) =
      (Inl (TypeError ''Cannot read properties of undefined (reading find)''),
       recorded memo ''CommentView'', ERROR_HANDLER (Mutation_data_missing ''CommentView'') s)"
    using assms(2) some by (rule comment_views_loop_absent)
  with assms(1) falsy show ?thesis
    by (simp add: applyCommentsMutations_def Let_def put_back_same ERROR_HANDLER_def)
qed

theorem applyCommentsMutations_absent_witness:
  "applyCommentsMutations (\<lambda>node comment toolbar_state toolbar_surface comment_surface s. (Inr node, s))
     [(''CommentView'', [comment_view])] Undefined idle =
     (Inl (TypeError ''Cannot read properties of undefined (reading find)''),
      [(''CommentView'', [comment_view])],
      idle\<lparr>reported := [Mutation_data_missing ''CommentView'']\<rparr>)"
proof -
  have g: "getType [(''CommentView'', [comment_view])] ''CommentView'' \<noteq> []"
    by (simp add: getType_def recorded_def Memo_get_def observe_def comment_view_def)
  have n: "nullish Undefined" by simp
  from applyCommentsMutations_absent[OF g n, of _ idle] show ?thesis
    by (simp add: idle_def)
qed


text \<open>
  Claim C3, amended. Let the mutations be a list of objects and let every
  \<open>MusicMultiSelectMenuItem\<close> node of the memo have a key. For each such node the pass
  locates the first mutation whose \<open>payload.musicFormBooleanChoice.id\<close> equals the key;
  if that choice carries a defined \<open>selected\<close> and a truthy \<open>opaqueToken\<close>, the node's
  \<open>selected\<close> becomes the choice's \<open>selected\<close>; all other nodes are unchanged and their
  quoted titles are reported, in order, in one \<open>mutation_data_invalid\<close> event with the
  total and the failed count (no event when none failed). When the memo has such a node
  and the mutations are absent, one \<open>mutation_data_missing\<close> event is reported instead
  and nothing else changes.
\<close>

theorem applyMutations_menu_items_pass:
  assumes "list_all (\<lambda>m. \<not> nullish m) muts"
      and "list_all (\<lambda>item. field item ''form_item_entity_key'' \<noteq> Undefined)
             (getType memo ''MusicMultiSelectMenuItem'')"
  shows "applyMutations_menu_items memo (RArr muts) s =
           (Inr (),
            put_back ''MusicMultiSelectMenuItem''
              (map (selected_from muts) (recorded memo ''MusicMultiSelectMenuItem'')) memo,
            if failed_items muts (getType memo ''MusicMultiSelectMenuItem'') = [] then s
            else s\<lparr>reported := reported s @
                   [Mutation_data_invalid ''MusicMultiSelectMenuItem''
                      (length (getType memo ''MusicMultiSelectMenuItem''))
                      (length (failed_items muts (getType memo ''MusicMultiSelectMenuItem'')))
                      (map quoted_title
                         (failed_items muts (getType memo ''MusicMultiSelectMenuItem'')))]\<rparr>) \<and>
         getType
           (put_back ''MusicMultiSelectMenuItem''
              (map (selected_from muts) (recorded memo ''MusicMultiSelectMenuItem'')) memo)
           ''MusicMultiSelectMenuItem'' =
           map (selected_from muts) (getType memo ''MusicMultiSelectMenuItem'') \<and>
         (\<forall>item. node_type item = ''MusicMultiSelectMenuItem'' \<longrightarrow>
            field (selected_from muts item) ''selected'' =
              (if choice_valid (located_choice muts item)
               then getprop (located_choice muts item) ''selected''
               else field item ''selected'')) \<and>
         (getType memo ''MusicMultiSelectMenuItem'' \<noteq> [] \<longrightarrow> \<not> truthy absent \<longrightarrow>
            applyMutations_menu_items memo absent s =
              (Inr (), memo,
               s\<lparr>reported := reported s @ [Mutation_data_missing ''MusicMultiSelectMenuItem'']\<rparr>))"
proof (intro conjI)
  from assms(2) have k: "list_all (\<lambda>item. field item ''form_item_entity_key'' \<noteq> Undefined)
      (filter (\<lambda>node. node_type node = ''MusicMultiSelectMenuItem'')
         (recorded memo ''MusicMultiSelectMenuItem''))"
    by (simp add: getType_def observe_def)
  show "applyMutations_menu_items memo (RArr muts) s =
           (Inr (),
            put_back ''MusicMultiSelectMenuItem''
              (map (selected_from muts) (recorded memo ''MusicMultiSelectMenuItem'')) memo,
            if failed_items muts (getType memo ''MusicMultiSelectMenuItem'') = [] then s
            else s\<lparr>reported := reported s @
                   [Mutation_data_invalid ''MusicMultiSelectMenuItem''
                      (length (getType memo ''MusicMultiSelectMenuItem''))
                      (length (failed_items muts (getType memo ''MusicMultiSelectMenuItem'')))
                      (map quoted_title
                         (failed_items muts (getType memo ''MusicMultiSelectMenuItem'')))]\<rparr>)"
    by (simp add: applyMutations_menu_items_def Let_def menu_items_loop_objects[OF assms(1) k]
        getType_def observe_def ERROR_HANDLER_def)
next
  have t: "node_type (selected_from muts node) = node_type node" for node
    by (simp add: selected_from_def set_field_def)
  have "recorded
      (put_back ''MusicMultiSelectMenuItem''
         (map (selected_from muts) (recorded memo ''MusicMultiSelectMenuItem'')) memo)
      ''MusicMultiSelectMenuItem'' =
      map (selected_from muts) (recorded memo ''MusicMultiSelectMenuItem'')"
    by (simp add: recorded_def Memo_get_put_back split: option.splits)
  then show "getType
           (put_back ''MusicMultiSelectMenuItem''
              (map (selected_from muts) (recorded memo ''MusicMultiSelectMenuItem'')) memo)
           ''MusicMultiSelectMenuItem'' =
           map (selected_from muts) (getType memo ''MusicMultiSelectMenuItem'')"
    by (simp add: getType_def observe_def filter_map comp_def t)
next
  show "\<forall>item. node_type item = ''MusicMultiSelectMenuItem'' \<longrightarrow>
            field (selected_from muts item) ''selected'' =
              (if choice_valid (located_choice muts item)
               then getprop (located_choice muts item) ''selected''
               else field item ''selected'')"
    by (simp add: selected_from_def field_def set_field_def update_conv')
next
  show "getType memo ''MusicMultiSelectMenuItem'' \<noteq> [] \<longrightarrow> \<not> truthy absent \<longrightarrow>
            applyMutations_menu_items memo absent s =
              (Inr (), memo,
               s\<lparr>reported := reported s @ [Mutation_data_missing ''MusicMultiSelectMenuItem'']\<rparr>)"
    by (simp add: applyMutations_menu_items_def Let_def ERROR_HANDLER_def)
qed

theorem applyMutations_menu_items_pass_witness:
  "applyMutations_menu_items
     [(''MusicMultiSelectMenuItem'', [menu_item ''T1'' ''K1'', menu_item ''T2'' ''K2''])]
     (RArr [choice_mutation [(''id'', RStr ''K1''), (''selected'', RBool True),
                             (''opaqueToken'', RStr ''t'')]]) idle =
     (Inr (),
      [(''MusicMultiSelectMenuItem'',
        [set_field ''selected'' (RBool True) (menu_item ''T1'' ''K1''), menu_item ''T2'' ''K2''])],
      idle\<lparr>reported :=
        [Mutation_data_invalid ''MusicMultiSelectMenuItem'' 2 1
           [[CHR 0x27, CHR ''T'', CHR ''2'', CHR 0x27]]]\<rparr>)"
proof -
  let ?memo = "[(''MusicMultiSelectMenuItem'', [menu_item ''T1'' ''K1'', menu_item ''T2'' ''K2''])]"
  let ?muts = "[choice_mutation [(''id'', RStr ''K1''), (''selected'', RBool True),
                             (''opaqueToken'', RStr ''t'')]]"
  have o: "list_all (\<lambda>m. \<not> nullish m) ?muts"
    by (simp add: choice_mutation_def)
  have k: "list_all (\<lambda>item. field item ''form_item_entity_key'' \<noteq> Undefined)
      (getType ?memo ''MusicMultiSelectMenuItem'')"
    by (simp add: getType_def recorded_def Memo_get_def observe_def field_def menu_item_def)
  have c1: "located_choice ?muts (menu_item ''T1'' ''K1'') =
      RObj [(''id'', RStr ''K1''), (''selected'', RBool True), (''opaqueToken'', RStr ''t'')]"
    by (simp add: located_choice_def id_matches_def opt_prop_def field_def example_values)
  have c2: "located_choice ?muts (menu_item ''T2'' ''K2'') = Undefined"
    by (simp add: located_choice_def id_matches_def opt_prop_def field_def example_values)
  have g: "getType ?memo ''MusicMultiSelectMenuItem'' = [menu_item ''T1'' ''K1'', menu_item ''T2'' ''K2'']"
    by (simp add: getType_def recorded_def Memo_get_def observe_def menu_item_def)
  have r: "recorded ?memo ''MusicMultiSelectMenuItem'' = [menu_item ''T1'' ''K1'', menu_item ''T2'' ''K2'']"
    by (simp add: recorded_def Memo_get_def)
  have t: "node_type (menu_item a b) = ''MusicMultiSelectMenuItem''" for a b
    by (simp add: menu_item_def)
  have q: "quoted_title (menu_item ''T2'' ''K2'') = [CHR 0x27, CHR ''T'', CHR ''2'', CHR 0x27]"
    by (simp add: quoted_title_def field_def menu_item_def)
  from applyMutations_menu_items_pass[OF o k, of idle Undefined]
  show ?thesis
    by (simp add: g r c1 c2 t q selected_from_def failed_items_def choice_valid_def opt_prop_def
        put_back_def Memo_get_def idle_def)
qed

text \<open>
  Claim C3 as stated fails: the second mutation has the key of the node and a valid
  choice, but the first mutation with that key decides, and its choice is not valid: the
  node is reported and stays unselected.
\<close>

theorem applyMutations_first_match_only:
  "id_matches (menu_item ''T'' ''K'')
     (choice_mutation [(''id'', RStr ''K''), (''selected'', RBool True), (''opaqueToken'', RStr ''t'')]) \<and>
   choice_valid (RObj [(''id'', RStr ''K''), (''selected'', RBool True), (''opaqueToken'', RStr ''t'')]) \<and>
   applyMutations_menu_items [(''MusicMultiSelectMenuItem'', [menu_item ''T'' ''K''])]
     (RArr [choice_mutation [(''id'', RStr ''K'')],
            choice_mutation [(''id'', RStr ''K''), (''selected'', RBool True),
                             (''opaqueToken'', RStr ''t'')]]) idle =
     (Inr (), [(''MusicMultiSelectMenuItem'', [menu_item ''T'' ''K''])],
      idle\<lparr>reported :=
        [Mutation_data_invalid ''MusicMultiSelectMenuItem'' 1 1 [[CHR 0x27, CHR ''T'', CHR 0x27]]]\<rparr>) \<and>
   field (menu_item ''T'' ''K'') ''selected'' = RBool False"
  by (simp add: id_matches_def mutation_defs example_values Let_def)

text \<open>
  Claim C4. Let the first part of \<open>applyMutations\<close> return, let the mutations be a list
  of objects, and let the constructor of \<open>MacroMarkersListEntity\<close> return on the payloads
  of the heat-map mutations (those whose \<open>macroMarkersListEntity\<close> has
  \<open>markersList.markerType\<close> equal to \<open>MARKER_TYPE_HEATMAP\<close>). Then \<open>applyMutations\<close>
  returns; one node per heat-map mutation is appended under \<open>MacroMarkersListEntity\<close>, in
  order, the list being created when it was absent; under every other class name the memo
  is as the first part left it, and the first part keeps the class names and the number
  of nodes under each. \<open>applyCommentsMutations\<close> keeps them too, and without mutations the
  second part leaves the memo alone.
\<close>

theorem applyMutations_heat_map_only:
  assumes menu_items: "applyMutations_menu_items memo (RArr muts) s = (Inr (), memo1, s1)"
      and objects: "list_all (\<lambda>m. \<not> nullish m) muts"
      and constructed: "construct_all C (heat_map_payloads muts) s1 = (Inr entities, s2)"
  shows "\<exists>memo2.
           applyMutations C memo (RArr muts) s = (Inr (), memo2, s2) \<and>
           length entities = length (filter heat_map_mutation muts) \<and>
           Memo_get memo2 ''MacroMarkersListEntity'' =
             (if entities = [] then Memo_get memo ''MacroMarkersListEntity''
              else Some (recorded memo ''MacroMarkersListEntity'' @ entities)) \<and>
           (\<forall>name. name \<noteq> ''MacroMarkersListEntity'' \<longrightarrow>
              Memo_get memo2 name = Memo_get memo1 name) \<and>
           shape memo1 = shape memo \<and>
           (\<forall>M mutations s outcome memo' s'.
              applyCommentsMutations M memo mutations s = (outcome, memo', s') \<longrightarrow>
              shape memo' = shape memo) \<and>
           (\<forall>absent. \<not> truthy absent \<longrightarrow>
              applyMutations_heat_map C memo absent s = (Inr (), memo, s))"
proof -
  let ?memo2 = "append_entities entities memo1"
  from constructed have loop: "heat_map_loop C (filter heat_map_mutation muts) memo1 s1 =
      (Inr (), ?memo2, s2)"
    unfolding heat_map_payloads_def by (rule heat_map_loop_constructed)
  have run: "applyMutations C memo (RArr muts) s = (Inr (), ?memo2, s2)"
    by (simp add: applyMutations_def menu_items applyMutations_heat_map_def array_filter_def
        filter_entries_objects[OF objects] loop)
  from constructed have count: "length entities = length (filter heat_map_mutation muts)"
    by (simp add: construct_all_length heat_map_payloads_def)
  from menu_items have same: "Memo_get memo1 ''MacroMarkersListEntity'' =
      Memo_get memo ''MacroMarkersListEntity''"
    by (rule menu_items_other_names) simp
  then have rec: "recorded memo1 ''MacroMarkersListEntity'' = recorded memo ''MacroMarkersListEntity''"
    by (simp add: recorded_def)
  have list: "Memo_get ?memo2 ''MacroMarkersListEntity'' =
      (if entities = [] then Memo_get memo ''MacroMarkersListEntity''
       else Some (recorded memo ''MacroMarkersListEntity'' @ entities))"
    by (simp add: Memo_get_append_entities same rec)
  have others: "\<forall>name. name \<noteq> ''MacroMarkersListEntity'' \<longrightarrow>
      Memo_get ?memo2 name = Memo_get memo1 name"
    by (simp add: Memo_get_append_entities)
  from menu_items have sh: "shape memo1 = shape memo" by (rule shape_menu_items)
  have comments: "\<forall>M mutations s outcome memo' s'.
      applyCommentsMutations M memo mutations s = (outcome, memo', s') \<longrightarrow> shape memo' = shape memo"
    by (blast intro: shape_comments)
  have absent: "\<forall>absent. \<not> truthy absent \<longrightarrow>
      applyMutations_heat_map C memo absent s = (Inr (), memo, s)"
    by (simp add: applyMutations_heat_map_def)
  from run count list others sh comments absent show ?thesis by blast
qed


theorem applyMutations_heat_map_only_witness:
  "\<exists>memo2.
     applyMutations (keeps_data ''MacroMarkersListEntity'') []
       (RArr [RObj [(''payload'', RObj [(''macroMarkersListEntity'', heat_map_entity)])],
              choice_mutation [(''id'', RStr ''K'')]]) idle = (Inr (), memo2, idle) \<and>
     Memo_get memo2 ''MacroMarkersListEntity'' =
       Some [YTNode ''MacroMarkersListEntity'' [(''data'', heat_map_entity)]]"
proof -
  let ?muts = "[RObj [(''payload'', RObj [(''macroMarkersListEntity'', heat_map_entity)])],
              choice_mutation [(''id'', RStr ''K'')]]"
  have m: "applyMutations_menu_items [] (RArr ?muts) idle = (Inr (), [], idle)"
    by (simp add: mutation_defs Let_def)
  have o: "list_all (\<lambda>m. \<not> nullish m) ?muts"
    by (simp add: choice_mutation_def)
  have p: "heat_map_payloads ?muts = [heat_map_entity]"
    by (simp add: heat_map_payloads_def heat_map_mutation_def opt_prop_def example_values)
  have c: "construct_all (keeps_data ''MacroMarkersListEntity'') (heat_map_payloads ?muts) idle =
      (Inr [YTNode ''MacroMarkersListEntity'' [(''data'', heat_map_entity)]], idle)"
    by (simp add: p keeps_data_def)
  from applyMutations_heat_map_only[OF m o c]
  show ?thesis by (auto simp: recorded_def Memo_get_def)
qed

section \<open>Properties of the response parser\<close>

lemma map_of_filter_keys:
  "P k \<Longrightarrow> map_of (filter (\<lambda>(key, v). P key) kvs) k = map_of kvs k"
  by (induction kvs) auto

lemma getprop_without_nested:
  "k \<noteq> ''playerResponse'' \<Longrightarrow> k \<noteq> ''watchNextResponse'' \<Longrightarrow>
   getprop (without_nested data) k = getprop data k"
  by (cases data)
     (simp_all add: map_of_filter_keys[where P = "\<lambda>key. key \<noteq> ''playerResponse'' \<and> key \<noteq> ''watchNextResponse''"])

lemma memo_sections_without_nested:
  "memo_sections env (without_nested data) = memo_sections env data"
  by (simp add: memo_sections_def getprop_without_nested)

lemma plain_sections_without_nested:
  "plain_sections env (without_nested data) parsed_data = plain_sections env data parsed_data"
  by (simp add: plain_sections_def getprop_without_nested)

lemma outer_sections_without_nested:
  "outer_sections env (without_nested data) = outer_sections env data"
  by (simp add: outer_sections_def memo_sections_without_nested plain_sections_without_nested
      getprop_without_nested)

lemma memo_section_fresh:
  "memo_section name parser parsed_data (s\<lparr>MEMO := m\<rparr>) = memo_section name parser parsed_data s"
  by (simp add: memo_section_def createMemo_def)

lemma and_then_cong_first:
  "first s = first s' \<Longrightarrow> and_then first next s = and_then first next s'"
  by (simp add: and_then_def)

lemma memo_sections_fresh:
  "memo_sections env data (s\<lparr>MEMO := m\<rparr>) = memo_sections env data s"
  unfolding memo_sections_def by (rule and_then_cong_first) (rule memo_section_fresh)

lemma outer_sections_fresh:
  "outer_sections env data (s\<lparr>MEMO := m\<rparr>) = outer_sections env data s"
  unfolding outer_sections_def by (rule and_then_cong_first) (rule memo_sections_fresh)

lemma parseResponse_fresh:
  "\<not> nullish data \<Longrightarrow> parseResponse env data (s\<lparr>MEMO := m\<rparr>) = parseResponse env data s"
  by (subst parseResponse.simps, subst (2) parseResponse.simps) (simp add: outer_sections_fresh)

lemma parseResponse_returns_object:
  "parseResponse env data s = (Inr parsed_data, s') \<Longrightarrow> \<not> nullish data"
  by (subst (asm) parseResponse.simps) (auto split: if_splits)

lemma map_of_assign: "name \<noteq> k \<Longrightarrow> map_of (assign k v parsed_data) name = map_of parsed_data name"
  by (simp add: assign_def update_conv')

lemma map_of_assign_same: "map_of (assign k v parsed_data) k = Some v"
  by (simp add: assign_def update_conv')

lemma last_sections_keeps:
  assumes "last_sections env data parsed_data s = (Inr parsed_data', s')"
      and "name \<noteq> ''cpn_info''" "name \<noteq> ''entries''" "name \<noteq> ''target_id''"
  shows "map_of parsed_data' name = map_of parsed_data name"
  using assms
  by (auto simp: last_sections_def and_then_def returns_def evaluated_def entries_section_def
      copy_section_def map_of_assign split: if_splits prod.splits sum.splits)


lemma getprop_nested_removed:
  "getprop (without_nested data) ''playerResponse'' = Undefined"
  "getprop (without_nested data) ''watchNextResponse'' = Undefined"
proof -
  have a: "map_of (filter (\<lambda>(key, v). key \<noteq> ''playerResponse'' \<and> key \<noteq> ''watchNextResponse'') kvs)
      ''playerResponse'' = None" for kvs :: "(string \<times> raw) list"
    by (induction kvs) auto
  have b: "map_of (filter (\<lambda>(key, v). key \<noteq> ''playerResponse'' \<and> key \<noteq> ''watchNextResponse'') kvs)
      ''watchNextResponse'' = None" for kvs :: "(string \<times> raw) list"
    by (induction kvs) auto
  show "getprop (without_nested data) ''playerResponse'' = Undefined"
    by (cases data) (simp_all add: a find_index_key_letter[of "CHR ''p''"])
  show "getprop (without_nested data) ''watchNextResponse'' = Undefined"
    by (cases data) (simp_all add: b find_index_key_letter[of "CHR ''w''"])
qed

lemma nullish_without_nested: "nullish (without_nested data) = nullish data"
  by (cases data) simp_all

lemma isArray_without_nested: "isArray (without_nested data) = isArray data"
  by (cases data) simp_all

lemma entries_section_without_nested:
  "entries_section env (without_nested data) parsed_data = entries_section env data parsed_data"
proof -
  have "getprop (without_nested data) ''entries'' = getprop data ''entries''"
    by (simp add: getprop_without_nested)
  then show ?thesis
    unfolding entries_section_def isArray_without_nested by simp
qed

lemma last_sections_without_nested:
  "last_sections env (without_nested data) parsed_data = last_sections env data parsed_data"
  by (simp add: last_sections_def entries_section_without_nested getprop_without_nested)

text \<open>
  On \<open>undefined\<close> and \<open>null\<close> the response parser throws with a fresh memo left active;
  on an array it throws at \<open>data.entries.map\<close> at the latest.
\<close>

lemma parseResponse_nullish:
  "nullish data \<Longrightarrow>
   parseResponse env data s =
     (Inl (TypeError ''Cannot read properties of undefined (reading contents)''), createMemo s)"
  by (subst parseResponse.simps) simp

lemma last_sections_array:
  "isl (fst (last_sections env (RArr xs) parsed_data s))"
  by (simp add: last_sections_def entries_section_def and_then_def returns_def evaluated_def
      find_index_key_letter[of "CHR ''c''"] split: prod.splits sum.splits)

lemma parseResponse_array_throws:
  "isl (fst (parseResponse env (RArr xs) s))"
proof -
  have p: "getprop (RArr xs) ''playerResponse'' = Undefined"
    by (simp add: find_index_key_letter[of "CHR ''p''"])
  have w: "getprop (RArr xs) ''watchNextResponse'' = Undefined"
    by (simp add: find_index_key_letter[of "CHR ''w''"])
  show ?thesis
    using last_sections_array[of env xs]
    by (subst parseResponse.simps) (simp add: p w split: prod.splits sum.splits)
qed

lemma parseResponse_without_nested:
  "parseResponse env (without_nested data) s =
     (if nullish data
      then (Inl (TypeError ''Cannot read properties of undefined (reading contents)''), createMemo s)
      else (case outer_sections env data s of
              (Inl err, s1) \<Rightarrow> (Inl err, s1)
            | (Inr parsed_data, s1) \<Rightarrow> last_sections env data parsed_data s1))"
  by (subst parseResponse.simps)
     (simp add: nullish_without_nested outer_sections_without_nested getprop_nested_removed
        last_sections_without_nested split: prod.splits sum.splits)

lemma memo_properties_not_last:
  "name \<in> set memo_properties \<Longrightarrow>
   name \<noteq> ''cpn_info'' \<and> name \<noteq> ''entries'' \<and> name \<noteq> ''target_id'' \<and>
   name \<noteq> ''player_response'' \<and> name \<noteq> ''watch_next_response''"
  by (auto simp: memo_properties_def)



lemma parseItem_video:
  "parseItem example_nodes example_generator (video v) None s =
     (Inr (Some (parsed_video v)), addToMemo ''Video'' (parsed_video v) s)"
  by (simp add: parseItem_def Let_def video_def parsed_video_def sanitize_video not_ignored_examples
      parseItem_try_def TargetClass_of_def hasParser_def getParserByName_def example_nodes_def
      construct_and_memo_def keeps_data_def)

lemmas section_defs = memo_sections_def plain_sections_def memo_section_def items_section_def
  mutation_passes_def same_object_def item_section_def array_section_def value_section_def
  copy_section_def new_section_def estimated_results_section_def playback_tracking_section_def
  playability_status_section_def streaming_data_section_def player_config_section_def
  bg_challenge_section_def last_sections_def entries_section_def guarded_def parse_value_def
  parseRR_value_def parseLC_value_def parseC_value_def parseActions_value_def parseItem_value_def
  and_then_def returns_def evaluated_def assign_def parse_def parseArray_def observe_def
  createMemo_def clearMemo_def getMemo_def addToMemo_def opt_prop_def
  applyMutations_def applyMutations_menu_items_def applyMutations_heat_map_def
  applyCommentsMutations_def getType_def recorded_def Memo_get_def put_back_def

lemma parseItem_falsy: "\<not> truthy v \<Longrightarrow> parseItem R G v vt s = (Inr None, s)"
  by (simp add: parseItem_def)

lemma outer_sections_inner:
  "outer_sections example_environment inner_document idle = (Inr (parsed_contents ''v''), idle)"
  by (simp add: outer_sections_def inner_document_def section_defs example_environment_def
      parseItem_video parseItem_falsy parsed_contents_def idle_def Let_def)

lemma parseResponse_inner:
  "parseResponse example_environment inner_document idle = (Inr (parsed_contents ''v''), idle)"
  by (subst parseResponse.simps)
     (simp add: outer_sections_inner, simp add: inner_document_def section_defs)

lemma outer_sections_nesting:
  "outer_sections example_environment nesting_document idle = (Inr (parsed_contents ''a''), idle)"
  by (simp add: outer_sections_def nesting_document_def section_defs example_environment_def
      parseItem_video parseItem_falsy parsed_contents_def idle_def Let_def)

lemma parseResponse_nesting:
  "parseResponse example_environment nesting_document idle =
     (Inr (parsed_contents ''a'' @ [(''player_response'', PObject (parsed_contents ''v''))]), idle)"
  by (subst parseResponse.simps)
     (simp add: outer_sections_nesting,
      simp add: nesting_document_def parseResponse_inner[unfolded inner_document_def]
        inner_document_def section_defs parsed_contents_def)

text \<open>
  Claim C9. Let \<open>parseResponse\<close> return on a document. Then the sections before the
  nested responses have returned, with the same result as on the document without its
  \<open>playerResponse\<close> and \<open>watchNextResponse\<close>; every memo property of the parsed response
  is as those sections left it, and equals the memo property of the response parsed
  from the document without the nested responses, when that parse returns. A nested
  \<open>playerResponse\<close> or \<open>watchNextResponse\<close> is parsed by \<open>parseResponse\<close> itself into the
  property \<open>player_response\<close> or \<open>watch_next_response\<close>, and its result does not depend
  on the memo that is active when it starts: it begins with a memo of its own.
\<close>

theorem parseResponse_nested:
  assumes "parseResponse env data s = (Inr parsed_data, s')"
  shows "\<exists>outer s1.
           outer_sections env data s = (Inr outer, s1) \<and>
           outer_sections env (without_nested data) s = (Inr outer, s1) \<and>
           (\<forall>name\<in>set memo_properties. map_of parsed_data name = map_of outer name) \<and>
           (\<forall>alone s0. parseResponse env (without_nested data) s = (Inr alone, s0) \<longrightarrow>
              (\<forall>name\<in>set memo_properties. map_of parsed_data name = map_of alone name)) \<and>
           (truthy (getprop data ''playerResponse'') \<longrightarrow>
              (\<exists>player_response s2.
                 (\<forall>memo. parseResponse env (getprop data ''playerResponse'') (s1\<lparr>MEMO := memo\<rparr>) =
                    (Inr player_response, s2)) \<and>
                 map_of parsed_data ''player_response'' = Some (PObject player_response))) \<and>
           (truthy (getprop data ''watchNextResponse'') \<longrightarrow>
              (\<exists>watch_next_response s2 s3.
                 (\<forall>memo. parseResponse env (getprop data ''watchNextResponse'') (s2\<lparr>MEMO := memo\<rparr>) =
                    (Inr watch_next_response, s3)) \<and>
                 map_of parsed_data ''watch_next_response'' = Some (PObject watch_next_response)))"
proof -
  let ?player = "getprop data ''playerResponse''"
  let ?watch = "getprop data ''watchNextResponse''"
  from assms have object: "\<not> nullish data" by (rule parseResponse_returns_object)
  obtain r1 s1 where o: "outer_sections env data s = (r1, s1)"
    by (cases "outer_sections env data s")
  have unfolded: "parseResponse env data s =
      (case outer_sections env data s of
         (Inl err, s1) \<Rightarrow> (Inl err, s1)
       | (Inr parsed_data, s1) \<Rightarrow>
           (case (if truthy ?player then
                    (case parseResponse env ?player s1 of
                       (Inl err, s2) \<Rightarrow> (Inl err, s2)
                     | (Inr player_response, s2) \<Rightarrow>
                         (Inr (assign ''player_response'' (PObject player_response) parsed_data), s2))
                  else (Inr parsed_data, s1)) of
              (Inl err, s2) \<Rightarrow> (Inl err, s2)
            | (Inr parsed_data, s2) \<Rightarrow>
                (case (if truthy ?watch then
                         (case parseResponse env ?watch s2 of
                            (Inl err, s3) \<Rightarrow> (Inl err, s3)
                          | (Inr watch_next_response, s3) \<Rightarrow>
                              (Inr (assign ''watch_next_response'' (PObject watch_next_response)
                                      parsed_data), s3))
                       else (Inr parsed_data, s2)) of
                   (Inl err, s3) \<Rightarrow> (Inl err, s3)
                 | (Inr parsed_data, s3) \<Rightarrow> last_sections env data parsed_data s3)))"
    using object by (subst parseResponse.simps) (simp only: if_False)
  from assms o obtain outer where outer: "r1 = Inr outer"
    unfolding unfolded by (cases r1) simp_all
  define player_step where "player_step =
    (if truthy ?player then
       (case parseResponse env ?player s1 of
          (Inl err, s2) \<Rightarrow> (Inl err, s2)
        | (Inr player_response, s2) \<Rightarrow>
            (Inr (assign ''player_response'' (PObject player_response) outer), s2))
     else (Inr outer, s1))"
  obtain r2 s2 where p: "player_step = (r2, s2)" by (cases player_step)
  have step1: "parseResponse env data s =
      (case player_step of
         (Inl err, s2) \<Rightarrow> (Inl err, s2)
       | (Inr parsed_data, s2) \<Rightarrow>
           (case (if truthy ?watch then
                    (case parseResponse env ?watch s2 of
                       (Inl err, s3) \<Rightarrow> (Inl err, s3)
                     | (Inr watch_next_response, s3) \<Rightarrow>
                         (Inr (assign ''watch_next_response'' (PObject watch_next_response)
                                 parsed_data), s3))
                  else (Inr parsed_data, s2)) of
              (Inl err, s3) \<Rightarrow> (Inl err, s3)
            | (Inr parsed_data, s3) \<Rightarrow> last_sections env data parsed_data s3))"
    unfolding unfolded o outer player_step_def by (simp only: prod.case sum.case)
  from assms p obtain pd2 where pd2: "r2 = Inr pd2"
    unfolding step1 by (cases r2) simp_all
  define watch_step where "watch_step =
    (if truthy ?watch then
       (case parseResponse env ?watch s2 of
          (Inl err, s3) \<Rightarrow> (Inl err, s3)
        | (Inr watch_next_response, s3) \<Rightarrow>
            (Inr (assign ''watch_next_response'' (PObject watch_next_response) pd2), s3))
     else (Inr pd2, s2))"
  obtain r3 s3 where w: "watch_step = (r3, s3)" by (cases watch_step)
  have step2: "parseResponse env data s =
      (case watch_step of
         (Inl err, s3) \<Rightarrow> (Inl err, s3)
       | (Inr parsed_data, s3) \<Rightarrow> last_sections env data parsed_data s3)"
    unfolding step1 p pd2 watch_step_def by (simp only: prod.case sum.case)
  from assms w obtain pd3 where pd3: "r3 = Inr pd3"
    unfolding step2 by (cases r3) simp_all
  from assms have l: "last_sections env data pd3 s3 = (Inr parsed_data, s')"
    unfolding step2 w pd3 by (simp only: prod.case sum.case)
  \<comment> \<open>the nested responses\<close>
  have player: "truthy ?player \<Longrightarrow>
      \<exists>child. parseResponse env ?player s1 = (Inr child, s2) \<and>
        pd2 = assign ''player_response'' (PObject child) outer"
    using p pd2 by (auto simp: player_step_def split: prod.splits sum.splits)
  have player_keeps: "name \<noteq> ''player_response'' \<Longrightarrow> map_of pd2 name = map_of outer name" for name
    using p pd2 by (auto simp: player_step_def map_of_assign split: if_splits prod.splits sum.splits)
  have watch: "truthy ?watch \<Longrightarrow>
      \<exists>child. parseResponse env ?watch s2 = (Inr child, s3) \<and>
        pd3 = assign ''watch_next_response'' (PObject child) pd2"
    using w pd3 by (auto simp: watch_step_def split: prod.splits sum.splits)
  have watch_keeps: "name \<noteq> ''watch_next_response'' \<Longrightarrow> map_of pd3 name = map_of pd2 name" for name
    using w pd3 by (auto simp: watch_step_def map_of_assign split: if_splits prod.splits sum.splits)
  have last_keeps: "name \<noteq> ''cpn_info'' \<Longrightarrow> name \<noteq> ''entries'' \<Longrightarrow> name \<noteq> ''target_id'' \<Longrightarrow>
      map_of parsed_data name = map_of pd3 name" for name
    using l by (rule last_sections_keeps)
  \<comment> \<open>the memos of the outer response\<close>
  have memos: "\<forall>name\<in>set memo_properties. map_of parsed_data name = map_of outer name"
  proof
    fix name
    assume "name \<in> set memo_properties"
    note n = memo_properties_not_last[OF this]
    from n have "map_of parsed_data name = map_of pd3 name" by (intro last_keeps) simp_all
    also from n have "\<dots> = map_of pd2 name" by (intro watch_keeps) simp
    also from n have "\<dots> = map_of outer name" by (intro player_keeps) simp
    finally show "map_of parsed_data name = map_of outer name" .
  qed
  have alone: "\<forall>alone s0. parseResponse env (without_nested data) s = (Inr alone, s0) \<longrightarrow>
      (\<forall>name\<in>set memo_properties. map_of parsed_data name = map_of alone name)"
  proof (intro allI impI ballI)
    fix alone s0 name
    assume "parseResponse env (without_nested data) s = (Inr alone, s0)"
      and n: "name \<in> set memo_properties"
    with object o outer have "last_sections env data outer s1 = (Inr alone, s0)"
      by (simp add: parseResponse_without_nested)
    moreover note memo_properties_not_last[OF n]
    ultimately have "map_of alone name = map_of outer name"
      by (intro last_sections_keeps) simp_all
    with memos n show "map_of parsed_data name = map_of alone name" by simp
  qed
  have player_result: "truthy ?player \<longrightarrow>
      (\<exists>player_response s2.
         (\<forall>memo. parseResponse env ?player (s1\<lparr>MEMO := memo\<rparr>) = (Inr player_response, s2)) \<and>
         map_of parsed_data ''player_response'' = Some (PObject player_response))"
  proof
    assume t: "truthy ?player"
    with player obtain child where c: "parseResponse env ?player s1 = (Inr child, s2)"
      and a: "pd2 = assign ''player_response'' (PObject child) outer" by blast
    from t have "\<not> nullish ?player" by (cases ?player) simp_all
    then have "\<forall>memo. parseResponse env ?player (s1\<lparr>MEMO := memo\<rparr>) = (Inr child, s2)"
      by (simp add: parseResponse_fresh c)
    moreover have "map_of parsed_data ''player_response'' = Some (PObject child)"
      using last_keeps[of "''player_response''"] watch_keeps[of "''player_response''"] a
      by (simp add: map_of_assign_same)
    ultimately show "\<exists>player_response s2.
         (\<forall>memo. parseResponse env ?player (s1\<lparr>MEMO := memo\<rparr>) = (Inr player_response, s2)) \<and>
         map_of parsed_data ''player_response'' = Some (PObject player_response)"
      by blast
  qed
  have watch_result: "truthy ?watch \<longrightarrow>
      (\<exists>watch_next_response s2 s3.
         (\<forall>memo. parseResponse env ?watch (s2\<lparr>MEMO := memo\<rparr>) = (Inr watch_next_response, s3)) \<and>
         map_of parsed_data ''watch_next_response'' = Some (PObject watch_next_response))"
  proof
    assume t: "truthy ?watch"
    with watch obtain child where c: "parseResponse env ?watch s2 = (Inr child, s3)"
      and a: "pd3 = assign ''watch_next_response'' (PObject child) pd2" by blast
    from t have "\<not> nullish ?watch" by (cases ?watch) simp_all
    then have "\<forall>memo. parseResponse env ?watch (s2\<lparr>MEMO := memo\<rparr>) = (Inr child, s3)"
      by (simp add: parseResponse_fresh c)
    moreover have "map_of parsed_data ''watch_next_response'' = Some (PObject child)"
      using last_keeps[of "''watch_next_response''"] a by (simp add: map_of_assign_same)
    ultimately show "\<exists>watch_next_response s2 s3.
         (\<forall>memo. parseResponse env ?watch (s2\<lparr>MEMO := memo\<rparr>) = (Inr watch_next_response, s3)) \<and>
         map_of parsed_data ''watch_next_response'' = Some (PObject watch_next_response)"
      by blast
  qed
  from o outer have "outer_sections env data s = (Inr outer, s1)" by simp
  moreover from this have "outer_sections env (without_nested data) s = (Inr outer, s1)"
    by (simp add: outer_sections_without_nested)
  ultimately show ?thesis using memos alone player_result watch_result by blast
qed


theorem parseResponse_nested_witness:
  "parseResponse example_environment nesting_document idle =
     (Inr (parsed_contents ''a'' @ [(''player_response'', PObject (parsed_contents ''v''))]), idle) \<and>
   (\<exists>outer s1.
      outer_sections example_environment (without_nested nesting_document) idle = (Inr outer, s1) \<and>
      map_of outer ''contents_memo'' = Some (PMemo [(''Video'', [parsed_video ''a''])])) \<and>
   (\<exists>player_response s2.
      parseResponse example_environment inner_document idle = (Inr player_response, s2) \<and>
      map_of player_response ''contents_memo'' = Some (PMemo [(''Video'', [parsed_video ''v''])]))"
proof -
  note run = parseResponse_nesting
  from parseResponse_nested[OF run] obtain outer s1 where
    o: "outer_sections example_environment nesting_document idle = (Inr outer, s1)" and
    a: "outer_sections example_environment (without_nested nesting_document) idle = (Inr outer, s1)" and
    m: "\<forall>name\<in>set memo_properties.
          map_of (parsed_contents ''a'' @ [(''player_response'', PObject (parsed_contents ''v''))]) name =
          map_of outer name"
    by blast
  have "''contents_memo'' \<in> set memo_properties" by (simp add: memo_properties_def)
  from bspec[OF m this]
  have "map_of outer ''contents_memo'' = Some (PMemo [(''Video'', [parsed_video ''a''])])"
    by (simp add: parsed_contents_def)
  with a run parseResponse_inner show ?thesis
    by (auto simp: parsed_contents_def)
qed

end
